theory Spec2Isabelle
  imports Main "HOL-Library.Multiset"
begin

section \<open>JavaScript values\<close>

text \<open>
  The values that travel through \<^verbatim>\<open>jeopardy.js\<close>: what the remote service answers
  (parsed JSON) and what the program stores in its clue objects. The program never
  calculates with a number, it only converts it to text; so a number is kept as the text
  that \<^verbatim>\<open>String\<close> gives for it (\<^verbatim>\<open>11\<close>, \<^verbatim>\<open>-2.5\<close>, \<^verbatim>\<open>1e+21\<close>), and the
  conversion of a double to text stays outside the model. Objects are association lists,
  read from the front.
\<close>

datatype jsval =
    JUndefined
  | JNull
  | JBool bool
  | JNum string
  | JStr string
  | JArr "jsval list"
  | JObj "(string \<times> jsval) list"

text \<open>
  What a \<^verbatim>\<open>throw\<close> carries: the engine's \<^verbatim>\<open>TypeError\<close> (a property read
  on \<^verbatim>\<open>null\<close> or \<^verbatim>\<open>undefined\<close>, a call of something that is no function), the
  rejection of \<^verbatim>\<open>axios.get\<close>, and \<^verbatim>\<open>new Error(message)\<close>.
\<close>

datatype js_error = TypeError | AxiosError | Error string

text \<open>
  The property read \<^verbatim>\<open>v.k\<close> for the names the program reads (\<^verbatim>\<open>id\<close>,
  \<^verbatim>\<open>title\<close>, \<^verbatim>\<open>clues\<close>, \<^verbatim>\<open>question\<close>, \<^verbatim>\<open>answer\<close>): it throws on
  \<^verbatim>\<open>null\<close> and \<^verbatim>\<open>undefined\<close>, and is \<^verbatim>\<open>undefined\<close> where the property is
  missing. None of these names is a built-in property of a string, number, boolean or array.
\<close>

fun get_prop :: "jsval \<Rightarrow> string \<Rightarrow> js_error + jsval" where
  "get_prop JUndefined k = Inl TypeError"
| "get_prop JNull k = Inl TypeError"
| "get_prop (JObj kvs) k = Inr (case map_of kvs k of None \<Rightarrow> JUndefined | Some v \<Rightarrow> v)"
| "get_prop v k = Inr JUndefined"

text \<open>
  \<^verbatim>\<open>array.map(f)\<close> with a callback that may throw: the first exception ends the
  traversal. On a value that is no array the call itself throws a \<^verbatim>\<open>TypeError\<close>.
\<close>

fun map_throwing :: "('a \<Rightarrow> js_error + 'b) \<Rightarrow> 'a list \<Rightarrow> js_error + 'b list" where
  "map_throwing f [] = Inr []"
| "map_throwing f (x # xs) =
     (case f x of
        Inl e \<Rightarrow> Inl e
      | Inr y \<Rightarrow> (case map_throwing f xs of Inl e \<Rightarrow> Inl e | Inr ys \<Rightarrow> Inr (y # ys)))"

fun js_map :: "(jsval \<Rightarrow> js_error + 'b) \<Rightarrow> jsval \<Rightarrow> js_error + 'b list" where
  "js_map f (JArr xs) = map_throwing f xs"
| "js_map f v = Inl TypeError"

subsection \<open>Conversion to text\<close>

fun join_comma :: "string list \<Rightarrow> string" where
  "join_comma [] = []"
| "join_comma [s] = s"
| "join_comma (s # t # ss) = s @ '','' @ join_comma (t # ss)"

text \<open>
  \<^verbatim>\<open>String(v)\<close>, which is also what a template literal \<^verbatim>\<open>`${v}`\<close> applies. An array
  prints its elements separated by commas, with \<^verbatim>\<open>null\<close> and \<^verbatim>\<open>undefined\<close>
  elements printed as nothing. An object prints as \<^verbatim>\<open>[object Object]\<close> through the
  method it inherits; an object with a property \<^verbatim>\<open>toString\<close> of its own hides that
  method by a value that cannot be called (parsed JSON holds no function), and the
  conversion throws a \<^verbatim>\<open>TypeError\<close>. The elements of an array are converted from the
  left, and the first exception ends the conversion.
\<close>

fun toString :: "jsval \<Rightarrow> js_error + string"
  and join_elements :: "jsval list \<Rightarrow> js_error + string list" where
  "toString JUndefined = Inr ''undefined''"
| "toString JNull = Inr ''null''"
| "toString (JBool b) = Inr (if b then ''true'' else ''false'')"
| "toString (JNum text) = Inr text"
| "toString (JStr s) = Inr s"
| "toString (JArr xs) =
     (case join_elements xs of Inl e \<Rightarrow> Inl e | Inr ss \<Rightarrow> Inr (join_comma ss))"
| "toString (JObj kvs) =
     (case map_of kvs ''toString'' of
        None \<Rightarrow> Inr ''[object Object]''
      | Some v \<Rightarrow> Inl TypeError)"
| "join_elements [] = Inr []"
| "join_elements (x # xs) =
     (case (if x = JUndefined \<or> x = JNull then Inr [] else toString x) of
        Inl e \<Rightarrow> Inl e
      | Inr s \<Rightarrow> (case join_elements xs of Inl e \<Rightarrow> Inl e | Inr ss \<Rightarrow> Inr (s # ss)))"

text \<open>
  The string an assignment \<^verbatim>\<open>element.textContent = v\<close> stores: \<^verbatim>\<open>null\<close> and
  \<^verbatim>\<open>undefined\<close> store the empty string, everything else its \<^verbatim>\<open>String(v)\<close>. The
  conversion comes before the element is touched: when it throws, nothing has changed.
\<close>

definition dom_string :: "jsval \<Rightarrow> js_error + string" where
  "dom_string v = (if v = JUndefined \<or> v = JNull then Inr [] else toString v)"

section \<open>The data of the game\<close>

definition NUM_CATEGORIES :: nat where
  "NUM_CATEGORIES = 6"

definition NUM_CLUES_PER_CAT :: nat where
  "NUM_CLUES_PER_CAT = 5"

text \<open>
  A clue is \<^verbatim>\<open>{question, answer, showing}\<close>; \<^verbatim>\<open>showing\<close> is \<^verbatim>\<open>null\<close>,
  \<^verbatim>\<open>"question"\<close> or \<^verbatim>\<open>"answer"\<close>. A category is \<^verbatim>\<open>{title, clues}\<close>.
\<close>

record clue =
  question :: jsval
  answer :: jsval
  showing :: jsval

record category =
  title :: jsval
  clues :: "clue list"

section \<open>The document\<close>

text \<open>
  A DOM element has its tag, its class list, the \<^verbatim>\<open>clue\<close> property a script may
  have put on it (\<open>None\<close>: the property is \<^verbatim>\<open>undefined\<close>), the number of click
  listeners registered by \<^verbatim>\<open>addClueClickHandler\<close>, and its children, which are
  elements and text nodes.
\<close>

datatype element =
    Element (tagName: string) (classList: "string list") (clue_prop: "clue option")
      (clickListeners: nat) (childNodes: "node list")
and node =
    Text string
  | Elem element

definition createElement :: "string \<Rightarrow> element" where
  "createElement tag = Element tag [] None 0 []"

fun appendChild :: "element \<Rightarrow> element \<Rightarrow> element" where
  "appendChild (Element tag cls c l kids) child = Element tag cls c l (kids @ [Elem child])"

fun set_childNodes :: "element \<Rightarrow> node list \<Rightarrow> element" where
  "set_childNodes (Element tag cls c l kids) kids' = Element tag cls c l kids'"

fun textContent :: "element \<Rightarrow> string" and node_text :: "node \<Rightarrow> string" where
  "textContent (Element tag cls c l kids) = concat (map node_text kids)"
| "node_text (Text s) = s"
| "node_text (Elem e) = textContent e"

text \<open>Assigning \<^verbatim>\<open>textContent\<close> replaces the children by one text node, or by none.\<close>

fun set_textContent :: "element \<Rightarrow> string \<Rightarrow> element" where
  "set_textContent (Element tag cls c l kids) s =
     Element tag cls c l (if s = [] then [] else [Text s])"

fun set_clue :: "element \<Rightarrow> clue \<Rightarrow> element" where
  "set_clue (Element tag cls c l kids) c' = Element tag cls (Some c') l kids"

fun is_tag :: "string \<Rightarrow> node \<Rightarrow> bool" where
  "is_tag t (Text s) = False"
| "is_tag t (Elem e) = (tagName e = t)"

subsection \<open>The table interface of the DOM\<close>

fun insert_before :: "(node \<Rightarrow> bool) \<Rightarrow> node \<Rightarrow> node list \<Rightarrow> node list" where
  "insert_before P x [] = [x]"
| "insert_before P x (k # ks) = (if P k then x # k # ks else k # insert_before P x ks)"

definition insert_after_last :: "(node \<Rightarrow> bool) \<Rightarrow> node \<Rightarrow> node list \<Rightarrow> node list" where
  "insert_after_last P x ks =
     (if list_ex P ks then rev (insert_before P x (rev ks)) else ks @ [x])"

fun update_first :: "(node \<Rightarrow> bool) \<Rightarrow> (element \<Rightarrow> element) \<Rightarrow> node list \<Rightarrow> node list" where
  "update_first P f [] = []"
| "update_first P f (k # ks) =
     (if P k then (case k of Text s \<Rightarrow> Text s | Elem e \<Rightarrow> Elem (f e)) # ks
      else k # update_first P f ks)"

text \<open>
  \<^verbatim>\<open>table.createTHead()\<close> returns the table's first \<^verbatim>\<open>thead\<close>; when there is
  none it makes one and puts it before the first child element that is neither a caption
  nor a column group, or last.
\<close>

definition before_thead :: "node \<Rightarrow> bool" where
  "before_thead k =
     (case k of Text s \<Rightarrow> False
      | Elem e \<Rightarrow> tagName e \<noteq> ''caption'' \<and> tagName e \<noteq> ''colgroup'')"

definition createTHead :: "element \<Rightarrow> element" where
  "createTHead table =
     (if list_ex (is_tag ''thead'') (childNodes table) then table
      else set_childNodes table
        (insert_before before_thead (Elem (createElement ''thead'')) (childNodes table)))"

text \<open>
  \<^verbatim>\<open>table.createTBody()\<close> makes a new \<^verbatim>\<open>tbody\<close> and puts it after the table's
  last \<^verbatim>\<open>tbody\<close>, or last.
\<close>

definition createTBody :: "element \<Rightarrow> element \<Rightarrow> element" where
  "createTBody table tbody =
     set_childNodes table (insert_after_last (is_tag ''tbody'') (Elem tbody) (childNodes table))"

text \<open>The children of the table's \<^verbatim>\<open>thead\<close>, and its \<^verbatim>\<open>tbody\<close> elements, in order.\<close>

definition theadRows :: "element \<Rightarrow> node list" where
  "theadRows table =
     (case find (is_tag ''thead'') (childNodes table) of
        Some (Elem thead) \<Rightarrow> childNodes thead
      | _ \<Rightarrow> [])"

definition tBodies :: "element \<Rightarrow> node list" where
  "tBodies table = filter (is_tag ''tbody'') (childNodes table)"

section \<open>The world the program runs in\<close>

record button =
  disabled :: bool
  buttonText :: string

text \<open>
  The two requests: \<^verbatim>\<open>categories?count=100\<close>, and \<^verbatim>\<open>categories/${catId}/clues\<close> with the
  text of the identifier as the template literal puts it into the address.
\<close>

datatype request = GetCategories nat | GetClues string

text \<open>
  The state the program reads and writes: its module variable \<^verbatim>\<open>categories\<close>, the three
  elements it selects from the page (\<open>None\<close> where \<^verbatim>\<open>querySelector\<close> finds nothing and
  returns \<^verbatim>\<open>null\<close>; of the spinner only \<^verbatim>\<open>style.display\<close> is kept), what it
  wrote with \<^verbatim>\<open>console.error\<close>, and how many random numbers it has drawn. \<open>requests\<close> is
  the history of the calls of \<^verbatim>\<open>axios.get\<close>, each with the spinner and the button as
  they were when the request was issued.
\<close>

record world =
  categories :: "category list"
  jeopardy_table :: "element option"
  loading_spinner :: "string option"
  fetch_data_button :: "button option"
  requests :: "(request \<times> string option \<times> button option) list"
  console :: "js_error list"
  draws :: nat

text \<open>
  What lies outside the program: \<open>respond k r\<close> is the outcome of the request \<open>r\<close> issued
  after \<open>k\<close> earlier ones (\<open>None\<close>: the promise is rejected; \<open>Some d\<close>: the
  response's \<^verbatim>\<open>data\<close> is \<open>d\<close>), and \<open>random k\<close> is the \<open>k\<close>-th random draw.
\<close>

record env =
  respond :: "nat \<Rightarrow> request \<Rightarrow> jsval option"
  random :: "nat \<Rightarrow> nat"

definition log_request :: "request \<Rightarrow> world \<Rightarrow> world" where
  "log_request req w =
     w\<lparr>requests := requests w @ [(req, loading_spinner w, fetch_data_button w)]\<rparr>"

definition axios_get :: "env \<Rightarrow> request \<Rightarrow> world \<Rightarrow> jsval option \<times> world" where
  "axios_get env req w = (respond env (length (requests w)) req, log_request req w)"

definition console_error :: "js_error \<Rightarrow> world \<Rightarrow> world" where
  "console_error error w = w\<lparr>console := console w @ [error]\<rparr>"

section \<open>Sampling\<close>

text \<open>
  \<^verbatim>\<open>_.sampleSize(array, n)\<close> belongs to the lodash library, not to this program; it is
  modelled after the library: it gets \<open>n\<close> random elements at unique positions of the
  array, up to the size of the array. A copy of the array is shuffled from the front for
  \<open>n\<close> steps, clamped to the array's length, and cut to that size; step \<open>index\<close> swaps
  the element there with one at a random position from \<open>index\<close> to the last. The random
  draws are a parameter, so every outcome of the library's generator is covered. The size
  is clamped before the shuffle, so every index it reads is in range.
\<close>

definition baseRandom :: "nat \<Rightarrow> nat \<Rightarrow> nat \<Rightarrow> nat" where
  "baseRandom lower upper r = lower + r mod (upper - lower + 1)"

function shuffleSelf :: "(nat \<Rightarrow> nat) \<Rightarrow> nat \<Rightarrow> nat \<Rightarrow> nat \<Rightarrow> 'a list \<Rightarrow> 'a list" where
  "shuffleSelf rnd k index sz array =
     (if index < sz then
        (let rand = baseRandom index (length array - 1) (rnd k);
             val = array ! rand
         in shuffleSelf rnd (Suc k) (Suc index) sz
              (array[rand := array ! index, index := val]))
      else take sz array)"
  by pat_completeness auto
termination
  by (relation "measure (\<lambda>(rnd, k, index, sz, array). sz - index)") auto

declare shuffleSelf.simps [simp del]

definition sampleSize :: "env \<Rightarrow> 'a list \<Rightarrow> nat \<Rightarrow> world \<Rightarrow> 'a list \<times> world" where
  "sampleSize env array n w =
     (let sz = min n (length array)
      in (shuffleSelf (random env) (draws w) 0 sz array, w\<lparr>draws := draws w + sz\<rparr>))"

section \<open>Fetching\<close>

definition getCategoryIds :: "env \<Rightarrow> world \<Rightarrow> (js_error + jsval list) \<times> world" where
  "getCategoryIds env w =
     (case axios_get env (GetCategories 100) w of
        (None, w1) \<Rightarrow> (Inl AxiosError, w1)
      | (Some data, w1) \<Rightarrow>
          (case js_map (\<lambda>category. get_prop category ''id'') data of
             Inl e \<Rightarrow> (Inl e, w1)
           | Inr catIds \<Rightarrow>
               (case sampleSize env catIds NUM_CATEGORIES w1 of
                  (ids, w2) \<Rightarrow> (Inr ids, w2))))"

text \<open>The callback of \<^verbatim>\<open>categoryData.clues.map\<close>.\<close>

definition format_clue :: "jsval \<Rightarrow> js_error + clue" where
  "format_clue clue =
     (case get_prop clue ''question'' of
        Inl e \<Rightarrow> Inl e
      | Inr q \<Rightarrow>
          (case get_prop clue ''answer'' of
             Inl e \<Rightarrow> Inl e
           | Inr a \<Rightarrow> Inr \<lparr>question = q, answer = a, showing = JNull\<rparr>))"

text \<open>Lines 53 to 69: the category object made from the response's \<^verbatim>\<open>data\<close>.\<close>

definition category_of_data :: "jsval \<Rightarrow> js_error + category" where
  "category_of_data categoryData =
     (case get_prop categoryData ''title'' of
        Inl e \<Rightarrow> Inl e
      | Inr title' \<Rightarrow>
          (case get_prop categoryData ''clues'' of
             Inl e \<Rightarrow> Inl e
           | Inr cl \<Rightarrow>
               (case js_map format_clue cl of
                  Inl e \<Rightarrow> Inl e
                | Inr clues' \<Rightarrow> Inr \<lparr>title = title', clues = clues'\<rparr>)))"

text \<open>
  The \<^verbatim>\<open>try\<close> block of \<^verbatim>\<open>getCategory\<close>, and the function with its \<^verbatim>\<open>catch\<close>. The
  address is put together first, inside the \<^verbatim>\<open>try\<close>: an identifier that cannot be
  converted to text throws there, and no request is issued.
\<close>

definition getCategory_try :: "env \<Rightarrow> jsval \<Rightarrow> world \<Rightarrow> (js_error + category) \<times> world" where
  "getCategory_try env catId w =
     (case toString catId of
        Inl e \<Rightarrow> (Inl e, w)
      | Inr idText \<Rightarrow>
          (case axios_get env (GetClues idText) w of
             (None, w1) \<Rightarrow> (Inl AxiosError, w1)
           | (Some categoryData, w1) \<Rightarrow> (category_of_data categoryData, w1)))"

definition getCategory :: "env \<Rightarrow> jsval \<Rightarrow> world \<Rightarrow> (js_error + category) \<times> world" where
  "getCategory env catId w =
     (case getCategory_try env catId w of
        (Inl error, w1) \<Rightarrow>
          (Inl (Error ''Failed to retrieve category data''), console_error error w1)
      | (Inr cat, w1) \<Rightarrow> (Inr cat, w1))"

text \<open>
  \<^verbatim>\<open>categoryIds.map(catId => getCategory(catId))\<close> starts one call per identifier, in
  order, and \<^verbatim>\<open>Promise.all\<close> joins them: the list of the results when every call
  returned, the first rejection otherwise. The requests are issued in the order of the
  identifiers; the model lets each call finish before the next one starts, which orders
  the console's lines by identifier and changes nothing else.
\<close>

fun getCategory_each ::
  "env \<Rightarrow> jsval list \<Rightarrow> world \<Rightarrow> (js_error + category) list \<times> world" where
  "getCategory_each env [] w = ([], w)"
| "getCategory_each env (catId # rest) w =
     (case getCategory env catId w of
        (r, w1) \<Rightarrow> (case getCategory_each env rest w1 of (rs, w2) \<Rightarrow> (r # rs, w2)))"

fun Promise_all :: "(js_error + 'a) list \<Rightarrow> js_error + 'a list" where
  "Promise_all [] = Inr []"
| "Promise_all (Inl e # ps) = Inl e"
| "Promise_all (Inr x # ps) = (case Promise_all ps of Inl e \<Rightarrow> Inl e | Inr xs \<Rightarrow> Inr (x # xs))"

section \<open>Filling the table\<close>

text \<open>
  The callback of the first \<^verbatim>\<open>categories.forEach\<close>: the new cell, unless the title cannot
  be converted to text. The loop appends the cells to the row one by one; an exception ends
  it and leaves the row with the cells appended so far.
\<close>

definition headerCell :: "category \<Rightarrow> js_error + element" where
  "headerCell category =
     (case dom_string (title category) of
        Inl e \<Rightarrow> Inl e
      | Inr s \<Rightarrow> Inr (set_textContent (createElement ''th'') s))"

fun header_loop :: "category list \<Rightarrow> element \<Rightarrow> js_error option \<times> element" where
  "header_loop [] headerRow = (None, headerRow)"
| "header_loop (category # rest) headerRow =
     (case headerCell category of
        Inl e \<Rightarrow> (Some e, headerRow)
      | Inr cell \<Rightarrow> header_loop rest (appendChild headerRow cell))"

definition bodyCell :: "element" where
  "bodyCell = appendChild (createElement ''td'') (set_textContent (createElement ''span'') ''?'')"

definition bodyRow :: "category list \<Rightarrow> element" where
  "bodyRow cats = foldl (\<lambda>row category. appendChild row bodyCell) (createElement ''tr'') cats"

text \<open>The loop \<^verbatim>\<open>for (let i = 0; i < NUM_CLUES_PER_CAT; i++)\<close> over the new body.\<close>

function body_loop :: "nat \<Rightarrow> category list \<Rightarrow> element \<Rightarrow> element" where
  "body_loop i cats tbody =
     (if i < NUM_CLUES_PER_CAT then body_loop (Suc i) cats (appendChild tbody (bodyRow cats))
      else tbody)"
  by pat_completeness auto
termination
  by (relation "measure (\<lambda>(i, cats, tbody). NUM_CLUES_PER_CAT - i)") auto

declare body_loop.simps [simp del]

text \<open>
  Lines 94 to 116. The DOM calls put each new element into the table empty and fill it in
  place; the model fills it and then puts it in, which gives the same table at the end and
  at an exception. When a header cell throws, the table has its \<^verbatim>\<open>thead\<close> with the new
  row as far as it got, and no new \<^verbatim>\<open>tbody\<close>. The result is the exception, if any, and
  the table as it is then.
\<close>

definition buildGrid :: "category list \<Rightarrow> element \<Rightarrow> js_error option \<times> element" where
  "buildGrid cats table =
     (let table1 = createTHead table;
          (thrown, headerRow) = header_loop cats (createElement ''tr'');
          table2 = set_childNodes table1
            (update_first (is_tag ''thead'') (\<lambda>thead. appendChild thead headerRow)
               (childNodes table1))
      in case thrown of
           Some e \<Rightarrow> (Some e, table2)
         | None \<Rightarrow> (None, createTBody table2 (body_loop 0 cats (createElement ''tbody''))))"

text \<open>
  \<^verbatim>\<open>fillTable\<close> declares no parameter: \<open>args\<close> is what a caller passes all the same,
  and the body never reads it. Its \<^verbatim>\<open>catch\<close> logs whatever the body throws.
\<close>

definition fillTable :: "env \<Rightarrow> category list list \<Rightarrow> world \<Rightarrow> world" where
  "fillTable env args w =
     (case getCategoryIds env w of
        (Inl error, w1) \<Rightarrow> console_error error w1
      | (Inr categoryIds, w1) \<Rightarrow>
          (case getCategory_each env categoryIds w1 of
             (categoryPromises, w2) \<Rightarrow>
               (case Promise_all categoryPromises of
                  Inl error \<Rightarrow> console_error error w2
                | Inr cats \<Rightarrow>
                    (let w3 = w2\<lparr>categories := cats\<rparr>
                     in (case jeopardy_table w3 of
                           None \<Rightarrow> console_error TypeError w3
                         | Some table \<Rightarrow>
                             (case buildGrid (categories w3) table of
                                (None, table') \<Rightarrow> w3\<lparr>jeopardy_table := Some table'\<rparr>
                              | (Some error, table') \<Rightarrow>
                                  console_error error (w3\<lparr>jeopardy_table := Some table'\<rparr>)))))))"

section \<open>The click handler\<close>

text \<open>
  \<^verbatim>\<open>handleClick(evt)\<close> is called with an event object, whose \<^verbatim>\<open>target\<close> is an
  element (or nothing), or, by the registered listener, with an element.
\<close>

datatype click_arg = EventObj "element option" | ElementObj element

text \<open>
  The value of \<^verbatim>\<open>evt.target\<close>. An element has a \<^verbatim>\<open>target\<close> property only when
  it is a link, an area, a base or a form, and then it is a string.
\<close>

datatype target_val = TUndefined | TString | TNode element

definition has_target_attribute :: "element \<Rightarrow> bool" where
  "has_target_attribute el = (tagName el \<in> set [''a'', ''area'', ''base'', ''form''])"

fun get_target :: "click_arg \<Rightarrow> target_val" where
  "get_target (EventObj None) = TUndefined"
| "get_target (EventObj (Some el)) = TNode el"
| "get_target (ElementObj el) = (if has_target_attribute el then TString else TUndefined)"

text \<open>
  \<^verbatim>\<open>clueElement.clue\<close>: throws on \<^verbatim>\<open>undefined\<close>, is \<^verbatim>\<open>undefined\<close> on a
  string, and is the element's own property otherwise.
\<close>

fun get_clue :: "target_val \<Rightarrow> js_error + clue option" where
  "get_clue TUndefined = Inl TypeError"
| "get_clue TString = Inr None"
| "get_clue (TNode el) = Inr (clue_prop el)"

text \<open>
  The handler returns its argument as the assignments leave it: the target's text and the
  clue's \<^verbatim>\<open>showing\<close>. \<^verbatim>\<open>clue.showing\<close> throws when the clue is \<^verbatim>\<open>undefined\<close>. In
  each branch the text is assigned first: when the question or the answer cannot be
  converted to text the assignment throws, and \<^verbatim>\<open>showing\<close> keeps its value.
\<close>

definition handleClick :: "click_arg \<Rightarrow> js_error + click_arg" where
  "handleClick evt =
     (case get_clue (get_target evt) of
        Inl e \<Rightarrow> Inl e
      | Inr None \<Rightarrow> Inl TypeError
      | Inr (Some clue) \<Rightarrow>
          (case get_target evt of
             TNode clueElement \<Rightarrow>
               if showing clue = JNull then
                 (case dom_string (question clue) of
                    Inl e \<Rightarrow> Inl e
                  | Inr text \<Rightarrow>
                      Inr (EventObj (Some (set_clue (set_textContent clueElement text)
                        (clue\<lparr>showing := JStr ''question''\<rparr>)))))
               else if showing clue = JStr ''question'' then
                 (case dom_string (answer clue) of
                    Inl e \<Rightarrow> Inl e
                  | Inr text \<Rightarrow>
                      Inr (EventObj (Some (set_clue (set_textContent clueElement text)
                        (clue\<lparr>showing := JStr ''answer''\<rparr>)))))
               else Inr evt
           | _ \<Rightarrow> Inl TypeError))"

text \<open>\<open>clicks n evt\<close>: the handler applied \<open>n\<close> times in a row, stopping at an exception.\<close>

fun clicks :: "nat \<Rightarrow> click_arg \<Rightarrow> js_error + click_arg" where
  "clicks 0 evt = Inr evt"
| "clicks (Suc n) evt = (case handleClick evt of Inl e \<Rightarrow> Inl e | Inr evt' \<Rightarrow> clicks n evt')"




section \<open>The loading view\<close>

definition showLoadingView :: "world \<Rightarrow> js_error option \<times> world" where
  "showLoadingView w =
     (case jeopardy_table w of
        None \<Rightarrow> (Some TypeError, w)
      | Some jeopardyTable \<Rightarrow>
          (let w1 = w\<lparr>jeopardy_table := Some (set_childNodes jeopardyTable [])\<rparr>
           in (case loading_spinner w1 of
                 None \<Rightarrow> (Some TypeError, w1)
               | Some display \<Rightarrow>
                   (let w2 = w1\<lparr>loading_spinner := Some ''block''\<rparr>
                    in (case fetch_data_button w2 of
                          None \<Rightarrow> (Some TypeError, w2)
                        | Some fetchDataButton \<Rightarrow>
                            (None, w2\<lparr>fetch_data_button :=
                               Some (fetchDataButton\<lparr>disabled := True,
                                 buttonText := ''Loading...''\<rparr>)\<rparr>))))))"

definition hideLoadingView :: "world \<Rightarrow> js_error option \<times> world" where
  "hideLoadingView w =
     (case loading_spinner w of
        None \<Rightarrow> (Some TypeError, w)
      | Some display \<Rightarrow>
          (let w1 = w\<lparr>loading_spinner := Some ''none''\<rparr>
           in (case fetch_data_button w1 of
                 None \<Rightarrow> (Some TypeError, w1)
               | Some fetchDataButton \<Rightarrow>
                   (None, w1\<lparr>fetch_data_button :=
                      Some (fetchDataButton\<lparr>disabled := False,
                        buttonText := ''Fetch Data''\<rparr>)\<rparr>))))"

section \<open>Starting a game\<close>

text \<open>
  \<^verbatim>\<open>setupAndStart\<close> catches whatever its body throws. Its last statement calls
  \<^verbatim>\<open>fillTable(categories)\<close> without awaiting it; \<^verbatim>\<open>fillTable\<close> catches its own
  exceptions, and nothing follows the call, so the model runs it to its end.
\<close>

definition setupAndStart :: "env \<Rightarrow> world \<Rightarrow> world" where
  "setupAndStart env w =
     (case hideLoadingView w of
        (Some error, w1) \<Rightarrow> console_error error w1
      | (None, w1) \<Rightarrow>
          (case getCategoryIds env w1 of
             (Inl error, w2) \<Rightarrow> console_error error w2
           | (Inr categoryIds, w2) \<Rightarrow>
               (case getCategory_each env categoryIds w2 of
                  (categoryPromises, w3) \<Rightarrow>
                    (case Promise_all categoryPromises of
                       Inl error \<Rightarrow> console_error error w3
                     | Inr cats \<Rightarrow> fillTable env [cats] w3))))"

text \<open>An exception of \<^verbatim>\<open>showLoadingView\<close> leaves \<^verbatim>\<open>startGame\<close> before the set-up.\<close>

definition startGame :: "env \<Rightarrow> world \<Rightarrow> js_error option \<times> world" where
  "startGame env w =
     (case showLoadingView w of
        (Some error, w1) \<Rightarrow> (Some error, w1)
      | (None, w1) \<Rightarrow> (None, setupAndStart env w1))"

section \<open>Click listeners\<close>

text \<open>
  \<^verbatim>\<open>addClueClickHandler\<close> over a tree of the document: every element of class
  \<^verbatim>\<open>clue\<close> gets one more listener. The listener calls \<^verbatim>\<open>handleClick(this)\<close>.
\<close>

fun addClueClickHandler :: "element \<Rightarrow> element"
  and addClueClickHandler_node :: "node \<Rightarrow> node" where
  "addClueClickHandler (Element tag cls c l kids) =
     Element tag cls c (if ''clue'' \<in> set cls then Suc l else l)
       (map addClueClickHandler_node kids)"
| "addClueClickHandler_node (Text s) = Text s"
| "addClueClickHandler_node (Elem e) = Elem (addClueClickHandler e)"

definition clueListener :: "element \<Rightarrow> js_error + click_arg" where
  "clueListener this = handleClick (ElementObj this)"

text \<open>The elements of a tree, the root first.\<close>

fun elements_of :: "element \<Rightarrow> element list" and node_elements :: "node \<Rightarrow> element list" where
  "elements_of (Element tag cls c l kids) =
     Element tag cls c l kids # concat (map node_elements kids)"
| "node_elements (Text s) = []"
| "node_elements (Elem e) = elements_of e"

text \<open>
  A click on the element reached from \<open>root\<close> by the child positions \<open>path\<close>: the event
  passes the elements from the root down to it, and bubbles back up through them. Every
  listener on the way is called; the results of the calls are collected, the target's
  first. An exception in one listener does not keep the others from running.
\<close>

fun propagation_path :: "element \<Rightarrow> nat list \<Rightarrow> element list" where
  "propagation_path root [] = [root]"
| "propagation_path root (i # path) =
     root #
       (if i < length (childNodes root) then
          (case childNodes root ! i of Text s \<Rightarrow> [] | Elem e \<Rightarrow> propagation_path e path)
        else [])"

definition dispatchClick :: "element \<Rightarrow> nat list \<Rightarrow> (js_error + click_arg) list" where
  "dispatchClick root path =
     concat (map (\<lambda>this. replicate (clickListeners this) (clueListener this))
       (rev (propagation_path root path)))"

text \<open>
  The shape \<^verbatim>\<open>getCategory\<close> needs of a response's \<^verbatim>\<open>data\<close>: an object whose
  \<^verbatim>\<open>clues\<close> is an array without \<^verbatim>\<open>null\<close> or \<^verbatim>\<open>undefined\<close> entries. The
  properties of the loader relate it to the loader's exceptions.
\<close>

definition well_shaped :: "jsval \<Rightarrow> bool" where
  "well_shaped data =
     (case get_prop data ''clues'' of
        Inr (JArr cl) \<Rightarrow> list_all (\<lambda>c. c \<noteq> JUndefined \<and> c \<noteq> JNull) cl
      | _ \<Rightarrow> False)"

text \<open>
  The fetching phase that \<^verbatim>\<open>fillTable\<close> (lines 88 to 92) and \<^verbatim>\<open>setupAndStart\<close>
  (lines 209 to 213) both run: the identifiers, then one category for each of them, joined.
\<close>

definition fetch_categories :: "env \<Rightarrow> world \<Rightarrow> (js_error + category list) \<times> world" where
  "fetch_categories env w =
     (case getCategoryIds env w of
        (Inl e, w1) \<Rightarrow> (Inl e, w1)
      | (Inr categoryIds, w1) \<Rightarrow>
          (case getCategory_each env categoryIds w1 of
             (categoryPromises, w2) \<Rightarrow> (Promise_all categoryPromises, w2)))"

text \<open>
  The clue requests that the calls of \<^verbatim>\<open>getCategory\<close> for a list of identifiers
  issue: one for each identifier that has a text, in the order of the list.
\<close>

fun clue_requests :: "jsval list \<Rightarrow> request list" where
  "clue_requests [] = []"
| "clue_requests (catId # rest) =
     (case toString catId of
        Inl e \<Rightarrow> clue_requests rest
      | Inr idText \<Rightarrow> GetClues idText # clue_requests rest)"

text \<open>The requests a run has issued: what it added to the history.\<close>

definition issued :: "world \<Rightarrow> world \<Rightarrow> (request \<times> string option \<times> button option) list" where
  "issued w w' = drop (length (requests w)) (requests w')"

section \<open>Sample inputs\<close>

definition demo_clue :: clue where
  "demo_clue = \<lparr>question = JStr ''2+2'', answer = JStr ''4'', showing = JNull\<rparr>"

definition demo_cell :: element where
  "demo_cell = Element ''td'' [''clue''] (Some demo_clue) 0 [Text ''?'']"

text \<open>
  A value that cannot be converted to text (the JSON object \<^verbatim>\<open>{"toString": 1}\<close>), a
  hidden clue with that question, and a cell that carries the clue.
\<close>

definition no_text :: jsval where
  "no_text = JObj [(''toString'', JNum ''1'')]"



definition demo_world :: world where
  "demo_world = \<lparr>categories = [], jeopardy_table = Some (createElement ''table''),
     loading_spinner = Some [],
     fetch_data_button = Some \<lparr>disabled = False, buttonText = ''Fetch Data''\<rparr>,
     requests = [], console = [], draws = 0\<rparr>"

text \<open>
  A service that answers every request: a pool of two entries with the same identifier,
  and one clue for every category. And one whose clue requests fail: the request for
  category 11 is rejected, any other is answered by an object without clues.
\<close>

definition demo_pool :: "jsval list" where
  "demo_pool = [JObj [(''id'', JNum ''11'')], JObj [(''id'', JNum ''11'')]]"

definition demo_env :: env where
  "demo_env = \<lparr>respond = (\<lambda>k r. case r of
       GetCategories n \<Rightarrow> Some (JArr demo_pool)
     | GetClues idText \<Rightarrow> Some (JObj [(''title'', JStr ''Math''),
         (''clues'', JArr [JObj [(''question'', JStr ''2+2''), (''answer'', JStr ''4'')]])])),
     random = (\<lambda>k. k)\<rparr>"

definition failing_env :: env where
  "failing_env = \<lparr>respond = (\<lambda>k r. case r of
       GetCategories n \<Rightarrow> Some (JArr [JObj [(''id'', JNum ''11'')]])
     | GetClues idText \<Rightarrow>
         (if idText = ''11'' then None else Some (JObj [(''title'', JStr ''Math'')]))),
     random = (\<lambda>k. k)\<rparr>"

text \<open>
  A service that answers the requests of the first round of a game start and rejects the
  clue requests after them.
\<close>

definition flaky_env :: env where
  "flaky_env = \<lparr>respond = (\<lambda>k r. case r of
       GetCategories n \<Rightarrow> Some (JArr [JObj [(''id'', JNum ''1'')]])
     | GetClues idText \<Rightarrow>
         (if k < 2 then Some (JObj [(''title'', JStr idText), (''clues'', JArr [])])
          else None)),
     random = (\<lambda>k. 0)\<rparr>"

text \<open>A service that rejects every request.\<close>

definition offline_env :: env where
  "offline_env = \<lparr>respond = (\<lambda>k r. None), random = (\<lambda>k. k)\<rparr>"

definition demo_category :: category where
  "demo_category = \<lparr>title = JStr ''Math'', clues = [demo_clue]\<rparr>"

text \<open>
  A world in the middle of a game: one category is stored, and the table has a header
  row with one cell.
\<close>

definition played_table :: element where
  "played_table = Element ''table'' [] None 0
     [Elem (Element ''thead'' [] None 0
        [Elem (Element ''tr'' [] None 0 [Elem (Element ''th'' [] None 0 [Text ''Math''])])])]"

definition played_world :: world where
  "played_world = demo_world\<lparr>categories := [demo_category],
     jeopardy_table := Some played_table\<rparr>"

text \<open>
  A service whose pool changes between the rounds of a game start: the first request
  is answered by a pool with the identifier 1, every later one by a pool with the
  identifier 2, and the title of a category is the text of its identifier.
\<close>

definition two_round_env :: env where
  "two_round_env = \<lparr>respond = (\<lambda>k r. case r of
       GetCategories n \<Rightarrow> Some (JArr [JObj [(''id'', JNum (if k = 0 then ''1'' else ''2''))]])
     | GetClues idText \<Rightarrow> Some (JObj [(''title'', JStr idText), (''clues'', JArr [])])),
     random = (\<lambda>k. 0)\<rparr>"

text \<open>
  A service with a pool of two categories: the first has the title \<^verbatim>\<open>T1\<close>, the title
  of the second cannot be converted to text.
\<close>

definition mute_env :: env where
  "mute_env = \<lparr>respond = (\<lambda>k r. case r of
       GetCategories n \<Rightarrow> Some (JArr [JObj [(''id'', JNum ''1'')], JObj [(''id'', JNum ''2'')]])
     | GetClues idText \<Rightarrow>
         Some (JObj [(''title'', if idText = ''2'' then no_text else JStr ''T1''),
           (''clues'', JArr [])])),
     random = (\<lambda>k. 0)\<rparr>"

text \<open>
  The board of one category, built on a table that has the class \<^verbatim>\<open>clue\<close>, after
  \<^verbatim>\<open>addClueClickHandler\<close> has run over it.
\<close>

definition demo_board :: element where
  "demo_board = addClueClickHandler
     (snd (buildGrid [demo_category] (Element ''table'' [''clue''] None 0 [])))"

section \<open>Properties of the click handler\<close>








lemma handleClick_Inr:
  assumes "handleClick evt = Inr evt'"
  shows "\<exists>el c. evt = EventObj (Some el) \<and> clue_prop el = Some c"
proof (cases evt)
  case (EventObj t)
  with assms show ?thesis
    by (cases t) (auto simp: handleClick_def split: option.splits)
next
  case (ElementObj el)
  with assms show ?thesis
    by (auto simp: handleClick_def split: option.splits if_splits)
qed




lemma clicks_throws: "handleClick e = Inl err \<Longrightarrow> clicks (Suc n) e = Inl err"
  by simp




section \<open>Properties of the loading view\<close>

lemma showLoadingView_ok:
  assumes "jeopardy_table w = Some t" and "loading_spinner w = Some d"
    and "fetch_data_button w = Some b"
  shows "showLoadingView w =
    (None, w\<lparr>jeopardy_table := Some (set_childNodes t []), loading_spinner := Some ''block'',
       fetch_data_button := Some \<lparr>disabled = True, buttonText = ''Loading...''\<rparr>\<rparr>)"
  using assms by (simp add: showLoadingView_def)

lemma showLoadingView_no_table:
  assumes "jeopardy_table w = None"
  shows "showLoadingView w = (Some TypeError, w)"
  using assms by (simp add: showLoadingView_def)

lemma showLoadingView_no_spinner:
  assumes "jeopardy_table w = Some t" and "loading_spinner w = None"
  shows "showLoadingView w = (Some TypeError, w\<lparr>jeopardy_table := Some (set_childNodes t [])\<rparr>)"
  using assms by (simp add: showLoadingView_def)

lemma showLoadingView_no_button:
  assumes "jeopardy_table w = Some t" and "loading_spinner w = Some d"
    and "fetch_data_button w = None"
  shows "showLoadingView w =
    (Some TypeError, w\<lparr>jeopardy_table := Some (set_childNodes t []),
       loading_spinner := Some ''block''\<rparr>)"
  using assms by (simp add: showLoadingView_def)

lemma hideLoadingView_ok:
  assumes "loading_spinner w = Some d" and "fetch_data_button w = Some b"
  shows "hideLoadingView w =
    (None, w\<lparr>loading_spinner := Some ''none'',
       fetch_data_button := Some \<lparr>disabled = False, buttonText = ''Fetch Data''\<rparr>\<rparr>)"
  using assms by (simp add: hideLoadingView_def)

lemma hideLoadingView_no_spinner:
  assumes "loading_spinner w = None"
  shows "hideLoadingView w = (Some TypeError, w)"
  using assms by (simp add: hideLoadingView_def)

lemma hideLoadingView_no_button:
  assumes "loading_spinner w = Some d" and "fetch_data_button w = None"
  shows "hideLoadingView w = (Some TypeError, w\<lparr>loading_spinner := Some ''none''\<rparr>)"
  using assms by (simp add: hideLoadingView_def)

lemma showLoadingView_button:
  "(fst (showLoadingView w) = None \<and>
      jeopardy_table w \<noteq> None \<and> loading_spinner w \<noteq> None \<and> fetch_data_button w \<noteq> None \<and>
      fetch_data_button (snd (showLoadingView w)) =
        Some \<lparr>disabled = True, buttonText = ''Loading...''\<rparr>)
   \<or> (fst (showLoadingView w) = Some TypeError \<and>
      (jeopardy_table w = None \<or> loading_spinner w = None \<or> fetch_data_button w = None) \<and>
      fetch_data_button (snd (showLoadingView w)) = fetch_data_button w)"
proof (cases "jeopardy_table w")
  case None
  then show ?thesis by (simp add: showLoadingView_no_table)
next
  case t: (Some t)
  show ?thesis
  proof (cases "loading_spinner w")
    case None
    with t show ?thesis by (simp add: showLoadingView_no_spinner)
  next
    case d: (Some d)
    show ?thesis
    proof (cases "fetch_data_button w")
      case None
      with t d show ?thesis by (simp add: showLoadingView_no_button)
    next
      case (Some b)
      with t d show ?thesis by (simp add: showLoadingView_ok)
    qed
  qed
qed

lemma hideLoadingView_button:
  "(fst (hideLoadingView w) = None \<and>
      loading_spinner w \<noteq> None \<and> fetch_data_button w \<noteq> None \<and>
      fetch_data_button (snd (hideLoadingView w)) =
        Some \<lparr>disabled = False, buttonText = ''Fetch Data''\<rparr>)
   \<or> (fst (hideLoadingView w) = Some TypeError \<and>
      (loading_spinner w = None \<or> fetch_data_button w = None) \<and>
      fetch_data_button (snd (hideLoadingView w)) = fetch_data_button w)"
proof (cases "loading_spinner w")
  case None
  then show ?thesis by (simp add: hideLoadingView_no_spinner)
next
  case d: (Some d)
  show ?thesis
  proof (cases "fetch_data_button w")
    case None
    with d show ?thesis by (simp add: hideLoadingView_no_button)
  next
    case (Some b)
    with d show ?thesis by (simp add: hideLoadingView_ok)
  qed
qed

text \<open>
  C9. On a page that has the elements the two functions select, \<^verbatim>\<open>showLoadingView\<close>
  returns and leaves the fetch button disabled with the label "Loading...", and
  \<^verbatim>\<open>hideLoadingView\<close> returns and leaves it enabled with the label "Fetch Data".
  Whenever one of them returns, the button is in its paired state; when one of them
  throws (an element is missing) it has not touched the button. So these two operations
  produce no other combination of flag and label.
\<close>

theorem loading_view_button:
  "(jeopardy_table w \<noteq> None \<and> loading_spinner w \<noteq> None \<and> fetch_data_button w \<noteq> None \<longrightarrow>
      fst (showLoadingView w) = None
      \<and> fetch_data_button (snd (showLoadingView w)) =
          Some \<lparr>disabled = True, buttonText = ''Loading...''\<rparr>)
   \<and> (loading_spinner w \<noteq> None \<and> fetch_data_button w \<noteq> None \<longrightarrow>
      fst (hideLoadingView w) = None
      \<and> fetch_data_button (snd (hideLoadingView w)) =
          Some \<lparr>disabled = False, buttonText = ''Fetch Data''\<rparr>)
   \<and> (fst (showLoadingView w) = None \<longrightarrow>
      fetch_data_button (snd (showLoadingView w)) =
          Some \<lparr>disabled = True, buttonText = ''Loading...''\<rparr>)
   \<and> (fst (hideLoadingView w) = None \<longrightarrow>
      fetch_data_button (snd (hideLoadingView w)) =
          Some \<lparr>disabled = False, buttonText = ''Fetch Data''\<rparr>)
   \<and> (fst (showLoadingView w) \<noteq> None \<longrightarrow>
      fetch_data_button (snd (showLoadingView w)) = fetch_data_button w)
   \<and> (fst (hideLoadingView w) \<noteq> None \<longrightarrow>
      fetch_data_button (snd (hideLoadingView w)) = fetch_data_button w)"
  using showLoadingView_button[of w] hideLoadingView_button[of w]
  by (elim disjE conjE) simp_all

theorem loading_view_button_witness:
  "jeopardy_table demo_world \<noteq> None \<and> loading_spinner demo_world \<noteq> None
   \<and> fetch_data_button demo_world \<noteq> None
   \<and> fst (showLoadingView demo_world) = None
   \<and> fetch_data_button (snd (showLoadingView demo_world)) =
        Some \<lparr>disabled = True, buttonText = ''Loading...''\<rparr>
   \<and> fst (hideLoadingView (snd (showLoadingView demo_world))) = None
   \<and> fetch_data_button (snd (hideLoadingView (snd (showLoadingView demo_world)))) =
        Some \<lparr>disabled = False, buttonText = ''Fetch Data''\<rparr>"
proof -
  have a: "jeopardy_table demo_world \<noteq> None \<and> loading_spinner demo_world \<noteq> None
      \<and> fetch_data_button demo_world \<noteq> None"
    by (simp add: demo_world_def)
  have "showLoadingView demo_world =
    (None, demo_world\<lparr>jeopardy_table := Some (set_childNodes (createElement ''table'') []),
       loading_spinner := Some ''block'',
       fetch_data_button := Some \<lparr>disabled = True, buttonText = ''Loading...''\<rparr>\<rparr>)"
    by (rule showLoadingView_ok) (simp_all add: demo_world_def)
  then have b: "loading_spinner (snd (showLoadingView demo_world)) \<noteq> None
      \<and> fetch_data_button (snd (showLoadingView demo_world)) \<noteq> None"
    by simp
  from a loading_view_button[of demo_world, THEN conjunct1]
  have c: "fst (showLoadingView demo_world) = None
      \<and> fetch_data_button (snd (showLoadingView demo_world)) =
          Some \<lparr>disabled = True, buttonText = ''Loading...''\<rparr>"
    by (rule mp[rotated])
  from b loading_view_button[of "snd (showLoadingView demo_world)", THEN conjunct2, THEN conjunct1]
  have d: "fst (hideLoadingView (snd (showLoadingView demo_world))) = None
      \<and> fetch_data_button (snd (hideLoadingView (snd (showLoadingView demo_world)))) =
          Some \<lparr>disabled = False, buttonText = ''Fetch Data''\<rparr>"
    by (rule mp[rotated])
  from a c d show ?thesis by simp
qed

section \<open>Properties of the category loader\<close>

lemma format_clue_object:
  assumes "c \<noteq> JUndefined" and "c \<noteq> JNull"
  shows "\<exists>q a. format_clue c = Inr \<lparr>question = q, answer = a, showing = JNull\<rparr>
    \<and> get_prop c ''question'' = Inr q \<and> get_prop c ''answer'' = Inr a"
  using assms by (cases c) (simp_all add: format_clue_def)

lemma format_clue_Inr:
  assumes "format_clue d = Inr c"
  shows "d \<noteq> JUndefined \<and> d \<noteq> JNull \<and> showing c = JNull
    \<and> get_prop d ''question'' = Inr (question c) \<and> get_prop d ''answer'' = Inr (answer c)"
  using assms by (auto simp: format_clue_def split: sum.splits)

lemma map_throwing_Inr: "map_throwing f xs = Inr ys \<longleftrightarrow> list_all2 (\<lambda>x y. f x = Inr y) xs ys"
proof (induction xs arbitrary: ys)
  case Nil
  then show ?case by auto
next
  case (Cons x xs)
  show ?case
  proof (cases "f x")
    case (Inl e)
    then show ?thesis by (auto simp: list_all2_Cons1)
  next
    case (Inr y)
    show ?thesis
    proof (cases "map_throwing f xs")
      case (Inl e)
      with Cons.IH[of] Inr show ?thesis by (auto simp: list_all2_Cons1)
    next
      case r: (Inr zs)
      with Cons.IH Inr show ?thesis by (auto simp: list_all2_Cons1)
    qed
  qed
qed

lemma map_throwing_total:
  assumes "\<forall>x \<in> set xs. \<exists>y. f x = Inr y"
  shows "\<exists>ys. map_throwing f xs = Inr ys"
  using assms by (induction xs) auto

lemma js_map_Inr:
  assumes "js_map f v = Inr ys"
  shows "\<exists>xs. v = JArr xs \<and> list_all2 (\<lambda>x y. f x = Inr y) xs ys"
  using assms by (cases v) (simp_all add: map_throwing_Inr)

lemma category_of_data_Inr:
  assumes "category_of_data d = Inr cat"
  shows "\<exists>cl. get_prop d ''title'' = Inr (title cat) \<and> get_prop d ''clues'' = Inr (JArr cl)
    \<and> list_all2 (\<lambda>x c. format_clue x = Inr c) cl (clues cat)"
  using assms
  by (auto simp: category_of_data_def split: sum.splits dest!: js_map_Inr)

lemma well_shaped_returns:
  assumes "well_shaped d"
  shows "\<exists>cat. category_of_data d = Inr cat"
proof -
  from assms obtain cl where cl: "get_prop d ''clues'' = Inr (JArr cl)"
    and ok: "list_all (\<lambda>c. c \<noteq> JUndefined \<and> c \<noteq> JNull) cl"
    by (auto simp: well_shaped_def split: sum.splits jsval.splits)
  from cl have d: "d \<noteq> JUndefined" "d \<noteq> JNull" by auto
  then obtain t where t: "get_prop d ''title'' = Inr t" by (cases d) simp_all
  from ok have "\<forall>x \<in> set cl. \<exists>y. format_clue x = Inr y"
    using format_clue_object by (fastforce simp: list_all_iff)
  then obtain ys where "map_throwing format_clue cl = Inr ys"
    using map_throwing_total by blast
  with cl t show ?thesis by (simp add: category_of_data_def)
qed

lemma returns_well_shaped:
  assumes "category_of_data d = Inr cat"
  shows "well_shaped d"
proof -
  from category_of_data_Inr[OF assms] obtain cl where cl: "get_prop d ''clues'' = Inr (JArr cl)"
    and all: "list_all2 (\<lambda>x c. format_clue x = Inr c) cl (clues cat)" by blast
  have "x \<noteq> JUndefined \<and> x \<noteq> JNull" if "x \<in> set cl" for x
  proof -
    from that all obtain c where "format_clue x = Inr c"
      by (auto simp: list_all2_conv_all_nth in_set_conv_nth)
    then show ?thesis using format_clue_Inr by blast
  qed
  with cl show ?thesis by (simp add: well_shaped_def list_all_iff)
qed

lemma getCategory_unconvertible:
  assumes "toString catId = Inl e"
  shows "getCategory env catId w =
    (Inl (Error ''Failed to retrieve category data''), console_error e w)"
  using assms by (simp add: getCategory_def getCategory_try_def)

lemma getCategory_rejected:
  assumes "toString catId = Inr idText"
    and "respond env (length (requests w)) (GetClues idText) = None"
  shows "getCategory env catId w =
    (Inl (Error ''Failed to retrieve category data''),
     console_error AxiosError (log_request (GetClues idText) w))"
  using assms by (simp add: getCategory_def getCategory_try_def axios_get_def)

lemma getCategory_resolved:
  assumes "toString catId = Inr idText"
    and "respond env (length (requests w)) (GetClues idText) = Some d"
  shows "getCategory env catId w =
    (case category_of_data d of
       Inl e \<Rightarrow> (Inl (Error ''Failed to retrieve category data''),
                 console_error e (log_request (GetClues idText) w))
     | Inr cat \<Rightarrow> (Inr cat, log_request (GetClues idText) w))"
  using assms by (simp add: getCategory_def getCategory_try_def axios_get_def split: sum.splits)

lemma toString_11: "toString (JNum ''11'') = Inr ''11''"
  by simp

lemma toString_no_text: "toString no_text = Inl TypeError"
  by (simp add: no_text_def)

lemma demo_getCategory:
  "getCategory demo_env (JNum ''11'') demo_world =
     (Inr demo_category, log_request (GetClues ''11'') demo_world)"
  by (simp add: getCategory_resolved[OF toString_11] demo_env_def category_of_data_def
      format_clue_def demo_category_def demo_clue_def)

text \<open>
  C8, as the code has it. \<^verbatim>\<open>getCategory\<close> throws in exactly three cases: the identifier
  cannot be converted to text for the address of the request, and then no request is
  issued; the request is rejected; or the response's data has not the shape the loader
  reads. What it throws is always the wrapped error "Failed to retrieve category data". When
  the identifier has a text and the request for it is answered by a well-shaped response,
  it returns a category.
\<close>

theorem getCategory_rethrows:
  "(\<forall>e. toString catId = Inl e \<longrightarrow>
      fst (getCategory env catId w) = Inl (Error ''Failed to retrieve category data'')
    \<and> requests (snd (getCategory env catId w)) = requests w)
   \<and> (\<forall>idText. toString catId = Inr idText
        \<and> respond env (length (requests w)) (GetClues idText) = None \<longrightarrow>
      fst (getCategory env catId w) = Inl (Error ''Failed to retrieve category data''))
   \<and> (\<forall>idText d. toString catId = Inr idText
        \<and> respond env (length (requests w)) (GetClues idText) = Some d
        \<and> \<not> well_shaped d \<longrightarrow>
      fst (getCategory env catId w) = Inl (Error ''Failed to retrieve category data''))
   \<and> (\<forall>idText d. toString catId = Inr idText
        \<and> respond env (length (requests w)) (GetClues idText) = Some d
        \<and> well_shaped d \<longrightarrow>
      (\<exists>cat. fst (getCategory env catId w) = Inr cat))
   \<and> (\<forall>e. fst (getCategory env catId w) = Inl e \<longrightarrow>
      e = Error ''Failed to retrieve category data'')"
proof (cases "toString catId")
  case (Inl e)
  then show ?thesis by (simp add: getCategory_unconvertible console_error_def)
next
  case t: (Inr idText)
  show ?thesis
  proof (cases "respond env (length (requests w)) (GetClues idText)")
    case None
    with t show ?thesis by (simp add: getCategory_rejected)
  next
    case (Some d)
    show ?thesis
    proof (cases "category_of_data d")
      case (Inl e)
      then have "\<not> well_shaped d" using well_shaped_returns by fastforce
      with t Some Inl show ?thesis by (simp add: getCategory_resolved)
    next
      case (Inr cat)
      then have "well_shaped d" by (rule returns_well_shaped)
      with t Some Inr show ?thesis by (simp add: getCategory_resolved)
    qed
  qed
qed

theorem getCategory_rethrows_witness:
  "toString no_text = Inl TypeError
   \<and> fst (getCategory demo_env no_text demo_world) =
       Inl (Error ''Failed to retrieve category data'')
   \<and> requests (snd (getCategory demo_env no_text demo_world)) = requests demo_world
   \<and> toString (JNum ''11'') = Inr ''11''
   \<and> respond failing_env (length (requests demo_world)) (GetClues ''11'') = None
   \<and> fst (getCategory failing_env (JNum ''11'') demo_world) =
       Inl (Error ''Failed to retrieve category data'')
   \<and> toString (JNum ''12'') = Inr ''12''
   \<and> respond failing_env (length (requests demo_world)) (GetClues ''12'') =
       Some (JObj [(''title'', JStr ''Math'')])
   \<and> \<not> well_shaped (JObj [(''title'', JStr ''Math'')])
   \<and> fst (getCategory failing_env (JNum ''12'') demo_world) =
       Inl (Error ''Failed to retrieve category data'')
   \<and> respond demo_env (length (requests demo_world)) (GetClues ''11'') =
       Some (JObj [(''title'', JStr ''Math''),
         (''clues'', JArr [JObj [(''question'', JStr ''2+2''), (''answer'', JStr ''4'')]])])
   \<and> well_shaped (JObj [(''title'', JStr ''Math''),
         (''clues'', JArr [JObj [(''question'', JStr ''2+2''), (''answer'', JStr ''4'')]])])
   \<and> (\<exists>cat. fst (getCategory demo_env (JNum ''11'') demo_world) = Inr cat)"
proof -
  have n: "toString no_text = Inl TypeError"
    by (rule toString_no_text)
  have t11: "toString (JNum ''11'') = Inr ''11''" and t12: "toString (JNum ''12'') = Inr ''12''"
    by simp_all
  have a: "respond failing_env (length (requests demo_world)) (GetClues ''11'') = None"
    by (simp add: failing_env_def)
  have b: "respond failing_env (length (requests demo_world)) (GetClues ''12'') =
       Some (JObj [(''title'', JStr ''Math'')])"
    by (simp add: failing_env_def)
  have c: "\<not> well_shaped (JObj [(''title'', JStr ''Math'')])"
    by (simp add: well_shaped_def)
  have r: "respond demo_env (length (requests demo_world)) (GetClues ''11'') =
       Some (JObj [(''title'', JStr ''Math''),
         (''clues'', JArr [JObj [(''question'', JStr ''2+2''), (''answer'', JStr ''4'')]])])"
    by (simp add: demo_env_def)
  have d: "well_shaped (JObj [(''title'', JStr ''Math''),
         (''clues'', JArr [JObj [(''question'', JStr ''2+2''), (''answer'', JStr ''4'')]])])"
    by (simp add: well_shaped_def)
  have 1: "fst (getCategory demo_env no_text demo_world) =
       Inl (Error ''Failed to retrieve category data'')
    \<and> requests (snd (getCategory demo_env no_text demo_world)) = requests demo_world"
    using getCategory_rethrows[of no_text demo_env demo_world, THEN conjunct1] n by blast
  have 2: "fst (getCategory failing_env (JNum ''11'') demo_world) =
       Inl (Error ''Failed to retrieve category data'')"
    using getCategory_rethrows[of "JNum ''11''" failing_env demo_world,
      THEN conjunct2, THEN conjunct1] t11 a by blast
  have 3: "fst (getCategory failing_env (JNum ''12'') demo_world) =
       Inl (Error ''Failed to retrieve category data'')"
    using getCategory_rethrows[of "JNum ''12''" failing_env demo_world,
      THEN conjunct2, THEN conjunct2, THEN conjunct1] t12 b c by blast
  have 4: "\<exists>cat. fst (getCategory demo_env (JNum ''11'') demo_world) = Inr cat"
    using getCategory_rethrows[of "JNum ''11''" demo_env demo_world,
      THEN conjunct2, THEN conjunct2, THEN conjunct2, THEN conjunct1] t11 r d by blast
  show ?thesis
    by (intro conjI) (fact n, fact 1[THEN conjunct1], fact 1[THEN conjunct2], fact t11,
      fact a, fact 2, fact t12, fact b, fact c, fact 3, fact r, fact d, fact 4)
qed

text \<open>
  The loader also throws when no remote call has thrown: for the identifier
  \<^verbatim>\<open>{"toString": 1}\<close> the address cannot be put together, the wrapped error is thrown
  and no request has been issued, although the service answers every request with a
  well-shaped response.
\<close>

theorem getCategory_rethrows_counterexample:
  "fst (getCategory demo_env no_text demo_world) =
     Inl (Error ''Failed to retrieve category data'')
   \<and> requests (snd (getCategory demo_env no_text demo_world)) = []
   \<and> console (snd (getCategory demo_env no_text demo_world)) = [TypeError]"
  by (simp add: getCategory_unconvertible[OF toString_no_text] console_error_def demo_world_def)

text \<open>
  C3, as the code has it. A call of \<^verbatim>\<open>getCategory\<close> that returns gives the title of
  the response together with one clue for every clue of the response, in the same order,
  with the response's question and answer and with \<^verbatim>\<open>showing\<close> set to \<^verbatim>\<open>null\<close>. The
  number of clues is the number the service sent: the loader does not read
  \<^verbatim>\<open>NUM_CLUES_PER_CAT\<close>. The sample service sends one clue, and one clue is returned.
\<close>

theorem getCategory_result:
  assumes "getCategory env catId w = (Inr cat, w')"
  shows "\<exists>idText d cl. toString catId = Inr idText
     \<and> respond env (length (requests w)) (GetClues idText) = Some d
     \<and> get_prop d ''title'' = Inr (title cat)
     \<and> get_prop d ''clues'' = Inr (JArr cl)
     \<and> length (clues cat) = length cl
     \<and> (\<forall>c \<in> set (clues cat). showing c = JNull)
     \<and> list_all2 (\<lambda>x c. get_prop x ''question'' = Inr (question c)
          \<and> get_prop x ''answer'' = Inr (answer c)) cl (clues cat)"
proof (cases "toString catId")
  case (Inl e)
  with assms show ?thesis by (simp add: getCategory_unconvertible)
next
  case t: (Inr idText)
  show ?thesis
  proof (cases "respond env (length (requests w)) (GetClues idText)")
    case None
    with assms t show ?thesis by (simp add: getCategory_rejected)
  next
    case (Some d)
    with assms t have c: "category_of_data d = Inr cat"
      by (simp add: getCategory_resolved split: sum.splits)
    from category_of_data_Inr[OF c] obtain cl where ti: "get_prop d ''title'' = Inr (title cat)"
      and cl: "get_prop d ''clues'' = Inr (JArr cl)"
      and all: "list_all2 (\<lambda>x c. format_clue x = Inr c) cl (clues cat)" by blast
    from all have len: "length (clues cat) = length cl"
      by (simp add: list_all2_lengthD)
    from all have hidden: "\<forall>c \<in> set (clues cat). showing c = JNull"
      using format_clue_Inr by (fastforce simp: list_all2_conv_all_nth in_set_conv_nth)
    from all have copied: "list_all2 (\<lambda>x c. get_prop x ''question'' = Inr (question c)
          \<and> get_prop x ''answer'' = Inr (answer c)) cl (clues cat)"
      by (rule list_all2_mono) (use format_clue_Inr in blast)
    from t Some ti cl len hidden copied show ?thesis by blast
  qed
qed

theorem getCategory_result_witness:
  "getCategory demo_env (JNum ''11'') demo_world =
     (Inr demo_category, log_request (GetClues ''11'') demo_world)
   \<and> (\<exists>d cl. respond demo_env (length (requests demo_world)) (GetClues ''11'') = Some d
     \<and> get_prop d ''title'' = Inr (JStr ''Math'')
     \<and> get_prop d ''clues'' = Inr (JArr cl)
     \<and> length (clues demo_category) = length cl)"
  using getCategory_result[OF demo_getCategory] demo_getCategory
  by (auto simp: demo_category_def)

theorem getCategory_size_counterexample:
  "fst (getCategory demo_env (JNum ''11'') demo_world) = Inr demo_category
   \<and> length (clues demo_category) = 1 \<and> length (clues demo_category) \<noteq> NUM_CLUES_PER_CAT"
  by (simp add: demo_getCategory demo_category_def NUM_CLUES_PER_CAT_def)

section \<open>Properties of the sampler\<close>

lemma baseRandom_range:
  assumes "index < n"
  shows "index \<le> baseRandom index (n - 1) r \<and> baseRandom index (n - 1) r < n"
proof -
  have eq: "n - 1 - index + 1 = n - index" using assms by simp
  have "r mod (n - index) < n - index" using assms by simp
  then have "index + r mod (n - index) < n" by linarith
  then show ?thesis unfolding baseRandom_def eq by simp
qed

lemma shuffleSelf_permutes:
  assumes "sz \<le> length array"
  shows "\<exists>perm. mset perm = mset array \<and> shuffleSelf rnd k index sz array = take sz perm"
  using assms
proof (induction rnd k index sz array rule: shuffleSelf.induct)
  case (1 rnd k index sz array)
  show ?case
  proof (cases "index < sz")
    case False
    then show ?thesis by (subst shuffleSelf.simps) auto
  next
    case True
    define rand where "rand = baseRandom index (length array - 1) (rnd k)"
    define array' where "array' = array[rand := array ! index, index := array ! rand]"
    from True "1.prems" have i: "index < length array" by simp
    then have r: "rand < length array" unfolding rand_def using baseRandom_range by blast
    have m: "mset array' = mset array"
      unfolding array'_def using i r by (rule mset_swap)
    have l: "sz \<le> length array'" using "1.prems" by (simp add: array'_def)
    from "1.IH"[OF True rand_def refl l[unfolded array'_def]]
    obtain perm where "mset perm = mset array'"
      and "shuffleSelf rnd (Suc k) (Suc index) sz array' = take sz perm"
      unfolding array'_def by blast
    with m True show ?thesis
      by (subst shuffleSelf.simps) (auto simp: Let_def rand_def array'_def)
  qed
qed

lemma mset_take_subset: "mset (take n xs) \<subseteq># mset xs"
proof -
  have "mset xs = mset (take n xs) + mset (drop n xs)"
    by (metis append_take_drop_id mset_append)
  then show ?thesis by simp
qed

lemma sampleSize_sample:
  assumes "sampleSize env array n w = (ids, w')"
  shows "length ids = min n (length array) \<and> mset ids \<subseteq># mset array
    \<and> set ids \<subseteq> set array \<and> (distinct array \<longrightarrow> distinct ids)"
proof -
  define sz where "sz = min n (length array)"
  have ids: "ids = shuffleSelf (random env) (draws w) 0 sz array"
    using assms by (simp add: sampleSize_def Let_def sz_def)
  have "sz \<le> length array" by (simp add: sz_def)
  from shuffleSelf_permutes[OF this, of "random env" "draws w" 0] ids
  obtain perm where p: "mset perm = mset array" and t: "ids = take sz perm" by auto
  from p have len: "length perm = length array" by (rule mset_eq_length)
  have 1: "length ids = min n (length array)" using t len by (simp add: sz_def)
  have 2: "mset ids \<subseteq># mset array" using t p mset_take_subset[of sz perm] by simp
  then have 3: "set ids \<subseteq> set array"
    by (metis set_mset_mono set_mset_mset)
  have 4: "distinct ids" if "distinct array"
  proof -
    from p have "distinct perm = distinct array" by (rule mset_eq_imp_distinct_iff)
    with that have "distinct perm" by simp
    then show ?thesis by (simp add: t)
  qed
  from 1 2 3 4 show ?thesis by blast
qed

lemma sampleSize_world:
  "snd (sampleSize env array n w) = w\<lparr>draws := draws w + min n (length array)\<rparr>"
  by (simp add: sampleSize_def Let_def)

lemma getCategoryIds_resolved:
  assumes "respond env (length (requests w)) (GetCategories 100) = Some d"
  shows "getCategoryIds env w =
    (case js_map (\<lambda>category. get_prop category ''id'') d of
       Inl e \<Rightarrow> (Inl e, log_request (GetCategories 100) w)
     | Inr catIds \<Rightarrow>
         (case sampleSize env catIds NUM_CATEGORIES (log_request (GetCategories 100) w) of
            (ids, w2) \<Rightarrow> (Inr ids, w2)))"
  using assms by (simp add: getCategoryIds_def axios_get_def)

lemma getCategoryIds_rejected:
  assumes "respond env (length (requests w)) (GetCategories 100) = None"
  shows "getCategoryIds env w = (Inl AxiosError, log_request (GetCategories 100) w)"
  using assms by (simp add: getCategoryIds_def axios_get_def)

lemma get_prop_object:
  assumes "c \<noteq> JUndefined" and "c \<noteq> JNull"
  shows "\<exists>v. get_prop c k = Inr v"
  using assms by (cases c) simp_all

lemma demo_getCategoryIds:
  "getCategoryIds demo_env demo_world =
     (Inr [JNum ''11'', JNum ''11''], (log_request (GetCategories 100) demo_world)\<lparr>draws := 2\<rparr>)"
proof -
  have r: "respond demo_env (length (requests demo_world)) (GetCategories 100) =
      Some (JArr demo_pool)"
    by (simp add: demo_env_def)
  have j: "js_map (\<lambda>category. get_prop category ''id'') (JArr demo_pool) =
      Inr [JNum ''11'', JNum ''11'']"
    by (simp add: demo_pool_def)
  have s: "shuffleSelf (random demo_env) 0 0 (Suc (Suc 0)) [JNum ''11'', JNum ''11''] =
      [JNum ''11'', JNum ''11'']"
    by (simp add: shuffleSelf.simps baseRandom_def Let_def demo_env_def)
  have d: "draws (log_request (GetCategories 100) demo_world) = 0"
    by (simp add: log_request_def demo_world_def)
  show ?thesis
    unfolding getCategoryIds_resolved[OF r] j
    by (simp add: sampleSize_def NUM_CATEGORIES_def d s)
qed

text \<open>
  C4, as the code has it. When the service answers with a pool of objects,
  \<^verbatim>\<open>getCategoryIds\<close> returns the smaller of \<^verbatim>\<open>NUM_CATEGORIES\<close> and the pool's size
  many identifiers, drawn from the pool's identifiers without replacement (as a multiset
  they are contained in the pool's), so each of them is an identifier of the pool; they are
  pairwise distinct when the pool's identifiers are. A pool of two entries with the same
  identifier yields two equal identifiers.
\<close>

theorem getCategoryIds_sample:
  assumes resp: "respond env (length (requests w)) (GetCategories 100) = Some (JArr pool)"
    and objs: "\<forall>c \<in> set pool. c \<noteq> JUndefined \<and> c \<noteq> JNull"
  shows "\<exists>catIds ids w'.
      list_all2 (\<lambda>c i. get_prop c ''id'' = Inr i) pool catIds
    \<and> getCategoryIds env w = (Inr ids, w')
    \<and> length ids = min NUM_CATEGORIES (length pool)
    \<and> mset ids \<subseteq># mset catIds
    \<and> set ids \<subseteq> set catIds
    \<and> (distinct catIds \<longrightarrow> distinct ids)"
proof -
  from objs have "\<forall>c \<in> set pool. \<exists>v. get_prop c ''id'' = Inr v"
    using get_prop_object by blast
  then obtain catIds where m: "map_throwing (\<lambda>category. get_prop category ''id'') pool = Inr catIds"
    using map_throwing_total[of pool "\<lambda>category. get_prop category ''id''"] by blast
  then have all: "list_all2 (\<lambda>c i. get_prop c ''id'' = Inr i) pool catIds"
    by (simp only: map_throwing_Inr)
  then have len: "length catIds = length pool" by (simp add: list_all2_lengthD)
  obtain ids w' where s:
    "sampleSize env catIds NUM_CATEGORIES (log_request (GetCategories 100) w) = (ids, w')"
    by (cases "sampleSize env catIds NUM_CATEGORIES (log_request (GetCategories 100) w)")
  have j: "js_map (\<lambda>category. get_prop category ''id'') (JArr pool) = Inr catIds"
    using m by simp
  have g: "getCategoryIds env w = (Inr ids, w')"
    unfolding getCategoryIds_resolved[OF resp] j using s by simp
  note p = sampleSize_sample[OF s, unfolded len]
  show ?thesis
    apply (rule exI[of _ catIds])
    apply (rule exI[of _ ids])
    apply (rule exI[of _ w'])
    using all g p by simp
qed

theorem getCategoryIds_sample_witness:
  "respond demo_env (length (requests demo_world)) (GetCategories 100) = Some (JArr demo_pool)
   \<and> list_all (\<lambda>c. c \<noteq> JUndefined \<and> c \<noteq> JNull) demo_pool
   \<and> (\<exists>ids w'. getCategoryIds demo_env demo_world = (Inr ids, w') \<and> length ids = 2
        \<and> set ids \<subseteq> {JNum ''11''})"
proof -
  have r: "respond demo_env (length (requests demo_world)) (GetCategories 100) =
      Some (JArr demo_pool)"
    by (simp add: demo_env_def)
  have o: "\<forall>c \<in> set demo_pool. c \<noteq> JUndefined \<and> c \<noteq> JNull"
    by (simp add: demo_pool_def)
  from getCategoryIds_sample[OF r o] obtain catIds ids w' where
    a: "list_all2 (\<lambda>c i. get_prop c ''id'' = Inr i) demo_pool catIds"
    and g: "getCategoryIds demo_env demo_world = (Inr ids, w')"
    and l: "length ids = min NUM_CATEGORIES (length demo_pool)"
    and m: "set ids \<subseteq> set catIds"
    by blast
  from a have "catIds = [JNum ''11'', JNum ''11'']"
    by (auto simp: demo_pool_def list_all2_Cons1)
  with m have "set ids \<subseteq> {JNum ''11''}" by simp
  moreover from l have "length ids = 2" by (simp add: demo_pool_def NUM_CATEGORIES_def)
  ultimately show ?thesis using r o g by (simp add: list_all_iff)
qed

theorem getCategoryIds_sample_counterexample:
  "fst (getCategoryIds demo_env demo_world) = Inr [JNum ''11'', JNum ''11'']
   \<and> length [JNum ''11'', JNum ''11''] \<noteq> NUM_CATEGORIES
   \<and> \<not> distinct [JNum ''11'', JNum ''11'']"
  by (simp add: demo_getCategoryIds NUM_CATEGORIES_def)

section \<open>Effects of the fetchers on the world\<close>

lemma log_request_fields [simp]:
  "categories (log_request r w) = categories w"
  "jeopardy_table (log_request r w) = jeopardy_table w"
  "loading_spinner (log_request r w) = loading_spinner w"
  "fetch_data_button (log_request r w) = fetch_data_button w"
  "draws (log_request r w) = draws w"
  "console (log_request r w) = console w"
  "requests (log_request r w) = requests w @ [(r, loading_spinner w, fetch_data_button w)]"
  by (simp_all add: log_request_def)

lemma console_error_fields [simp]:
  "categories (console_error e w) = categories w"
  "jeopardy_table (console_error e w) = jeopardy_table w"
  "loading_spinner (console_error e w) = loading_spinner w"
  "fetch_data_button (console_error e w) = fetch_data_button w"
  "draws (console_error e w) = draws w"
  "requests (console_error e w) = requests w"
  "console (console_error e w) = console w @ [e]"
  by (simp_all add: console_error_def)

lemma shuffleSelf_constant:
  assumes "set array \<subseteq> {a}" and "sz \<le> length array"
  shows "shuffleSelf rnd k index sz array = replicate sz a"
proof -
  from shuffleSelf_permutes[OF assms(2), of rnd k index] obtain perm
    where p: "mset perm = mset array" and r: "shuffleSelf rnd k index sz array = take sz perm"
    by blast
  from p have "set perm = set array" by (rule mset_eq_setD)
  with assms(1) have "\<forall>y \<in> set perm. y = a" by blast
  then have "replicate (length perm) a = perm" by (rule replicate_length_same)
  then have "take sz perm = take sz (replicate (length perm) a)" by simp
  also have "\<dots> = replicate (min sz (length perm)) a" by simp
  also from p assms(2) have "min sz (length perm) = sz"
    using mset_eq_length[OF p] by simp
  finally show ?thesis using r by simp
qed

lemma demo_getCategoryIds_any:
  "getCategoryIds demo_env w =
     (Inr [JNum ''11'', JNum ''11''], (log_request (GetCategories 100) w)\<lparr>draws := draws w + 2\<rparr>)"
proof -
  have r: "respond demo_env (length (requests w)) (GetCategories 100) = Some (JArr demo_pool)"
    by (simp add: demo_env_def)
  have j: "js_map (\<lambda>category. get_prop category ''id'') (JArr demo_pool) =
      Inr [JNum ''11'', JNum ''11'']"
    by (simp add: demo_pool_def)
  have s: "shuffleSelf rnd k 0 (Suc (Suc 0)) [JNum ''11'', JNum ''11''] = replicate (Suc (Suc 0)) (JNum ''11'')"
    for rnd k
    by (rule shuffleSelf_constant) simp_all
  show ?thesis
    unfolding getCategoryIds_resolved[OF r] j
    by (simp add: sampleSize_def NUM_CATEGORIES_def s)
qed

lemma demo_getCategory_any:
  assumes "toString catId = Inr idText"
  shows "getCategory demo_env catId w = (Inr demo_category, log_request (GetClues idText) w)"
  by (simp add: getCategory_resolved[OF assms] demo_env_def category_of_data_def
      format_clue_def demo_category_def demo_clue_def)

lemma demo_fetch_categories:
  "fetch_categories demo_env w =
     (Inr [demo_category, demo_category],
      log_request (GetClues ''11'') (log_request (GetClues ''11'')
        ((log_request (GetCategories 100) w)\<lparr>draws := draws w + 2\<rparr>)))"
  by (simp add: fetch_categories_def demo_getCategoryIds_any demo_getCategory_any[OF toString_11])

lemma failing_getCategoryIds:
  "getCategoryIds failing_env w =
     (Inr [JNum ''11''], (log_request (GetCategories 100) w)\<lparr>draws := draws w + 1\<rparr>)"
proof -
  have r: "respond failing_env (length (requests w)) (GetCategories 100) =
      Some (JArr [JObj [(''id'', JNum ''11'')]])"
    by (simp add: failing_env_def)
  have j: "js_map (\<lambda>category. get_prop category ''id'') (JArr [JObj [(''id'', JNum ''11'')]]) =
      Inr [JNum ''11'']"
    by simp
  have s: "shuffleSelf rnd k 0 (Suc 0) [JNum ''11''] = replicate (Suc 0) (JNum ''11'')" for rnd k
    by (rule shuffleSelf_constant) simp_all
  show ?thesis
    unfolding getCategoryIds_resolved[OF r] j
    by (simp add: sampleSize_def NUM_CATEGORIES_def s)
qed

lemma failing_getCategory:
  "getCategory failing_env (JNum ''11'') w =
     (Inl (Error ''Failed to retrieve category data''),
      console_error AxiosError (log_request (GetClues ''11'') w))"
  by (rule getCategory_rejected) (simp_all add: failing_env_def)

lemma clue_requests_Cons:
  "clue_requests (catId # ids) = clue_requests [catId] @ clue_requests ids"
  by (simp split: sum.splits)

lemma clue_requests_texts:
  assumes "list_all2 (\<lambda>catId idText. toString catId = Inr idText) ids texts"
  shows "clue_requests ids = map GetClues texts"
  using assms by (induction rule: list_all2_induct) simp_all

lemma getCategory_effect:
  assumes "getCategory env catId w = (r, w')"
  shows "categories w' = categories w \<and> jeopardy_table w' = jeopardy_table w
    \<and> loading_spinner w' = loading_spinner w \<and> fetch_data_button w' = fetch_data_button w
    \<and> requests w' = requests w @
        map (\<lambda>q. (q, loading_spinner w, fetch_data_button w)) (clue_requests [catId])"
proof (cases "toString catId")
  case (Inl e)
  from assms[unfolded getCategory_unconvertible[OF Inl]]
  have "w' = console_error e w" by simp
  with Inl show ?thesis by simp
next
  case t: (Inr idText)
  show ?thesis
  proof (cases "respond env (length (requests w)) (GetClues idText)")
    case None
    from assms[unfolded getCategory_rejected[OF t None]]
    have "w' = console_error AxiosError (log_request (GetClues idText) w)" by simp
    with t show ?thesis by simp
  next
    case (Some d)
    show ?thesis
    proof (cases "category_of_data d")
      case (Inl e)
      with assms[unfolded getCategory_resolved[OF t Some]]
      have "w' = console_error e (log_request (GetClues idText) w)" by simp
      with t show ?thesis by simp
    next
      case (Inr cat)
      with assms[unfolded getCategory_resolved[OF t Some]]
      have "w' = log_request (GetClues idText) w" by simp
      with t show ?thesis by simp
    qed
  qed
qed

lemma getCategory_each_effect:
  assumes "getCategory_each env ids w = (rs, w')"
  shows "categories w' = categories w \<and> jeopardy_table w' = jeopardy_table w
    \<and> loading_spinner w' = loading_spinner w \<and> fetch_data_button w' = fetch_data_button w
    \<and> requests w' = requests w @
        map (\<lambda>q. (q, loading_spinner w, fetch_data_button w)) (clue_requests ids)"
  using assms
proof (induction ids arbitrary: w rs w')
  case Nil
  then show ?case by simp
next
  case (Cons catId ids)
  obtain r w1 where g: "getCategory env catId w = (r, w1)"
    by (cases "getCategory env catId w")
  obtain rs' w2 where e: "getCategory_each env ids w1 = (rs', w2)"
    by (cases "getCategory_each env ids w1")
  from Cons.prems g e have w': "w2 = w'" by simp
  from getCategory_effect[OF g] Cons.IH[OF e[unfolded w']] show ?case
    by (simp add: clue_requests_Cons[of catId ids] del: clue_requests.simps)
qed

lemma getCategoryIds_world:
  "\<exists>n. snd (getCategoryIds env w) = (log_request (GetCategories 100) w)\<lparr>draws := n\<rparr>"
proof (cases "respond env (length (requests w)) (GetCategories 100)")
  case None
  then have "snd (getCategoryIds env w) =
      (log_request (GetCategories 100) w)\<lparr>draws := draws w\<rparr>"
    by (simp add: getCategoryIds_rejected log_request_def)
  then show ?thesis by blast
next
  case (Some d)
  show ?thesis
  proof (cases "js_map (\<lambda>category. get_prop category ''id'') d")
    case (Inl e)
    with Some have "snd (getCategoryIds env w) =
        (log_request (GetCategories 100) w)\<lparr>draws := draws w\<rparr>"
      by (simp add: getCategoryIds_resolved log_request_def)
    then show ?thesis by blast
  next
    case (Inr catIds)
    with Some have "snd (getCategoryIds env w) =
        snd (sampleSize env catIds NUM_CATEGORIES (log_request (GetCategories 100) w))"
      by (simp add: getCategoryIds_resolved split: prod.splits)
    then show ?thesis unfolding sampleSize_world by blast
  qed
qed

lemma getCategoryIds_effect:
  assumes "getCategoryIds env w = (r, w')"
  shows "categories w' = categories w \<and> jeopardy_table w' = jeopardy_table w
    \<and> loading_spinner w' = loading_spinner w \<and> fetch_data_button w' = fetch_data_button w
    \<and> requests w' = requests w @ [(GetCategories 100, loading_spinner w, fetch_data_button w)]"
proof -
  from getCategoryIds_world[of env w] assms obtain n
    where "w' = (log_request (GetCategories 100) w)\<lparr>draws := n\<rparr>" by auto
  then show ?thesis by simp
qed

lemma fetch_categories_effect:
  assumes "fetch_categories env w = (r, w')"
  shows "categories w' = categories w \<and> jeopardy_table w' = jeopardy_table w
    \<and> loading_spinner w' = loading_spinner w \<and> fetch_data_button w' = fetch_data_button w
    \<and> requests w' = requests w @
        map (\<lambda>q. (q, loading_spinner w, fetch_data_button w))
          (GetCategories 100 #
            (case fst (getCategoryIds env w) of Inl e \<Rightarrow> [] | Inr ids \<Rightarrow> clue_requests ids))"
proof -
  obtain r1 w1 where g: "getCategoryIds env w = (r1, w1)"
    by (cases "getCategoryIds env w")
  note e1 = getCategoryIds_effect[OF g]
  show ?thesis
  proof (cases r1)
    case (Inl e)
    with g assms have "w' = w1" by (simp add: fetch_categories_def)
    with e1 g Inl show ?thesis by simp
  next
    case (Inr ids)
    obtain ps w2 where p: "getCategory_each env ids w1 = (ps, w2)"
      by (cases "getCategory_each env ids w1")
    with g Inr assms have "w' = w2" by (simp add: fetch_categories_def)
    with e1 getCategory_each_effect[OF p] g Inr show ?thesis by (simp add: comp_def)
  qed
qed

lemma fillTable_fetch:
  "fillTable env args w =
     (case fetch_categories env w of
        (Inl e, w2) \<Rightarrow> console_error e w2
      | (Inr cats, w2) \<Rightarrow>
          (case jeopardy_table w2 of
             None \<Rightarrow> console_error TypeError (w2\<lparr>categories := cats\<rparr>)
           | Some table \<Rightarrow>
               (case buildGrid cats table of
                  (None, table') \<Rightarrow> w2\<lparr>categories := cats, jeopardy_table := Some table'\<rparr>
                | (Some e, table') \<Rightarrow>
                    console_error e (w2\<lparr>categories := cats, jeopardy_table := Some table'\<rparr>))))"
proof -
  obtain r1 w1 where g: "getCategoryIds env w = (r1, w1)"
    by (cases "getCategoryIds env w")
  show ?thesis
  proof (cases r1)
    case (Inl e)
    with g show ?thesis by (simp add: fillTable_def fetch_categories_def)
  next
    case (Inr ids)
    obtain ps w2 where p: "getCategory_each env ids w1 = (ps, w2)"
      by (cases "getCategory_each env ids w1")
    show ?thesis
    proof (cases "Promise_all ps")
      case (Inl e)
      with g Inr p show ?thesis by (simp add: fillTable_def fetch_categories_def)
    next
      case r: (Inr cats)
      with g Inr p show ?thesis
        by (cases "jeopardy_table w2")
          (simp_all add: fillTable_def fetch_categories_def split: prod.splits option.splits)
    qed
  qed
qed

lemma setupAndStart_fetch:
  "setupAndStart env w =
     (case hideLoadingView w of
        (Some e, w1) \<Rightarrow> console_error e w1
      | (None, w1) \<Rightarrow>
          (case fetch_categories env w1 of
             (Inl e, w3) \<Rightarrow> console_error e w3
           | (Inr cats, w3) \<Rightarrow> fillTable env [cats] w3))"
proof -
  obtain h w1 where hd: "hideLoadingView w = (h, w1)"
    by (cases "hideLoadingView w")
  show ?thesis
  proof (cases h)
    case (Some e)
    with hd show ?thesis by (simp add: setupAndStart_def)
  next
    case None
    obtain r1 w2 where g: "getCategoryIds env w1 = (r1, w2)"
      by (cases "getCategoryIds env w1")
    show ?thesis
    proof (cases r1)
      case (Inl e)
      with hd None g show ?thesis by (simp add: setupAndStart_def fetch_categories_def)
    next
      case (Inr ids)
      obtain ps w3 where p: "getCategory_each env ids w2 = (ps, w3)"
        by (cases "getCategory_each env ids w2")
      with hd None g Inr show ?thesis
        by (cases "Promise_all ps") (simp_all add: setupAndStart_def fetch_categories_def)
    qed
  qed
qed

lemma Promise_all_Inl: "(\<exists>e. Promise_all ps = Inl e) \<longleftrightarrow> (\<exists>p \<in> set ps. isl p)"
proof (induction ps)
  case Nil
  then show ?case by simp
next
  case (Cons p ps)
  show ?case
  proof (cases p)
    case (Inl e)
    then show ?thesis by simp
  next
    case (Inr x)
    with Cons show ?thesis by (cases "Promise_all ps") auto
  qed
qed

lemma shuffleSelf_identity:
  assumes "\<forall>k. rnd k = 0" and "sz \<le> length array"
  shows "shuffleSelf rnd k index sz array = take sz array"
  using assms
proof (induction rnd k index sz array rule: shuffleSelf.induct)
  case (1 rnd k index sz array)
  show ?case
  proof (cases "index < sz")
    case False
    then show ?thesis by (subst shuffleSelf.simps) simp
  next
    case True
    have r: "baseRandom index (length array - 1) (rnd k) = index"
      using "1.prems"(1) by (simp add: baseRandom_def)
    have same: "array[index := array ! index, index := array ! index] = array"
      by simp
    from "1.IH"[OF True refl refl "1.prems"(1)] "1.prems"(2)
    have "shuffleSelf rnd (Suc k) (Suc index) sz
        (array[baseRandom index (length array - 1) (rnd k) := array ! index,
           index := array ! baseRandom index (length array - 1) (rnd k)]) = take sz array"
      unfolding r same by simp
    with True show ?thesis
      by (subst shuffleSelf.simps) (simp add: Let_def)
  qed
qed

lemma two_round_getCategoryIds:
  "getCategoryIds two_round_env w =
     (Inr [JNum (if length (requests w) = 0 then ''1'' else ''2'')],
      (log_request (GetCategories 100) w)\<lparr>draws := draws w + 1\<rparr>)"
proof -
  define v where "v = JNum (if length (requests w) = 0 then ''1'' else ''2'')"
  have r: "respond two_round_env (length (requests w)) (GetCategories 100) =
      Some (JArr [JObj [(''id'', v)]])"
    by (simp add: two_round_env_def v_def)
  have j: "js_map (\<lambda>category. get_prop category ''id'') (JArr [JObj [(''id'', v)]]) = Inr [v]"
    by simp
  have s: "shuffleSelf rnd k 0 (Suc 0) [v] = replicate (Suc 0) v" for rnd k
    by (rule shuffleSelf_constant) simp_all
  have "getCategoryIds two_round_env w =
      (Inr [v], (log_request (GetCategories 100) w)\<lparr>draws := draws w + 1\<rparr>)"
    unfolding getCategoryIds_resolved[OF r] j
    by (simp add: sampleSize_def NUM_CATEGORIES_def s)
  then show ?thesis by (simp only: v_def)
qed

lemma two_round_getCategory:
  "getCategory two_round_env (JNum idText) w =
     (Inr \<lparr>title = JStr idText, clues = []\<rparr>, log_request (GetClues idText) w)"
proof -
  have t: "toString (JNum idText) = Inr idText" by simp
  show ?thesis
    by (simp add: getCategory_resolved[OF t] two_round_env_def category_of_data_def)
qed

lemma two_round_fetch_categories:
  "fetch_categories two_round_env w =
     (if length (requests w) = 0 then
        (Inr [\<lparr>title = JStr ''1'', clues = []\<rparr>],
         log_request (GetClues ''1'')
           ((log_request (GetCategories 100) w)\<lparr>draws := draws w + 1\<rparr>))
      else
        (Inr [\<lparr>title = JStr ''2'', clues = []\<rparr>],
         log_request (GetClues ''2'')
           ((log_request (GetCategories 100) w)\<lparr>draws := draws w + 1\<rparr>)))"
  by (simp add: fetch_categories_def two_round_getCategoryIds two_round_getCategory)

lemma mute_getCategoryIds:
  "getCategoryIds mute_env w =
     (Inr [JNum ''1'', JNum ''2''], (log_request (GetCategories 100) w)\<lparr>draws := draws w + 2\<rparr>)"
proof -
  have r: "respond mute_env (length (requests w)) (GetCategories 100) =
      Some (JArr [JObj [(''id'', JNum ''1'')], JObj [(''id'', JNum ''2'')]])"
    by (simp add: mute_env_def)
  have j: "js_map (\<lambda>category. get_prop category ''id'')
      (JArr [JObj [(''id'', JNum ''1'')], JObj [(''id'', JNum ''2'')]]) =
      Inr [JNum ''1'', JNum ''2'']"
    by simp
  have z: "\<forall>k. random mute_env k = 0"
    by (simp add: mute_env_def)
  have s: "shuffleSelf (random mute_env) k 0 (Suc (Suc 0)) [JNum ''1'', JNum ''2''] =
      [JNum ''1'', JNum ''2'']" for k
    using shuffleSelf_identity[OF z, of "Suc (Suc 0)" "[JNum ''1'', JNum ''2'']" k 0] by simp
  show ?thesis
    unfolding getCategoryIds_resolved[OF r] j
    by (simp add: sampleSize_def NUM_CATEGORIES_def s)
qed

lemma mute_getCategory:
  "getCategory mute_env (JNum idText) w =
     (Inr \<lparr>title = (if idText = ''2'' then no_text else JStr ''T1''), clues = []\<rparr>,
      log_request (GetClues idText) w)"
proof -
  have t: "toString (JNum idText) = Inr idText" by simp
  show ?thesis
    by (simp add: getCategory_resolved[OF t] mute_env_def category_of_data_def)
qed

lemma mute_fetch_categories:
  "fetch_categories mute_env w =
     (Inr [\<lparr>title = JStr ''T1'', clues = []\<rparr>, \<lparr>title = no_text, clues = []\<rparr>],
      log_request (GetClues ''2'') (log_request (GetClues ''1'')
        ((log_request (GetCategories 100) w)\<lparr>draws := draws w + 2\<rparr>)))"
  by (simp add: fetch_categories_def mute_getCategoryIds mute_getCategory)

section \<open>Properties of the grid builder\<close>

lemma childNodes_set_childNodes [simp]: "childNodes (set_childNodes e ks) = ks"
  by (cases e) simp

lemma tagName_set_childNodes [simp]: "tagName (set_childNodes e ks) = tagName e"
  by (cases e) simp

lemma childNodes_appendChild [simp]: "childNodes (appendChild e c) = childNodes e @ [Elem c]"
  by (cases e) simp

lemma tagName_appendChild [simp]: "tagName (appendChild e c) = tagName e"
  by (cases e) simp

lemma set_childNodes_appendChild [simp]:
  "set_childNodes (appendChild e c) ks = set_childNodes e ks"
  by (cases e) simp

lemma set_childNodes_same [simp]: "set_childNodes e (childNodes e) = e"
  by (cases e) simp

lemma foldl_appendChild:
  "foldl (\<lambda>row c. appendChild row (f c)) e cs =
     set_childNodes e (childNodes e @ map (\<lambda>c. Elem (f c)) cs)"
  by (induction cs arbitrary: e) simp_all

lemma bodyRow_eq: "bodyRow cs = Element ''tr'' [] None 0 (map (\<lambda>c. Elem bodyCell) cs)"
  by (simp add: bodyRow_def foldl_appendChild createElement_def)

lemma bodyCell_eq:
  "bodyCell = Element ''td'' [] None 0 [Elem (Element ''span'' [] None 0 [Text ''?''])]"
  by (simp add: bodyCell_def createElement_def)

lemma headerCell_Inr:
  assumes "dom_string (title c) = Inr t"
  shows "headerCell c = Inr (set_textContent (createElement ''th'') t)"
  using assms by (simp add: headerCell_def)

lemma headerCell_Inl:
  assumes "dom_string (title c) = Inl e"
  shows "headerCell c = Inl e"
  using assms by (simp add: headerCell_def)

lemma th_cell_eq:
  "set_textContent (createElement ''th'') t =
     Element ''th'' [] None 0 (if t = [] then [] else [Text t])"
  by (simp add: createElement_def)

lemma header_loop_all:
  assumes "list_all2 (\<lambda>c t. dom_string (title c) = Inr t) cs texts"
  shows "header_loop cs row =
    (None, set_childNodes row
       (childNodes row @ map (\<lambda>t. Elem (set_textContent (createElement ''th'') t)) texts))"
  using assms
proof (induction arbitrary: row rule: list_all2_induct)
  case Nil
  then show ?case by simp
next
  case (Cons c t cs texts)
  show ?case by (simp add: headerCell_Inr[OF Cons(1)] Cons.IH)
qed

lemma header_loop_stops:
  assumes "list_all2 (\<lambda>c t. dom_string (title c) = Inr t) pre texts"
    and "dom_string (title c) = Inl e"
  shows "header_loop (pre @ c # post) row =
    (Some e, set_childNodes row
       (childNodes row @ map (\<lambda>t. Elem (set_textContent (createElement ''th'') t)) texts))"
  using assms(1)
proof (induction arbitrary: row rule: list_all2_induct)
  case Nil
  then show ?case by (simp add: headerCell_Inl[OF assms(2)])
next
  case (Cons c' t pre texts)
  show ?case by (simp add: headerCell_Inr[OF Cons(1)] Cons.IH)
qed

lemma titles_cases:
  "(\<exists>texts. list_all2 (\<lambda>c t. dom_string (title c) = Inr t) cs texts)
   \<or> (\<exists>pre c post texts e. cs = pre @ c # post
        \<and> list_all2 (\<lambda>c t. dom_string (title c) = Inr t) pre texts
        \<and> dom_string (title c) = Inl e)"
proof (induction cs)
  case Nil
  then show ?case by simp
next
  case (Cons c cs)
  show ?case
  proof (cases "dom_string (title c)")
    case (Inl e)
    have "c # cs = [] @ c # cs \<and> list_all2 (\<lambda>c t. dom_string (title c) = Inr t) [] []
        \<and> dom_string (title c) = Inl e"
      using Inl by simp
    then show ?thesis by blast
  next
    case (Inr t)
    from Cons.IH show ?thesis
    proof
      assume "\<exists>texts. list_all2 (\<lambda>c t. dom_string (title c) = Inr t) cs texts"
      then obtain texts where "list_all2 (\<lambda>c t. dom_string (title c) = Inr t) cs texts"
        by blast
      with Inr have "list_all2 (\<lambda>c t. dom_string (title c) = Inr t) (c # cs) (t # texts)"
        by simp
      then show ?thesis by blast
    next
      assume "\<exists>pre c' post texts e. cs = pre @ c' # post
        \<and> list_all2 (\<lambda>c t. dom_string (title c) = Inr t) pre texts
        \<and> dom_string (title c') = Inl e"
      then obtain pre c' post texts e where "cs = pre @ c' # post"
        and "list_all2 (\<lambda>c t. dom_string (title c) = Inr t) pre texts"
        and "dom_string (title c') = Inl e"
        by blast
      with Inr have "c # cs = (c # pre) @ c' # post
        \<and> list_all2 (\<lambda>c t. dom_string (title c) = Inr t) (c # pre) (t # texts)
        \<and> dom_string (title c') = Inl e"
        by simp
      then show ?thesis by blast
    qed
  qed
qed

lemma header_loop_row:
  "\<exists>texts. snd (header_loop cs row) = set_childNodes row
     (childNodes row @ map (\<lambda>t. Elem (set_textContent (createElement ''th'') t)) texts)"
  using titles_cases[of cs]
proof
  assume "\<exists>texts. list_all2 (\<lambda>c t. dom_string (title c) = Inr t) cs texts"
  then obtain texts where "list_all2 (\<lambda>c t. dom_string (title c) = Inr t) cs texts"
    by blast
  from header_loop_all[OF this, of row] show ?thesis
    by (intro exI[of _ texts]) simp
next
  assume "\<exists>pre c post texts e. cs = pre @ c # post
        \<and> list_all2 (\<lambda>c t. dom_string (title c) = Inr t) pre texts
        \<and> dom_string (title c) = Inl e"
  then obtain pre c post texts e where c: "cs = pre @ c # post"
    and "list_all2 (\<lambda>c t. dom_string (title c) = Inr t) pre texts"
    and "dom_string (title c) = Inl e"
    by blast
  from header_loop_stops[OF this(2,3), of post row] show ?thesis
    unfolding c by (intro exI[of _ texts]) simp
qed

lemma header_loop_tagName: "tagName (snd (header_loop cs row)) = tagName row"
  using header_loop_row[of cs row] by auto

lemma body_loop_eq:
  "body_loop i cs tbody =
     set_childNodes tbody
       (childNodes tbody @ replicate (NUM_CLUES_PER_CAT - i) (Elem (bodyRow cs)))"
proof (induction i cs tbody rule: body_loop.induct)
  case (1 i cs tbody)
  show ?case
  proof (cases "i < NUM_CLUES_PER_CAT")
    case True
    then have "NUM_CLUES_PER_CAT - i = Suc (NUM_CLUES_PER_CAT - Suc i)"
      by arith
    then have r: "replicate (NUM_CLUES_PER_CAT - i) (Elem (bodyRow cs)) =
        Elem (bodyRow cs) # replicate (NUM_CLUES_PER_CAT - Suc i) (Elem (bodyRow cs))"
      by (simp only: replicate_Suc)
    from True "1.IH" show ?thesis
      by (subst body_loop.simps) (simp add: r)
  next
    case False
    then show ?thesis by (subst body_loop.simps) simp
  qed
qed

lemma new_tbody_eq:
  "body_loop 0 cs (createElement ''tbody'') =
     Element ''tbody'' [] None 0 (replicate NUM_CLUES_PER_CAT (Elem (bodyRow cs)))"
  by (simp add: body_loop_eq createElement_def)

lemma insert_before_split:
  "\<exists>pre suf. ks = pre @ suf \<and> insert_before P x ks = pre @ x # suf
     \<and> (\<forall>k \<in> set pre. \<not> P k)"
proof (induction ks)
  case Nil
  then show ?case by simp
next
  case (Cons k ks)
  show ?case
  proof (cases "P k")
    case True
    then have "k # ks = [] @ (k # ks) \<and> insert_before P x (k # ks) = [] @ x # (k # ks)
        \<and> (\<forall>k \<in> set []. \<not> P k)" by simp
    then show ?thesis by blast
  next
    case False
    from Cons obtain pre suf where "ks = pre @ suf" "insert_before P x ks = pre @ x # suf"
      "\<forall>k \<in> set pre. \<not> P k" by blast
    with False have "k # ks = (k # pre) @ suf
        \<and> insert_before P x (k # ks) = (k # pre) @ x # suf
        \<and> (\<forall>j \<in> set (k # pre). \<not> P j)" by simp
    then show ?thesis by blast
  qed
qed

lemma insert_after_last_split:
  "\<exists>pre suf. ks = pre @ suf \<and> insert_after_last P x ks = pre @ x # suf
     \<and> (\<forall>k \<in> set suf. \<not> P k)"
proof (cases "list_ex P ks")
  case False
  then have "ks = ks @ [] \<and> insert_after_last P x ks = ks @ x # []
      \<and> (\<forall>k \<in> set []. \<not> P k)"
    by (simp add: insert_after_last_def)
  then show ?thesis by blast
next
  case True
  from insert_before_split[of "rev ks" P x] obtain pre suf where
    a: "rev ks = pre @ suf" and b: "insert_before P x (rev ks) = pre @ x # suf"
    and c: "\<forall>k \<in> set pre. \<not> P k" by blast
  from a have "ks = rev suf @ rev pre" by (metis rev_append rev_rev_ident)
  moreover from True b have "insert_after_last P x ks = rev suf @ x # rev pre"
    by (simp add: insert_after_last_def)
  moreover from c have "\<forall>k \<in> set (rev pre). \<not> P k" by simp
  ultimately show ?thesis by blast
qed

lemma find_skip: "\<not> Q x \<Longrightarrow> find Q (pre @ x # suf) = find Q (pre @ suf)"
  by (induction pre) simp_all

lemma find_first: "\<forall>k \<in> set pre. \<not> Q k \<Longrightarrow> Q x \<Longrightarrow> find Q (pre @ x # suf) = Some x"
  by (induction pre) simp_all

lemma find_none: "\<not> list_ex Q ks \<Longrightarrow> find Q ks = None"
  by (induction ks) (simp_all split: if_splits)

lemma update_first_skip:
  "\<forall>k \<in> set pre. \<not> Q k \<Longrightarrow> Q (Elem e) \<Longrightarrow>
     update_first Q f (pre @ Elem e # suf) = pre @ Elem (f e) # suf"
  by (induction pre) simp_all

lemma find_update_first:
  assumes "\<And>e. is_tag t (Elem (f e)) = is_tag t (Elem e)"
  shows "find (is_tag t) (update_first (is_tag t) f ks) =
    (case find (is_tag t) ks of None \<Rightarrow> None | Some (Text s) \<Rightarrow> Some (Text s)
     | Some (Elem e) \<Rightarrow> Some (Elem (f e)))"
proof (induction ks)
  case Nil
  then show ?case by simp
next
  case (Cons k ks)
  show ?case
  proof (cases k)
    case (Text s)
    with Cons show ?thesis by simp
  next
    case (Elem e)
    with Cons assms[of e] show ?thesis by simp
  qed
qed

lemma filter_update_first:
  assumes "\<And>e. Q (Elem (f e)) = Q (Elem e)" and "\<And>k. P k \<Longrightarrow> \<not> Q k"
  shows "filter Q (update_first P f ks) = filter Q ks"
proof (induction ks)
  case Nil
  then show ?case by simp
next
  case (Cons k ks)
  show ?case
  proof (cases k)
    case (Text s)
    with Cons show ?thesis by simp
  next
    case (Elem e)
    with Cons assms(1)[of e] assms(2)[of "Elem e"] show ?thesis by auto
  qed
qed

lemma find_some: "list_ex Q ks \<Longrightarrow> \<exists>k. find Q ks = Some k \<and> Q k"
  by (induction ks) auto

lemma theadRows_header_old:
  assumes True: "list_ex (is_tag ''thead'') (childNodes table)"
  shows "theadRows (set_childNodes (createTHead table)
      (update_first (is_tag ''thead'') (\<lambda>thead. appendChild thead row)
         (childNodes (createTHead table)))) = theadRows table @ [Elem row]"
proof -
  from find_some[OF True] obtain k
    where k: "find (is_tag ''thead'') (childNodes table) = Some k" and "is_tag ''thead'' k"
    by blast
  then obtain e where e: "k = Elem e" by (cases k) simp_all
  from True have c: "createTHead table = table" by (simp add: createTHead_def)
  have f: "find (is_tag ''thead'')
      (update_first (is_tag ''thead'') (\<lambda>thead. appendChild thead row) (childNodes table)) =
      Some (Elem (appendChild e row))"
    by (subst find_update_first) (simp_all add: k e)
  show ?thesis
    unfolding c theadRows_def by (simp add: f k e)
qed

lemma theadRows_header_new:
  assumes False: "\<not> list_ex (is_tag ''thead'') (childNodes table)"
  shows "theadRows (set_childNodes (createTHead table)
      (update_first (is_tag ''thead'') (\<lambda>thead. appendChild thead row)
         (childNodes (createTHead table)))) = theadRows table @ [Elem row]"
proof -
  define new where "new = createElement ''thead''"
  from insert_before_split[of "childNodes table" before_thead "Elem new"]
  obtain pre suf where a: "childNodes table = pre @ suf"
    and b: "insert_before before_thead (Elem new) (childNodes table) = pre @ Elem new # suf"
    by blast
  from False a have p: "\<forall>k \<in> set pre. \<not> is_tag ''thead'' k"
    by (simp add: list_ex_iff)
  have t: "is_tag ''thead'' (Elem new)" "is_tag ''thead'' (Elem (appendChild new row))"
    by (simp_all add: new_def createElement_def)
  have n: "childNodes new = []"
    by (simp add: new_def createElement_def)
  from False have none: "theadRows table = []"
    by (simp add: theadRows_def find_none)
  from False have c: "childNodes (createTHead table) = pre @ Elem new # suf"
    by (simp add: createTHead_def new_def[symmetric] b)
  have u: "update_first (is_tag ''thead'') (\<lambda>thead. appendChild thead row)
        (pre @ Elem new # suf) = pre @ Elem (appendChild new row) # suf"
    using p t(1) by (rule update_first_skip)
  have f: "find (is_tag ''thead'') (pre @ Elem (appendChild new row) # suf) =
      Some (Elem (appendChild new row))"
    using p t(2) by (rule find_first)
  have "theadRows (set_childNodes (createTHead table)
      (update_first (is_tag ''thead'') (\<lambda>thead. appendChild thead row)
         (childNodes (createTHead table)))) = [Elem row]"
    unfolding theadRows_def c u by (simp add: f n)
  then show ?thesis by (simp add: none)
qed

lemma theadRows_header:
  "theadRows (set_childNodes (createTHead table)
      (update_first (is_tag ''thead'') (\<lambda>thead. appendChild thead row)
         (childNodes (createTHead table)))) = theadRows table @ [Elem row]"
  using theadRows_header_old theadRows_header_new by blast

lemma tBodies_header:
  "tBodies (set_childNodes (createTHead table)
      (update_first (is_tag ''thead'') (\<lambda>thead. appendChild thead row)
         (childNodes (createTHead table)))) = tBodies table"
proof -
  have 1: "filter (is_tag ''tbody'') (childNodes (createTHead table)) =
      filter (is_tag ''tbody'') (childNodes table)"
  proof (cases "list_ex (is_tag ''thead'') (childNodes table)")
    case True
    then show ?thesis by (simp add: createTHead_def)
  next
    case False
    from insert_before_split[of "childNodes table" before_thead "Elem (createElement ''thead'')"]
    obtain pre suf where a: "childNodes table = pre @ suf"
      and b: "insert_before before_thead (Elem (createElement ''thead'')) (childNodes table) =
        pre @ Elem (createElement ''thead'') # suf"
      by blast
    from False show ?thesis
      unfolding createTHead_def by (simp add: b) (simp add: a createElement_def)
  qed
  have 2: "filter (is_tag ''tbody'')
      (update_first (is_tag ''thead'') (\<lambda>thead. appendChild thead row)
        (childNodes (createTHead table))) =
      filter (is_tag ''tbody'') (childNodes (createTHead table))"
  proof (rule filter_update_first)
    show "is_tag ''tbody'' (Elem (appendChild e row)) = is_tag ''tbody'' (Elem e)" for e
      by simp
    show "\<not> is_tag ''tbody'' k" if "is_tag ''thead'' k" for k
      using that by (cases k) simp_all
  qed
  show ?thesis
    unfolding tBodies_def by (simp add: 1 2)
qed

lemma theadRows_createTBody:
  assumes "tagName tbody = ''tbody''"
  shows "theadRows (createTBody table tbody) = theadRows table"
proof -
  from insert_after_last_split[of "childNodes table" "is_tag ''tbody''" "Elem tbody"]
  obtain pre suf where a: "childNodes table = pre @ suf"
    and b: "insert_after_last (is_tag ''tbody'') (Elem tbody) (childNodes table) =
      pre @ Elem tbody # suf" by blast
  from assms have "\<not> is_tag ''thead'' (Elem tbody)" by simp
  then show ?thesis
    by (simp add: theadRows_def createTBody_def b find_skip) (simp add: a)
qed

lemma tBodies_createTBody:
  assumes "tagName tbody = ''tbody''"
  shows "tBodies (createTBody table tbody) = tBodies table @ [Elem tbody]"
proof -
  from insert_after_last_split[of "childNodes table" "is_tag ''tbody''" "Elem tbody"]
  obtain pre suf where a: "childNodes table = pre @ suf"
    and b: "insert_after_last (is_tag ''tbody'') (Elem tbody) (childNodes table) =
      pre @ Elem tbody # suf"
    and c: "\<forall>k \<in> set suf. \<not> is_tag ''tbody'' k" by blast
  from c have "filter (is_tag ''tbody'') suf = []" by (simp add: filter_empty_conv)
  with assms show ?thesis
    by (simp add: tBodies_def createTBody_def b) (simp add: a)
qed

lemma buildGrid_unfold:
  assumes "header_loop cs (createElement ''tr'') = (thrown, row)"
  shows "buildGrid cs table =
    (thrown,
     if thrown = None then
       createTBody (set_childNodes (createTHead table)
           (update_first (is_tag ''thead'') (\<lambda>thead. appendChild thead row)
              (childNodes (createTHead table))))
         (body_loop 0 cs (createElement ''tbody''))
     else set_childNodes (createTHead table)
           (update_first (is_tag ''thead'') (\<lambda>thead. appendChild thead row)
              (childNodes (createTHead table))))"
  by (cases thrown) (simp_all add: buildGrid_def Let_def assms)

lemma buildGrid_rows:
  assumes "header_loop cs (createElement ''tr'') = (thrown, row)"
  shows "fst (buildGrid cs table) = thrown
   \<and> theadRows (snd (buildGrid cs table)) = theadRows table @ [Elem row]
   \<and> tBodies (snd (buildGrid cs table)) = tBodies table @
       (if thrown = None then
          [Elem (Element ''tbody'' [] None 0 (replicate NUM_CLUES_PER_CAT (Elem (bodyRow cs))))]
        else [])"
proof -
  have t: "tagName (body_loop 0 cs (createElement ''tbody'')) = ''tbody''"
    by (simp add: new_tbody_eq)
  show ?thesis
    unfolding buildGrid_unfold[OF assms]
    by (simp add: theadRows_createTBody[OF t] tBodies_createTBody[OF t]
        theadRows_header tBodies_header new_tbody_eq[symmetric])
qed

lemma buildGrid_wiped:
  assumes "header_loop cs (createElement ''tr'') = (thrown, row)"
  shows "snd (buildGrid cs (set_childNodes table [])) =
     set_childNodes table
       (Elem (Element ''thead'' [] None 0 [Elem row]) #
        (if thrown = None then
           [Elem (Element ''tbody'' [] None 0 (replicate NUM_CLUES_PER_CAT (Elem (bodyRow cs))))]
         else []))"
  unfolding buildGrid_unfold[OF assms]
  by (cases table)
    (simp add: createTHead_def createTBody_def insert_after_last_def
      new_tbody_eq[unfolded createElement_def] createElement_def)

lemma fillTable_failure:
  assumes "fetch_categories env w = (Inl e, w')"
  shows "fillTable env args w = console_error e w'"
  by (simp add: fillTable_fetch assms)

lemma fillTable_success:
  assumes "fetch_categories env w = (Inr cs, w')" and "jeopardy_table w = Some table"
  shows "fillTable env args w =
    (case fst (buildGrid cs table) of
       None \<Rightarrow> w'\<lparr>categories := cs, jeopardy_table := Some (snd (buildGrid cs table))\<rparr>
     | Some e \<Rightarrow> console_error e
         (w'\<lparr>categories := cs, jeopardy_table := Some (snd (buildGrid cs table))\<rparr>))"
proof -
  from fetch_categories_effect[OF assms(1)] assms(2) have "jeopardy_table w' = Some table"
    by simp
  with assms(1) show ?thesis
    by (simp add: fillTable_fetch split: prod.splits option.splits)
qed

lemma fillTable_success_fields:
  assumes "fetch_categories env w = (Inr cs, w')" and "jeopardy_table w = Some table"
  shows "categories (fillTable env args w) = cs"
    and "jeopardy_table (fillTable env args w) = Some (snd (buildGrid cs table))"
    and "requests (fillTable env args w) = requests w'"
    and "loading_spinner (fillTable env args w) = loading_spinner w'"
    and "fetch_data_button (fillTable env args w) = fetch_data_button w'"
    and "console (fillTable env args w) =
      console w' @ (case fst (buildGrid cs table) of None \<Rightarrow> [] | Some e \<Rightarrow> [e])"
  unfolding fillTable_success[OF assms]
  by (simp_all split: option.splits)

lemma fillTable_no_table:
  assumes "fetch_categories env w = (Inr cs, w')" and "jeopardy_table w = None"
  shows "fillTable env args w = console_error TypeError (w'\<lparr>categories := cs\<rparr>)"
proof -
  from fetch_categories_effect[OF assms(1)] assms(2) have "jeopardy_table w' = None"
    by simp
  with assms(1) show ?thesis by (simp add: fillTable_fetch)
qed

lemma fetch_categories_failure:
  assumes "fst (getCategoryIds env w) = Inl e
    \<or> (getCategoryIds env w = (Inr ids, w1) \<and> getCategory_each env ids w1 = (ps, w2)
        \<and> (\<exists>p \<in> set ps. isl p))"
  shows "\<exists>e' w'. fetch_categories env w = (Inl e', w')"
  using assms
proof
  assume "fst (getCategoryIds env w) = Inl e"
  then obtain w1 where "getCategoryIds env w = (Inl e, w1)"
    by (cases "getCategoryIds env w") simp
  then show ?thesis by (simp add: fetch_categories_def)
next
  assume a: "getCategoryIds env w = (Inr ids, w1) \<and> getCategory_each env ids w1 = (ps, w2)
        \<and> (\<exists>p \<in> set ps. isl p)"
  then obtain e' where "Promise_all ps = Inl e'" using Promise_all_Inl[of ps] by blast
  with a show ?thesis by (simp add: fetch_categories_def)
qed

lemma hideLoadingView_frame:
  "requests (snd (hideLoadingView w)) = requests w
   \<and> jeopardy_table (snd (hideLoadingView w)) = jeopardy_table w
   \<and> categories (snd (hideLoadingView w)) = categories w"
proof (cases "loading_spinner w")
  case None
  then show ?thesis by (simp add: hideLoadingView_no_spinner)
next
  case d: (Some d)
  show ?thesis
  proof (cases "fetch_data_button w")
    case None
    with d show ?thesis by (simp add: hideLoadingView_no_button)
  next
    case (Some b)
    with d show ?thesis by (simp add: hideLoadingView_ok)
  qed
qed

lemma hideLoadingView_returned:
  assumes "hideLoadingView w = (None, w1)"
  shows "loading_spinner w1 = Some ''none''
    \<and> fetch_data_button w1 = Some \<lparr>disabled = False, buttonText = ''Fetch Data''\<rparr>"
proof (cases "loading_spinner w")
  case None
  with assms show ?thesis by (simp add: hideLoadingView_no_spinner)
next
  case d: (Some d)
  show ?thesis
  proof (cases "fetch_data_button w")
    case None
    with d assms show ?thesis by (simp add: hideLoadingView_no_button)
  next
    case (Some b)
    with d assms show ?thesis by (auto simp: hideLoadingView_ok)
  qed
qed

lemma showLoadingView_frame:
  "requests (snd (showLoadingView w)) = requests w
   \<and> categories (snd (showLoadingView w)) = categories w"
proof (cases "jeopardy_table w")
  case None
  then show ?thesis by (simp add: showLoadingView_no_table)
next
  case t: (Some t)
  show ?thesis
  proof (cases "loading_spinner w")
    case None
    with t show ?thesis by (simp add: showLoadingView_no_spinner)
  next
    case d: (Some d)
    show ?thesis
    proof (cases "fetch_data_button w")
      case None
      with t d show ?thesis by (simp add: showLoadingView_no_button)
    next
      case (Some b)
      with t d show ?thesis by (simp add: showLoadingView_ok)
    qed
  qed
qed

lemma setupAndStart_hide_throws:
  assumes "hideLoadingView w = (Some e, w1)"
  shows "setupAndStart env w = console_error e w1"
  by (simp add: setupAndStart_fetch assms)

lemma setupAndStart_first_fails:
  assumes "hideLoadingView w = (None, w1)" and "fetch_categories env w1 = (Inl e, w2)"
  shows "setupAndStart env w = console_error e w2"
  by (simp add: setupAndStart_fetch assms)

lemma setupAndStart_first_succeeds:
  assumes "hideLoadingView w = (None, w1)" and "fetch_categories env w1 = (Inr cats, w2)"
  shows "setupAndStart env w = fillTable env [cats] w2"
  by (simp add: setupAndStart_fetch assms)

lemma fillTable_ignores_argument: "fillTable env args w = fillTable env [] w"
  by (simp add: fillTable_def)

text \<open>
  C6, as the code has it. When the fetching phase has produced a category list and the page
  has the table, \<^verbatim>\<open>fillTable\<close> stores the list and the table's \<^verbatim>\<open>thead\<close> gets one more
  row. When every title of the list can be converted to text, that row has exactly one
  \<^verbatim>\<open>th\<close> cell per category, in order, whose text is the text of the category's title, and
  the table gets one more \<^verbatim>\<open>tbody\<close>, with exactly \<^verbatim>\<open>NUM_CLUES_PER_CAT\<close> rows, each
  with exactly one \<^verbatim>\<open>td\<close> cell per category whose text is "?"; nothing is logged. When a
  title cannot be converted, the new row has the cells of the categories before the first
  such title only, the table gets no \<^verbatim>\<open>tbody\<close>, and the exception of the conversion is
  logged. One of the two cases applies to every list.
\<close>

theorem fillTable_grid:
  assumes fetched: "fetch_categories env w = (Inr cs, w')"
    and table: "jeopardy_table w = Some table"
  shows "\<exists>table' headerRow.
      jeopardy_table (fillTable env args w) = Some table'
    \<and> categories (fillTable env args w) = cs
    \<and> theadRows table' = theadRows table @ [Elem headerRow]
    \<and> tagName headerRow = ''tr''
    \<and> (\<forall>texts. list_all2 (\<lambda>c t. dom_string (title c) = Inr t) cs texts \<longrightarrow>
          childNodes headerRow =
            map (\<lambda>t. Elem (set_textContent (createElement ''th'') t)) texts
        \<and> length (childNodes headerRow) = length cs
        \<and> (\<exists>tbody. tBodies table' = tBodies table @ [Elem tbody]
            \<and> tagName tbody = ''tbody''
            \<and> childNodes tbody = replicate NUM_CLUES_PER_CAT (Elem (bodyRow cs))
            \<and> length (childNodes tbody) = NUM_CLUES_PER_CAT)
        \<and> console (fillTable env args w) = console w')
    \<and> (\<forall>pre c post texts e. cs = pre @ c # post
          \<and> list_all2 (\<lambda>c t. dom_string (title c) = Inr t) pre texts
          \<and> dom_string (title c) = Inl e \<longrightarrow>
          childNodes headerRow =
            map (\<lambda>t. Elem (set_textContent (createElement ''th'') t)) texts
        \<and> length (childNodes headerRow) = length pre
        \<and> tBodies table' = tBodies table
        \<and> console (fillTable env args w) = console w' @ [e])
    \<and> ((\<exists>texts. list_all2 (\<lambda>c t. dom_string (title c) = Inr t) cs texts)
        \<or> (\<exists>pre c post texts e. cs = pre @ c # post
             \<and> list_all2 (\<lambda>c t. dom_string (title c) = Inr t) pre texts
             \<and> dom_string (title c) = Inl e))
    \<and> (\<forall>t. tagName (set_textContent (createElement ''th'') t) = ''th''
          \<and> textContent (set_textContent (createElement ''th'') t) = t)
    \<and> childNodes (bodyRow cs) = map (\<lambda>c. Elem bodyCell) cs
    \<and> length (childNodes (bodyRow cs)) = length cs
    \<and> tagName bodyCell = ''td'' \<and> textContent bodyCell = ''?''"
proof -
  define tbody where
    "tbody = Element ''tbody'' [] None 0 (replicate NUM_CLUES_PER_CAT (Elem (bodyRow cs)))"
  obtain thrown row where h: "header_loop cs (createElement ''tr'') = (thrown, row)"
    by (cases "header_loop cs (createElement ''tr'')")
  note fields = fillTable_success_fields[OF fetched table, of args]
  note rows = buildGrid_rows[OF h, of table]
  have 1: "jeopardy_table (fillTable env args w) = Some (snd (buildGrid cs table))"
    and 2: "categories (fillTable env args w) = cs"
    by (simp_all add: fields)
  have 3: "theadRows (snd (buildGrid cs table)) = theadRows table @ [Elem row]"
    using rows by simp
  have 4: "tagName row = ''tr''"
    using header_loop_tagName[of cs "createElement ''tr''"] h by (simp add: createElement_def)
  have 5: "childNodes row = map (\<lambda>t. Elem (set_textContent (createElement ''th'') t)) texts
        \<and> length (childNodes row) = length cs
        \<and> (\<exists>tbody. tBodies (snd (buildGrid cs table)) = tBodies table @ [Elem tbody]
            \<and> tagName tbody = ''tbody''
            \<and> childNodes tbody = replicate NUM_CLUES_PER_CAT (Elem (bodyRow cs))
            \<and> length (childNodes tbody) = NUM_CLUES_PER_CAT)
        \<and> console (fillTable env args w) = console w'"
    if all: "list_all2 (\<lambda>c t. dom_string (title c) = Inr t) cs texts" for texts
  proof -
    from header_loop_all[OF all, of "createElement ''tr''"] h
    have th: "thrown = None"
      and r: "row = set_childNodes (createElement ''tr'')
        (childNodes (createElement ''tr'') @
          map (\<lambda>t. Elem (set_textContent (createElement ''th'') t)) texts)"
      by simp_all
    from r have a: "childNodes row =
        map (\<lambda>t. Elem (set_textContent (createElement ''th'') t)) texts"
      by (simp add: createElement_def)
    from all have "length texts = length cs" by (simp add: list_all2_lengthD)
    with a have b: "length (childNodes row) = length cs" by simp
    from rows th have "tBodies (snd (buildGrid cs table)) = tBodies table @ [Elem tbody]"
      by (simp add: tbody_def)
    then have "tBodies (snd (buildGrid cs table)) = tBodies table @ [Elem tbody]
        \<and> tagName tbody = ''tbody''
        \<and> childNodes tbody = replicate NUM_CLUES_PER_CAT (Elem (bodyRow cs))
        \<and> length (childNodes tbody) = NUM_CLUES_PER_CAT"
      by (simp add: tbody_def)
    then have c: "\<exists>tbody. tBodies (snd (buildGrid cs table)) = tBodies table @ [Elem tbody]
        \<and> tagName tbody = ''tbody''
        \<and> childNodes tbody = replicate NUM_CLUES_PER_CAT (Elem (bodyRow cs))
        \<and> length (childNodes tbody) = NUM_CLUES_PER_CAT"
      by (rule exI)
    from rows th have d: "console (fillTable env args w) = console w'"
      by (simp add: fields)
    from a b c d show ?thesis by (intro conjI)
  qed
  have 6: "childNodes row = map (\<lambda>t. Elem (set_textContent (createElement ''th'') t)) texts
        \<and> length (childNodes row) = length pre
        \<and> tBodies (snd (buildGrid cs table)) = tBodies table
        \<and> console (fillTable env args w) = console w' @ [e]"
    if stop: "cs = pre @ c # post
          \<and> list_all2 (\<lambda>c t. dom_string (title c) = Inr t) pre texts
          \<and> dom_string (title c) = Inl e" for pre c post texts e
  proof -
    from stop have cs: "cs = pre @ c # post"
      and all: "list_all2 (\<lambda>c t. dom_string (title c) = Inr t) pre texts"
      and bad: "dom_string (title c) = Inl e"
      by simp_all
    from header_loop_stops[OF all bad, of post "createElement ''tr''"] h
    have th: "thrown = Some e"
      and r: "row = set_childNodes (createElement ''tr'')
        (childNodes (createElement ''tr'') @
          map (\<lambda>t. Elem (set_textContent (createElement ''th'') t)) texts)"
      unfolding cs by simp_all
    from r have a: "childNodes row =
        map (\<lambda>t. Elem (set_textContent (createElement ''th'') t)) texts"
      by (simp add: createElement_def)
    from all have "length texts = length pre" by (simp add: list_all2_lengthD)
    with a have b: "length (childNodes row) = length pre" by simp
    from rows th have c: "tBodies (snd (buildGrid cs table)) = tBodies table"
      by simp
    from rows th have d: "console (fillTable env args w) = console w' @ [e]"
      by (simp add: fields)
    from a b c d show ?thesis by (intro conjI)
  qed
  have 7: "\<forall>t. tagName (set_textContent (createElement ''th'') t) = ''th''
          \<and> textContent (set_textContent (createElement ''th'') t) = t"
    by (simp add: th_cell_eq)
  have 8: "childNodes (bodyRow cs) = map (\<lambda>c. Elem bodyCell) cs"
    "length (childNodes (bodyRow cs)) = length cs"
    by (simp_all add: bodyRow_eq)
  have 9: "tagName bodyCell = ''td''" "textContent bodyCell = ''?''"
    by (simp_all add: bodyCell_eq)
  from 5 have 5: "\<forall>texts. list_all2 (\<lambda>c t. dom_string (title c) = Inr t) cs texts \<longrightarrow>
          childNodes row = map (\<lambda>t. Elem (set_textContent (createElement ''th'') t)) texts
        \<and> length (childNodes row) = length cs
        \<and> (\<exists>tbody. tBodies (snd (buildGrid cs table)) = tBodies table @ [Elem tbody]
            \<and> tagName tbody = ''tbody''
            \<and> childNodes tbody = replicate NUM_CLUES_PER_CAT (Elem (bodyRow cs))
            \<and> length (childNodes tbody) = NUM_CLUES_PER_CAT)
        \<and> console (fillTable env args w) = console w'"
    by (intro allI impI)
  from 6 have 6: "\<forall>pre c post texts e. cs = pre @ c # post
          \<and> list_all2 (\<lambda>c t. dom_string (title c) = Inr t) pre texts
          \<and> dom_string (title c) = Inl e \<longrightarrow>
          childNodes row = map (\<lambda>t. Elem (set_textContent (createElement ''th'') t)) texts
        \<and> length (childNodes row) = length pre
        \<and> tBodies (snd (buildGrid cs table)) = tBodies table
        \<and> console (fillTable env args w) = console w' @ [e]"
    by (intro allI impI)
  show ?thesis
    apply (rule exI[of _ "snd (buildGrid cs table)"])
    apply (rule exI[of _ row])
    apply (intro conjI)
    apply (fact 1 2 3 4 5 6 7 8 9 titles_cases)+
    done
qed

theorem fillTable_grid_witness:
  "fst (fetch_categories demo_env demo_world) = Inr [demo_category, demo_category]
   \<and> jeopardy_table demo_world = Some (createElement ''table'')
   \<and> list_all2 (\<lambda>c t. dom_string (title c) = Inr t) [demo_category, demo_category]
        [''Math'', ''Math'']
   \<and> (\<exists>table' headerRow tbody.
          jeopardy_table (fillTable demo_env [] demo_world) = Some table'
        \<and> categories (fillTable demo_env [] demo_world) = [demo_category, demo_category]
        \<and> theadRows table' = [Elem headerRow]
        \<and> childNodes headerRow =
            [Elem (Element ''th'' [] None 0 [Text ''Math'']),
             Elem (Element ''th'' [] None 0 [Text ''Math''])]
        \<and> tBodies table' = [Elem tbody]
        \<and> length (childNodes tbody) = 5
        \<and> length (childNodes (bodyRow [demo_category, demo_category])) = 2)
   \<and> fst (fetch_categories mute_env demo_world) =
       Inr [\<lparr>title = JStr ''T1'', clues = []\<rparr>, \<lparr>title = no_text, clues = []\<rparr>]
   \<and> dom_string (JStr ''T1'') = Inr ''T1'' \<and> dom_string no_text = Inl TypeError
   \<and> (\<exists>table' headerRow.
          jeopardy_table (fillTable mute_env [] demo_world) = Some table'
        \<and> theadRows table' = [Elem headerRow]
        \<and> childNodes headerRow = [Elem (Element ''th'' [] None 0 [Text ''T1''])]
        \<and> tBodies table' = []
        \<and> console (fillTable mute_env [] demo_world) = [TypeError])"
proof -
  have t: "jeopardy_table demo_world = Some (createElement ''table'')"
    by (simp add: demo_world_def)
  have e: "theadRows (createElement ''table'') = []" "tBodies (createElement ''table'') = []"
    by (simp_all add: theadRows_def tBodies_def createElement_def)
  have m: "list_all2 (\<lambda>c t. dom_string (title c) = Inr t) [demo_category, demo_category]
        [''Math'', ''Math'']"
    by (simp add: demo_category_def dom_string_def)
  have f1: "fetch_categories demo_env demo_world =
      (Inr [demo_category, demo_category], snd (fetch_categories demo_env demo_world))"
    by (simp add: demo_fetch_categories)
  from fillTable_grid[OF f1 t, of "[]"] obtain table' headerRow where
    a: "jeopardy_table (fillTable demo_env [] demo_world) = Some table'"
      "categories (fillTable demo_env [] demo_world) = [demo_category, demo_category]"
      "theadRows table' = theadRows (createElement ''table'') @ [Elem headerRow]"
    and b: "\<forall>texts. list_all2 (\<lambda>c t. dom_string (title c) = Inr t)
          [demo_category, demo_category] texts \<longrightarrow>
          childNodes headerRow =
            map (\<lambda>t. Elem (set_textContent (createElement ''th'') t)) texts
        \<and> length (childNodes headerRow) = length [demo_category, demo_category]
        \<and> (\<exists>tbody. tBodies table' = tBodies (createElement ''table'') @ [Elem tbody]
            \<and> tagName tbody = ''tbody''
            \<and> childNodes tbody =
                replicate NUM_CLUES_PER_CAT (Elem (bodyRow [demo_category, demo_category]))
            \<and> length (childNodes tbody) = NUM_CLUES_PER_CAT)
        \<and> console (fillTable demo_env [] demo_world) =
            console (snd (fetch_categories demo_env demo_world))"
    and c: "length (childNodes (bodyRow [demo_category, demo_category])) =
        length [demo_category, demo_category]"
    by blast
  from b m obtain tbody where
    d: "childNodes headerRow =
        map (\<lambda>t. Elem (set_textContent (createElement ''th'') t)) [''Math'', ''Math'']"
      "tBodies table' = tBodies (createElement ''table'') @ [Elem tbody]"
      "length (childNodes tbody) = NUM_CLUES_PER_CAT"
    by blast
  have full: "\<exists>table' headerRow tbody.
          jeopardy_table (fillTable demo_env [] demo_world) = Some table'
        \<and> categories (fillTable demo_env [] demo_world) = [demo_category, demo_category]
        \<and> theadRows table' = [Elem headerRow]
        \<and> childNodes headerRow =
            [Elem (Element ''th'' [] None 0 [Text ''Math'']),
             Elem (Element ''th'' [] None 0 [Text ''Math''])]
        \<and> tBodies table' = [Elem tbody]
        \<and> length (childNodes tbody) = 5
        \<and> length (childNodes (bodyRow [demo_category, demo_category])) = 2"
    apply (rule exI[of _ table'])
    apply (rule exI[of _ headerRow])
    apply (rule exI[of _ tbody])
    using a c d by (simp add: e th_cell_eq NUM_CLUES_PER_CAT_def)
  have f2: "fetch_categories mute_env demo_world =
      (Inr [\<lparr>title = JStr ''T1'', clues = []\<rparr>, \<lparr>title = no_text, clues = []\<rparr>],
       snd (fetch_categories mute_env demo_world))"
    by (simp add: mute_fetch_categories)
  have c2: "console (snd (fetch_categories mute_env demo_world)) = []"
    by (simp add: mute_fetch_categories demo_world_def)
  have s1: "dom_string (JStr ''T1'') = Inr ''T1''" and s2: "dom_string no_text = Inl TypeError"
    by (simp_all add: dom_string_def no_text_def)
  have stop: "[\<lparr>title = JStr ''T1'', clues = []\<rparr>, \<lparr>title = no_text, clues = []\<rparr>] =
      [\<lparr>title = JStr ''T1'', clues = []\<rparr>] @ \<lparr>title = no_text, clues = []\<rparr> # []
    \<and> list_all2 (\<lambda>c t. dom_string (title c) = Inr t) [\<lparr>title = JStr ''T1'', clues = []\<rparr>]
        [''T1'']
    \<and> dom_string (title \<lparr>title = no_text, clues = []\<rparr>) = Inl TypeError"
    by (simp add: s1 s2)
  from fillTable_grid[OF f2 t, of "[]"] obtain table2 headerRow2 where
    a2: "jeopardy_table (fillTable mute_env [] demo_world) = Some table2"
      "theadRows table2 = theadRows (createElement ''table'') @ [Elem headerRow2]"
    and b2: "\<forall>pre c post texts e.
          [\<lparr>title = JStr ''T1'', clues = []\<rparr>, \<lparr>title = no_text, clues = []\<rparr>] = pre @ c # post
          \<and> list_all2 (\<lambda>c t. dom_string (title c) = Inr t) pre texts
          \<and> dom_string (title c) = Inl e \<longrightarrow>
          childNodes headerRow2 =
            map (\<lambda>t. Elem (set_textContent (createElement ''th'') t)) texts
        \<and> length (childNodes headerRow2) = length pre
        \<and> tBodies table2 = tBodies (createElement ''table'')
        \<and> console (fillTable mute_env [] demo_world) =
            console (snd (fetch_categories mute_env demo_world)) @ [e]"
    by blast
  from b2[rule_format, OF stop]
  have d2: "childNodes headerRow2 =
        map (\<lambda>t. Elem (set_textContent (createElement ''th'') t)) [''T1'']"
      "tBodies table2 = tBodies (createElement ''table'')"
      "console (fillTable mute_env [] demo_world) =
            console (snd (fetch_categories mute_env demo_world)) @ [TypeError]"
    by simp_all
  have part: "\<exists>table' headerRow.
          jeopardy_table (fillTable mute_env [] demo_world) = Some table'
        \<and> theadRows table' = [Elem headerRow]
        \<and> childNodes headerRow = [Elem (Element ''th'' [] None 0 [Text ''T1''])]
        \<and> tBodies table' = []
        \<and> console (fillTable mute_env [] demo_world) = [TypeError]"
    apply (rule exI[of _ table2])
    apply (rule exI[of _ headerRow2])
    using a2 d2 by (simp add: e th_cell_eq c2)
  have g1: "fst (fetch_categories demo_env demo_world) = Inr [demo_category, demo_category]"
    by (simp add: demo_fetch_categories)
  have g2: "fst (fetch_categories mute_env demo_world) =
       Inr [\<lparr>title = JStr ''T1'', clues = []\<rparr>, \<lparr>title = no_text, clues = []\<rparr>]"
    by (simp add: mute_fetch_categories)
  show ?thesis
    by (intro conjI) (fact g1, fact t, fact m, fact full, fact g2, fact s1, fact s2, fact part)
qed

text \<open>
  Not every consumed list gives one header cell per category and the body rows: for the
  two categories with the titles \<^verbatim>\<open>T1\<close> and \<^verbatim>\<open>{"toString": 1}\<close> the table is left with a
  header row of one cell and without a body, and the exception is logged.
\<close>

theorem fillTable_grid_counterexample:
  "fst (fetch_categories mute_env demo_world) =
     Inr [\<lparr>title = JStr ''T1'', clues = []\<rparr>, \<lparr>title = no_text, clues = []\<rparr>]
   \<and> jeopardy_table (fillTable mute_env [] demo_world) =
       Some (Element ''table'' [] None 0
         [Elem (Element ''thead'' [] None 0
            [Elem (Element ''tr'' [] None 0 [Elem (Element ''th'' [] None 0 [Text ''T1''])])])])
   \<and> tBodies (Element ''table'' [] None 0
         [Elem (Element ''thead'' [] None 0
            [Elem (Element ''tr'' [] None 0 [Elem (Element ''th'' [] None 0 [Text ''T1''])])])]) = []
   \<and> console (fillTable mute_env [] demo_world) = [TypeError]"
proof -
  have h: "header_loop [\<lparr>title = JStr ''T1'', clues = []\<rparr>, \<lparr>title = no_text, clues = []\<rparr>]
      (createElement ''tr'') =
      (Some TypeError, Element ''tr'' [] None 0 [Elem (Element ''th'' [] None 0 [Text ''T1''])])"
    by (simp add: headerCell_def dom_string_def no_text_def createElement_def)
  have g: "buildGrid [\<lparr>title = JStr ''T1'', clues = []\<rparr>, \<lparr>title = no_text, clues = []\<rparr>]
      (createElement ''table'') =
      (Some TypeError, Element ''table'' [] None 0
         [Elem (Element ''thead'' [] None 0
            [Elem (Element ''tr'' [] None 0 [Elem (Element ''th'' [] None 0 [Text ''T1''])])])])"
    unfolding buildGrid_unfold[OF h]
    by (simp add: createTHead_def createElement_def before_thead_def)
  show ?thesis
    by (simp add: fillTable_fetch mute_fetch_categories demo_world_def g tBodies_def)
qed

section \<open>Properties of a game start\<close>

lemma showLoadingView_table:
  assumes "jeopardy_table w = Some t"
  shows "jeopardy_table (snd (showLoadingView w)) = Some (set_childNodes t [])"
proof (cases "loading_spinner w")
  case None
  with assms show ?thesis by (simp add: showLoadingView_no_spinner)
next
  case d: (Some d)
  show ?thesis
  proof (cases "fetch_data_button w")
    case None
    with assms d show ?thesis by (simp add: showLoadingView_no_button)
  next
    case (Some b)
    with assms d show ?thesis by (simp add: showLoadingView_ok)
  qed
qed

lemma fillTable_effect:
  "loading_spinner (fillTable env args w) = loading_spinner w
   \<and> fetch_data_button (fillTable env args w) = fetch_data_button w
   \<and> requests (fillTable env args w) = requests (snd (fetch_categories env w))"
proof -
  obtain r w' where f: "fetch_categories env w = (r, w')"
    by (cases "fetch_categories env w")
  note eff = fetch_categories_effect[OF f]
  show ?thesis
  proof (cases r)
    case (Inl e)
    with f eff show ?thesis by (simp add: fillTable_failure)
  next
    case (Inr cs)
    show ?thesis
    proof (cases "jeopardy_table w")
      case None
      with f Inr eff show ?thesis by (simp add: fillTable_no_table)
    next
      case (Some table)
      with f Inr eff show ?thesis by (simp add: fillTable_success_fields)
    qed
  qed
qed

lemma fetch_categories_requests:
  "\<exists>qs. requests (snd (fetch_categories env w)) =
     requests w @ map (\<lambda>q. (q, loading_spinner w, fetch_data_button w)) (GetCategories 100 # qs)"
proof -
  obtain r w' where f: "fetch_categories env w = (r, w')"
    by (cases "fetch_categories env w")
  from fetch_categories_effect[OF f] f show ?thesis by auto
qed

lemma setupAndStart_requests:
  "\<exists>qs. requests (setupAndStart env w) =
     requests w @ map (\<lambda>q. (q, Some ''none'',
       Some \<lparr>disabled = False, buttonText = ''Fetch Data''\<rparr>)) qs"
proof -
  let ?snap = "\<lambda>q::request. (q, Some ''none'',
       Some \<lparr>disabled = False, buttonText = ''Fetch Data''\<rparr>)"
  obtain h w1 where hd: "hideLoadingView w = (h, w1)"
    by (cases "hideLoadingView w")
  from hideLoadingView_frame[of w] hd have r1: "requests w1 = requests w" by simp
  show ?thesis
  proof (cases h)
    case (Some e)
    with hd r1 have "requests (setupAndStart env w) = requests w @ map ?snap []"
      by (simp add: setupAndStart_hide_throws)
    then show ?thesis by blast
  next
    case None
    with hd hideLoadingView_returned[of w w1]
    have v1: "loading_spinner w1 = Some ''none''"
      "fetch_data_button w1 = Some \<lparr>disabled = False, buttonText = ''Fetch Data''\<rparr>"
      by simp_all
    obtain r w2 where f: "fetch_categories env w1 = (r, w2)"
      by (cases "fetch_categories env w1")
    note eff = fetch_categories_effect[OF f]
    from eff v1 have v2: "loading_spinner w2 = Some ''none''"
      "fetch_data_button w2 = Some \<lparr>disabled = False, buttonText = ''Fetch Data''\<rparr>"
      by simp_all
    from fetch_categories_requests[of env w1] obtain qs0 where
      "requests (snd (fetch_categories env w1)) = requests w1 @
         map (\<lambda>q. (q, loading_spinner w1, fetch_data_button w1)) (GetCategories 100 # qs0)"
      by blast
    with f v1 r1 have q0: "requests w2 = requests w @ map ?snap (GetCategories 100 # qs0)"
      by simp
    define qs1 where "qs1 = GetCategories 100 # qs0"
    with q0 have q1: "requests w2 = requests w @ map ?snap qs1" by simp
    show ?thesis
    proof (cases r)
      case (Inl e)
      with hd None f q1 have "requests (setupAndStart env w) = requests w @ map ?snap qs1"
        by (simp add: setupAndStart_first_fails)
      then show ?thesis by blast
    next
      case (Inr cats)
      with hd None f have s: "setupAndStart env w = fillTable env [cats] w2"
        by (simp add: setupAndStart_first_succeeds)
      from fetch_categories_requests[of env w2] obtain qs2 where
        "requests (snd (fetch_categories env w2)) = requests w2 @
           map (\<lambda>q. (q, loading_spinner w2, fetch_data_button w2)) (GetCategories 100 # qs2)"
        by blast
      with v2 have "requests (snd (fetch_categories env w2)) =
          requests w2 @ map ?snap (GetCategories 100 # qs2)"
        by simp
      with fillTable_effect[of env "[cats]" w2] q1
      have "requests (setupAndStart env w) =
          requests w @ map ?snap (qs1 @ GetCategories 100 # qs2)"
        unfolding s by simp
      then show ?thesis by blast
    qed
  qed
qed

lemma startGame_requests:
  "\<exists>qs. requests (snd (startGame env w)) =
     requests w @ map (\<lambda>q. (q, Some ''none'',
       Some \<lparr>disabled = False, buttonText = ''Fetch Data''\<rparr>)) qs"
proof -
  let ?snap = "\<lambda>q::request. (q, Some ''none'',
       Some \<lparr>disabled = False, buttonText = ''Fetch Data''\<rparr>)"
  obtain r w1 where s: "showLoadingView w = (r, w1)"
    by (cases "showLoadingView w")
  from showLoadingView_frame[of w] s have r1: "requests w1 = requests w" by simp
  show ?thesis
  proof (cases r)
    case (Some e)
    with s r1 have "requests (snd (startGame env w)) = requests w @ map ?snap []"
      by (simp add: startGame_def)
    then show ?thesis by blast
  next
    case None
    with s have g: "snd (startGame env w) = setupAndStart env w1"
      by (simp add: startGame_def)
    from setupAndStart_requests[of env w1] show ?thesis
      unfolding g r1 .
  qed
qed

lemma fetch_categories_Inr:
  assumes "fetch_categories env w = (Inr cs, w')"
  shows "\<exists>ids. fst (getCategoryIds env w) = Inr ids"
proof -
  obtain r1 w1 where g: "getCategoryIds env w = (r1, w1)"
    by (cases "getCategoryIds env w")
  with assms show ?thesis by (cases r1) (simp_all add: fetch_categories_def)
qed

lemma fetch_categories_issued:
  assumes "fetch_categories env w = (Inr cs, w')"
  shows "\<exists>ids. fst (getCategoryIds env w) = Inr ids
    \<and> map fst (issued w w') = GetCategories 100 # clue_requests ids"
proof -
  from fetch_categories_Inr[OF assms] obtain ids
    where i: "fst (getCategoryIds env w) = Inr ids" by blast
  from fetch_categories_effect[OF assms]
  have "requests w' = requests w @
        map (\<lambda>q. (q, loading_spinner w, fetch_data_button w))
          (GetCategories 100 # clue_requests ids)"
    by (simp add: i)
  then have "map fst (issued w w') = GetCategories 100 # clue_requests ids"
    by (simp add: issued_def comp_def)
  with i show ?thesis by (intro exI conjI)
qed

lemma issued_frame:
  assumes "requests w1 = requests w"
  shows "issued w w' = issued w1 w'"
  using assms by (simp add: issued_def)

lemma fillTable_issued: "issued w (fillTable env args w) = issued w (snd (fetch_categories env w))"
  using fillTable_effect[of env args w] by (simp add: issued_def)

lemma fillTable_result:
  assumes "fetch_categories env w = (Inr cs, w')"
  shows "categories (fillTable env args w) = cs
    \<and> jeopardy_table (fillTable env args w) =
        map_option (\<lambda>table. snd (buildGrid cs table)) (jeopardy_table w)"
proof (cases "jeopardy_table w")
  case None
  with assms fetch_categories_effect[OF assms] show ?thesis
    by (simp add: fillTable_no_table)
next
  case (Some table)
  with assms show ?thesis by (simp add: fillTable_success_fields)
qed

lemma map_constant:
  assumes "\<forall>q \<in> set xs. f q = c"
  shows "map f xs = replicate (length xs) c"
  using assms by (induction xs) simp_all

lemma demo_hide:
  assumes "loading_spinner w = Some d" and "fetch_data_button w = Some b"
  shows "hideLoadingView w = (None, snd (hideLoadingView w))"
  using hideLoadingView_ok[OF assms] by simp

lemma demo_fetch_fst:
  "fetch_categories demo_env w =
     (Inr [demo_category, demo_category], snd (fetch_categories demo_env w))"
  by (simp add: demo_fetch_categories)

lemma demo_ids: "fst (getCategoryIds demo_env w) = Inr [JNum ''11'', JNum ''11'']"
  by (simp add: demo_getCategoryIds_any)

lemma demo_startGame_issued:
  "map fst (issued demo_world (snd (startGame demo_env demo_world))) =
     [GetCategories 100, GetClues ''11'', GetClues ''11'',
      GetCategories 100, GetClues ''11'', GetClues ''11'']"
proof -
  define w0 where "w0 = snd (showLoadingView demo_world)"
  define w1 where "w1 = snd (hideLoadingView w0)"
  define w2 where "w2 = snd (fetch_categories demo_env w1)"
  have "showLoadingView demo_world =
    (None, demo_world\<lparr>jeopardy_table := Some (set_childNodes (createElement ''table'') []),
       loading_spinner := Some ''block'',
       fetch_data_button := Some \<lparr>disabled = True, buttonText = ''Loading...''\<rparr>\<rparr>)"
    by (rule showLoadingView_ok) (simp_all add: demo_world_def)
  then have show0: "showLoadingView demo_world = (None, w0)"
    and v0: "loading_spinner w0 = Some ''block''"
      "fetch_data_button w0 = Some \<lparr>disabled = True, buttonText = ''Loading...''\<rparr>"
    by (simp_all add: w0_def)
  have hide: "hideLoadingView w0 = (None, w1)"
    unfolding w1_def using v0 by (rule demo_hide)
  have first: "fetch_categories demo_env w1 = (Inr [demo_category, demo_category], w2)"
    unfolding w2_def by (rule demo_fetch_fst)
  from show0 have g: "snd (startGame demo_env demo_world) = setupAndStart demo_env w0"
    by (simp add: startGame_def)
  have s: "setupAndStart demo_env w0 = fillTable demo_env [[demo_category, demo_category]] w2"
    using hide first by (rule setupAndStart_first_succeeds)
  from showLoadingView_frame[of demo_world] have r0: "requests w0 = requests demo_world"
    by (simp add: w0_def)
  from hideLoadingView_frame[of w0] have r1: "requests w1 = requests w0"
    by (simp add: w1_def)
  have r2: "map fst (requests w2) = map fst (requests w1) @
      [GetCategories 100, GetClues ''11'', GetClues ''11'']"
    unfolding w2_def by (simp add: demo_fetch_categories)
  have r3: "map fst (requests (fillTable demo_env [[demo_category, demo_category]] w2)) =
      map fst (requests w2) @ [GetCategories 100, GetClues ''11'', GetClues ''11'']"
    using fillTable_effect[of demo_env "[[demo_category, demo_category]]" w2]
    by (simp add: demo_fetch_categories)
  have e: "requests demo_world = []" by (simp add: demo_world_def)
  show ?thesis
    unfolding issued_def g s by (simp add: e drop_map[symmetric] r3 r2 r1 r0)
qed

lemma fetch_categories_issued_any:
  "map fst (issued w (snd (fetch_categories env w))) =
     GetCategories 100 #
       (case fst (getCategoryIds env w) of Inl e \<Rightarrow> [] | Inr ids \<Rightarrow> clue_requests ids)"
proof -
  obtain r w' where f: "fetch_categories env w = (r, w')"
    by (cases "fetch_categories env w")
  from fetch_categories_effect[OF f] show ?thesis
    by (simp add: f issued_def comp_def)
qed

lemma offline_getCategoryIds:
  "getCategoryIds offline_env w = (Inl AxiosError, log_request (GetCategories 100) w)"
  by (rule getCategoryIds_rejected) (simp add: offline_env_def)

text \<open>
  C5. If the fetch of the identifiers fails, or one of the fetches of a category does,
  \<^verbatim>\<open>fillTable\<close> leaves the table as it was (no header cell and no body row is added)
  and leaves \<^verbatim>\<open>categories\<close> at its previous value. A fetch of a category fails when its
  call of \<^verbatim>\<open>getCategory\<close> throws. When all fetches have succeeded, \<^verbatim>\<open>categories\<close>
  is the fetched list.
\<close>

theorem fillTable_all_or_nothing:
  "(fst (getCategoryIds env w) = Inl e
      \<or> (getCategoryIds env w = (Inr ids, w1) \<and> getCategory_each env ids w1 = (ps, w2)
          \<and> (\<exists>p \<in> set ps. isl p))
     \<longrightarrow> jeopardy_table (fillTable env args w) = jeopardy_table w
       \<and> categories (fillTable env args w) = categories w)
   \<and> (\<forall>cs w'. fetch_categories env w = (Inr cs, w') \<longrightarrow>
        categories (fillTable env args w) = cs)"
proof (intro conjI impI allI)
  assume "fst (getCategoryIds env w) = Inl e
      \<or> (getCategoryIds env w = (Inr ids, w1) \<and> getCategory_each env ids w1 = (ps, w2)
          \<and> (\<exists>p \<in> set ps. isl p))"
  from fetch_categories_failure[OF this] obtain e' w'
    where f: "fetch_categories env w = (Inl e', w')" by blast
  from fetch_categories_effect[OF f]
  show "jeopardy_table (fillTable env args w) = jeopardy_table w"
    and "categories (fillTable env args w) = categories w"
    by (simp_all add: fillTable_failure[OF f])
next
  fix cs w'
  assume "fetch_categories env w = (Inr cs, w')"
  from fillTable_result[OF this] show "categories (fillTable env args w) = cs"
    by simp
qed

theorem fillTable_all_or_nothing_witness:
  "getCategoryIds failing_env played_world =
     (Inr [JNum ''11''],
      (log_request (GetCategories 100) played_world)\<lparr>draws := draws played_world + 1\<rparr>)
   \<and> getCategory_each failing_env [JNum ''11'']
        ((log_request (GetCategories 100) played_world)\<lparr>draws := draws played_world + 1\<rparr>) =
       ([Inl (Error ''Failed to retrieve category data'')],
        console_error AxiosError (log_request (GetClues ''11'')
          ((log_request (GetCategories 100) played_world)\<lparr>draws := draws played_world + 1\<rparr>)))
   \<and> jeopardy_table played_world = Some played_table
   \<and> categories played_world = [demo_category]
   \<and> jeopardy_table (fillTable failing_env [] played_world) = Some played_table
   \<and> categories (fillTable failing_env [] played_world) = [demo_category]
   \<and> fst (getCategoryIds offline_env played_world) = Inl AxiosError
   \<and> jeopardy_table (fillTable offline_env [] played_world) = Some played_table
   \<and> categories (fillTable offline_env [] played_world) = [demo_category]
   \<and> fst (fetch_categories demo_env played_world) = Inr [demo_category, demo_category]
   \<and> categories (fillTable demo_env [] played_world) = [demo_category, demo_category]"
proof -
  let ?w1 = "(log_request (GetCategories 100) played_world)\<lparr>draws := draws played_world + 1\<rparr>"
  let ?w2 = "console_error AxiosError (log_request (GetClues ''11'') ?w1)"
  let ?ps = "[Inl (Error ''Failed to retrieve category data'')] :: (js_error + category) list"
  have a: "getCategoryIds failing_env played_world = (Inr [JNum ''11''], ?w1)"
    by (rule failing_getCategoryIds)
  have b: "getCategory_each failing_env [JNum ''11''] ?w1 = (?ps, ?w2)"
    by (simp add: failing_getCategory)
  have c: "\<exists>p \<in> set ?ps. isl p" by simp
  have p: "jeopardy_table played_world = Some played_table"
    "categories played_world = [demo_category]"
    by (simp_all add: played_world_def)
  from a b c have h: "fst (getCategoryIds failing_env played_world) = Inl AxiosError
      \<or> (getCategoryIds failing_env played_world = (Inr [JNum ''11''], ?w1)
          \<and> getCategory_each failing_env [JNum ''11''] ?w1 = (?ps, ?w2)
          \<and> (\<exists>p \<in> set ?ps. isl p))"
    by (intro disjI2 conjI)
  from fillTable_all_or_nothing[of failing_env played_world AxiosError "[JNum ''11'']"
      ?w1 ?ps ?w2 "[]", THEN conjunct1, THEN mp, OF h]
  have d: "jeopardy_table (fillTable failing_env [] played_world) = Some played_table"
    "categories (fillTable failing_env [] played_world) = [demo_category]"
    by (simp_all add: p)
  have o: "fst (getCategoryIds offline_env played_world) = Inl AxiosError"
    by (simp add: offline_getCategoryIds)
  then have h2: "fst (getCategoryIds offline_env played_world) = Inl AxiosError
      \<or> (getCategoryIds offline_env played_world = (Inr [], played_world)
          \<and> getCategory_each offline_env [] played_world = ([], played_world)
          \<and> (\<exists>p \<in> set ([] :: (js_error + category) list). isl p))"
    by (rule disjI1)
  from fillTable_all_or_nothing[of offline_env played_world AxiosError "[]"
      played_world "[]" played_world "[]", THEN conjunct1, THEN mp, OF h2]
  have f: "jeopardy_table (fillTable offline_env [] played_world) = Some played_table"
    "categories (fillTable offline_env [] played_world) = [demo_category]"
    by (simp_all add: p)
  have g: "fst (fetch_categories demo_env played_world) = Inr [demo_category, demo_category]"
    by (simp add: demo_fetch_categories)
  from fillTable_all_or_nothing[of demo_env played_world AxiosError "[]"
      played_world "[]" played_world "[]", THEN conjunct2, rule_format,
      OF demo_fetch_fst[of played_world]]
  have k: "categories (fillTable demo_env [] played_world) = [demo_category, demo_category]" .
  show ?thesis
    by (intro conjI) (fact a, fact b, fact p(1), fact p(2), fact d(1), fact d(2), fact o,
      fact f(1), fact f(2), fact g, fact k)
qed

lemma demo_world_hide:
  "hideLoadingView demo_world = (None, snd (hideLoadingView demo_world))
   \<and> requests (snd (hideLoadingView demo_world)) = []
   \<and> categories (snd (hideLoadingView demo_world)) = []
   \<and> jeopardy_table (snd (hideLoadingView demo_world)) = Some (createElement ''table'')"
proof -
  have "hideLoadingView demo_world = (None, snd (hideLoadingView demo_world))"
    by (rule demo_hide) (simp_all add: demo_world_def)
  with hideLoadingView_frame[of demo_world] show ?thesis
    by (simp add: demo_world_def)
qed

lemma failing_fetch_categories:
  "fetch_categories failing_env w =
     (Inl (Error ''Failed to retrieve category data''),
      console_error AxiosError (log_request (GetClues ''11'')
        ((log_request (GetCategories 100) w)\<lparr>draws := draws w + 1\<rparr>)))"
  by (simp add: fetch_categories_def failing_getCategoryIds failing_getCategory)

lemma failing_startGame:
  "fst (startGame failing_env demo_world) = None
   \<and> map fst (issued demo_world (snd (startGame failing_env demo_world))) =
       [GetCategories 100, GetClues ''11'']
   \<and> categories (snd (startGame failing_env demo_world)) = []
   \<and> jeopardy_table (snd (startGame failing_env demo_world)) = Some (createElement ''table'')"
proof -
  define w0 where "w0 = snd (showLoadingView demo_world)"
  define w1 where "w1 = snd (hideLoadingView w0)"
  define w2 where "w2 = snd (fetch_categories failing_env w1)"
  have "showLoadingView demo_world =
    (None, demo_world\<lparr>jeopardy_table := Some (set_childNodes (createElement ''table'') []),
       loading_spinner := Some ''block'',
       fetch_data_button := Some \<lparr>disabled = True, buttonText = ''Loading...''\<rparr>\<rparr>)"
    by (rule showLoadingView_ok) (simp_all add: demo_world_def)
  then have show0: "showLoadingView demo_world = (None, w0)"
    and v0: "loading_spinner w0 = Some ''block''"
      "fetch_data_button w0 = Some \<lparr>disabled = True, buttonText = ''Loading...''\<rparr>"
    and t0: "jeopardy_table w0 = Some (createElement ''table'')"
    and c0: "categories w0 = []"
    by (simp_all add: w0_def createElement_def demo_world_def)
  have hide: "hideLoadingView w0 = (None, w1)"
    unfolding w1_def using v0 by (rule demo_hide)
  have first: "fetch_categories failing_env w1 =
      (Inl (Error ''Failed to retrieve category data''), w2)"
    unfolding w2_def by (simp add: failing_fetch_categories)
  from show0 have g: "startGame failing_env demo_world = (None, setupAndStart failing_env w0)"
    by (simp add: startGame_def)
  have s: "setupAndStart failing_env w0 =
      console_error (Error ''Failed to retrieve category data'') w2"
    using hide first by (rule setupAndStart_first_fails)
  from showLoadingView_frame[of demo_world] have r0: "requests w0 = requests demo_world"
    by (simp add: w0_def)
  from hideLoadingView_frame[of w0] have r1: "requests w1 = requests w0"
    and t1: "jeopardy_table w1 = jeopardy_table w0" and c1: "categories w1 = categories w0"
    by (simp_all add: w1_def)
  have r2: "map fst (requests w2) = map fst (requests w1) @ [GetCategories 100, GetClues ''11'']"
    unfolding w2_def by (simp add: failing_fetch_categories)
  from fetch_categories_effect[OF first]
  have t2: "jeopardy_table w2 = jeopardy_table w1" and c2: "categories w2 = categories w1"
    by simp_all
  have e: "requests demo_world = []" by (simp add: demo_world_def)
  have i: "map fst (issued demo_world (snd (startGame failing_env demo_world))) =
       [GetCategories 100, GetClues ''11'']"
    unfolding issued_def g s by (simp add: e drop_map[symmetric] r2 r1 r0)
  show ?thesis
    using i by (simp add: g s t2 t1 t0 c2 c1 c0)
qed

lemma flaky_getCategoryIds:
  "getCategoryIds flaky_env w =
     (Inr [JNum ''1''], (log_request (GetCategories 100) w)\<lparr>draws := draws w + 1\<rparr>)"
proof -
  have r: "respond flaky_env (length (requests w)) (GetCategories 100) =
      Some (JArr [JObj [(''id'', JNum ''1'')]])"
    by (simp add: flaky_env_def)
  have j: "js_map (\<lambda>category. get_prop category ''id'') (JArr [JObj [(''id'', JNum ''1'')]]) =
      Inr [JNum ''1'']"
    by simp
  have s: "shuffleSelf rnd k 0 (Suc 0) [JNum ''1''] = replicate (Suc 0) (JNum ''1'')" for rnd k
    by (rule shuffleSelf_constant) simp_all
  show ?thesis
    unfolding getCategoryIds_resolved[OF r] j
    by (simp add: sampleSize_def NUM_CATEGORIES_def s)
qed

lemma flaky_fetch_categories:
  "fetch_categories flaky_env w =
     (if length (requests w) = 0 then
        (Inr [\<lparr>title = JStr ''1'', clues = []\<rparr>],
         log_request (GetClues ''1'')
           ((log_request (GetCategories 100) w)\<lparr>draws := draws w + 1\<rparr>))
      else
        (Inl (Error ''Failed to retrieve category data''),
         console_error AxiosError (log_request (GetClues ''1'')
           ((log_request (GetCategories 100) w)\<lparr>draws := draws w + 1\<rparr>))))"
proof -
  have t: "toString (JNum ''1'') = Inr ''1''" by simp
  show ?thesis
  proof (cases "length (requests w) = 0")
    case True
    then have "respond flaky_env
        (length (requests ((log_request (GetCategories 100) w)\<lparr>draws := draws w + 1\<rparr>)))
        (GetClues ''1'') = Some (JObj [(''title'', JStr ''1''), (''clues'', JArr [])])"
      by (simp add: flaky_env_def)
    from getCategory_resolved[OF t this] True show ?thesis
      by (simp add: fetch_categories_def flaky_getCategoryIds category_of_data_def)
  next
    case False
    then have "respond flaky_env
        (length (requests ((log_request (GetCategories 100) w)\<lparr>draws := draws w + 1\<rparr>)))
        (GetClues ''1'') = None"
      by (simp add: flaky_env_def)
    from getCategory_rejected[OF t this] False show ?thesis
      by (simp add: fetch_categories_def flaky_getCategoryIds)
  qed
qed

text \<open>
  C7, as the code has it. \<^verbatim>\<open>startGame\<close> continues as \<^verbatim>\<open>setupAndStart\<close> when
  \<^verbatim>\<open>showLoadingView\<close> returns. When \<^verbatim>\<open>hideLoadingView\<close> returns and the fetches of
  \<^verbatim>\<open>setupAndStart\<close> itself succeed, the start fetches twice: \<^verbatim>\<open>setupAndStart\<close>
  requests the identifiers and a category for each identifier of its sample that has a text,
  and then continues as \<^verbatim>\<open>fillTable\<close>, which does not read its argument and requests the
  identifiers again, and a category for each identifier of its own second sample. The
  categories fetched first are stored nowhere; when the second fetches succeed, the module's
  \<^verbatim>\<open>categories\<close> and the table are those of the second fetch, and when they fail both
  are as before the start. When one of \<^verbatim>\<open>setupAndStart\<close>'s own fetches fails, the start
  fetches once: the identifiers are requested once, \<^verbatim>\<open>fillTable\<close> is not called, and
  \<^verbatim>\<open>categories\<close> and the table are unchanged. When \<^verbatim>\<open>hideLoadingView\<close> throws,
  nothing is fetched.
\<close>

theorem game_start_fetches_twice:
  "(\<forall>w1 cats1 w2. hideLoadingView w = (None, w1)
        \<and> fetch_categories env w1 = (Inr cats1, w2) \<longrightarrow>
        setupAndStart env w = fillTable env [cats1] w2
      \<and> (\<forall>args. fillTable env args w2 = fillTable env [] w2)
      \<and> categories w2 = categories w
      \<and> jeopardy_table w2 = jeopardy_table w
      \<and> (\<exists>ids1. fst (getCategoryIds env w1) = Inr ids1
            \<and> map fst (issued w w2) = GetCategories 100 # clue_requests ids1)
      \<and> map fst (issued w2 (setupAndStart env w)) =
          GetCategories 100 #
            (case fst (getCategoryIds env w2) of Inl e \<Rightarrow> [] | Inr ids2 \<Rightarrow> clue_requests ids2)
      \<and> (\<forall>cats2 w3. fetch_categories env w2 = (Inr cats2, w3) \<longrightarrow>
            (\<exists>ids2. fst (getCategoryIds env w2) = Inr ids2
               \<and> map fst (issued w2 (setupAndStart env w)) =
                   GetCategories 100 # clue_requests ids2)
          \<and> categories (setupAndStart env w) = cats2
          \<and> jeopardy_table (setupAndStart env w) =
              map_option (\<lambda>table. snd (buildGrid cats2 table)) (jeopardy_table w))
      \<and> (\<forall>e w3. fetch_categories env w2 = (Inl e, w3) \<longrightarrow>
            categories (setupAndStart env w) = categories w
          \<and> jeopardy_table (setupAndStart env w) = jeopardy_table w))
   \<and> (\<forall>w1 e w2. hideLoadingView w = (None, w1)
        \<and> fetch_categories env w1 = (Inl e, w2) \<longrightarrow>
        setupAndStart env w = console_error e w2
      \<and> map fst (issued w (setupAndStart env w)) =
          GetCategories 100 #
            (case fst (getCategoryIds env w1) of Inl e \<Rightarrow> [] | Inr ids \<Rightarrow> clue_requests ids)
      \<and> categories (setupAndStart env w) = categories w
      \<and> jeopardy_table (setupAndStart env w) = jeopardy_table w)
   \<and> (\<forall>e w1. hideLoadingView w = (Some e, w1) \<longrightarrow>
        setupAndStart env w = console_error e w1
      \<and> issued w (setupAndStart env w) = [])
   \<and> (\<forall>v. showLoadingView v = (None, w) \<longrightarrow>
        startGame env v = (None, setupAndStart env w))"
proof -
  have twice: "setupAndStart env w = fillTable env [cats1] w2
      \<and> (\<forall>args. fillTable env args w2 = fillTable env [] w2)
      \<and> categories w2 = categories w
      \<and> jeopardy_table w2 = jeopardy_table w
      \<and> (\<exists>ids1. fst (getCategoryIds env w1) = Inr ids1
            \<and> map fst (issued w w2) = GetCategories 100 # clue_requests ids1)
      \<and> map fst (issued w2 (setupAndStart env w)) =
          GetCategories 100 #
            (case fst (getCategoryIds env w2) of Inl e \<Rightarrow> [] | Inr ids2 \<Rightarrow> clue_requests ids2)
      \<and> (\<forall>cats2 w3. fetch_categories env w2 = (Inr cats2, w3) \<longrightarrow>
            (\<exists>ids2. fst (getCategoryIds env w2) = Inr ids2
               \<and> map fst (issued w2 (setupAndStart env w)) =
                   GetCategories 100 # clue_requests ids2)
          \<and> categories (setupAndStart env w) = cats2
          \<and> jeopardy_table (setupAndStart env w) =
              map_option (\<lambda>table. snd (buildGrid cats2 table)) (jeopardy_table w))
      \<and> (\<forall>e w3. fetch_categories env w2 = (Inl e, w3) \<longrightarrow>
            categories (setupAndStart env w) = categories w
          \<and> jeopardy_table (setupAndStart env w) = jeopardy_table w)"
    if hyp: "hideLoadingView w = (None, w1) \<and> fetch_categories env w1 = (Inr cats1, w2)"
    for w1 cats1 w2
  proof -
    from hyp have hide: "hideLoadingView w = (None, w1)"
      and first: "fetch_categories env w1 = (Inr cats1, w2)" by simp_all
    have s: "setupAndStart env w = fillTable env [cats1] w2"
      using hide first by (rule setupAndStart_first_succeeds)
    have ign: "\<forall>args. fillTable env args w2 = fillTable env [] w2"
      by (intro allI) (rule fillTable_ignores_argument)
    from hideLoadingView_frame[of w] hide
    have h: "requests w1 = requests w" "jeopardy_table w1 = jeopardy_table w"
      "categories w1 = categories w" by simp_all
    from fetch_categories_effect[OF first] h
    have f: "categories w2 = categories w" "jeopardy_table w2 = jeopardy_table w" by simp_all
    from fetch_categories_issued[OF first] issued_frame[OF h(1), of w2]
    have i1: "\<exists>ids1. fst (getCategoryIds env w1) = Inr ids1
          \<and> map fst (issued w w2) = GetCategories 100 # clue_requests ids1" by simp
    have i2: "map fst (issued w2 (setupAndStart env w)) =
          GetCategories 100 #
            (case fst (getCategoryIds env w2) of Inl e \<Rightarrow> [] | Inr ids2 \<Rightarrow> clue_requests ids2)"
      unfolding s fillTable_issued by (rule fetch_categories_issued_any)
    have second: "(\<exists>ids2. fst (getCategoryIds env w2) = Inr ids2
               \<and> map fst (issued w2 (setupAndStart env w)) =
                   GetCategories 100 # clue_requests ids2)
          \<and> categories (setupAndStart env w) = cats2
          \<and> jeopardy_table (setupAndStart env w) =
              map_option (\<lambda>table. snd (buildGrid cats2 table)) (jeopardy_table w)"
      if t: "fetch_categories env w2 = (Inr cats2, w3)" for cats2 w3
    proof -
      from fetch_categories_issued[OF t]
      have a: "\<exists>ids2. fst (getCategoryIds env w2) = Inr ids2
          \<and> map fst (issued w2 (setupAndStart env w)) = GetCategories 100 # clue_requests ids2"
        unfolding s fillTable_issued t by simp
      from fillTable_result[OF t, of "[cats1]"] f(2)
      have b: "categories (setupAndStart env w) = cats2
          \<and> jeopardy_table (setupAndStart env w) =
              map_option (\<lambda>table. snd (buildGrid cats2 table)) (jeopardy_table w)"
        unfolding s by simp
      from a b show ?thesis by (rule conjI)
    qed
    then have ok: "\<forall>cats2 w3. fetch_categories env w2 = (Inr cats2, w3) \<longrightarrow>
            (\<exists>ids2. fst (getCategoryIds env w2) = Inr ids2
               \<and> map fst (issued w2 (setupAndStart env w)) =
                   GetCategories 100 # clue_requests ids2)
          \<and> categories (setupAndStart env w) = cats2
          \<and> jeopardy_table (setupAndStart env w) =
              map_option (\<lambda>table. snd (buildGrid cats2 table)) (jeopardy_table w)"
      by (intro allI impI)
    have "categories (setupAndStart env w) = categories w
          \<and> jeopardy_table (setupAndStart env w) = jeopardy_table w"
      if t: "fetch_categories env w2 = (Inl e, w3)" for e w3
      using fetch_categories_effect[OF t] f
      by (simp add: s fillTable_failure[OF t])
    then have bad: "\<forall>e w3. fetch_categories env w2 = (Inl e, w3) \<longrightarrow>
            categories (setupAndStart env w) = categories w
          \<and> jeopardy_table (setupAndStart env w) = jeopardy_table w"
      by (intro allI impI)
    show ?thesis
      by (intro conjI) (fact s, fact ign, fact f(1), fact f(2), fact i1, fact i2, fact ok,
        fact bad)
  qed
  have once: "setupAndStart env w = console_error e w2
      \<and> map fst (issued w (setupAndStart env w)) =
          GetCategories 100 #
            (case fst (getCategoryIds env w1) of Inl e \<Rightarrow> [] | Inr ids \<Rightarrow> clue_requests ids)
      \<and> categories (setupAndStart env w) = categories w
      \<and> jeopardy_table (setupAndStart env w) = jeopardy_table w"
    if hyp: "hideLoadingView w = (None, w1) \<and> fetch_categories env w1 = (Inl e, w2)"
    for w1 e w2
  proof -
    from hyp have hide: "hideLoadingView w = (None, w1)"
      and first: "fetch_categories env w1 = (Inl e, w2)" by simp_all
    have s: "setupAndStart env w = console_error e w2"
      using hide first by (rule setupAndStart_first_fails)
    from hideLoadingView_frame[of w] hide
    have h: "requests w1 = requests w" "jeopardy_table w1 = jeopardy_table w"
      "categories w1 = categories w" by simp_all
    from fetch_categories_effect[OF first] h
    have f: "categories w2 = categories w" "jeopardy_table w2 = jeopardy_table w" by simp_all
    have "issued w (console_error e w2) = issued w1 (snd (fetch_categories env w1))"
      using h(1) by (simp add: issued_def first)
    then have i: "map fst (issued w (setupAndStart env w)) =
          GetCategories 100 #
            (case fst (getCategoryIds env w1) of Inl e \<Rightarrow> [] | Inr ids \<Rightarrow> clue_requests ids)"
      unfolding s by (simp only: fetch_categories_issued_any)
    from f have c: "categories (setupAndStart env w) = categories w"
      and t: "jeopardy_table (setupAndStart env w) = jeopardy_table w"
      unfolding s by simp_all
    show ?thesis
      by (intro conjI) (fact s, fact i, fact c, fact t)
  qed
  have none: "setupAndStart env w = console_error e w1 \<and> issued w (setupAndStart env w) = []"
    if hide: "hideLoadingView w = (Some e, w1)" for e w1
  proof -
    have s: "setupAndStart env w = console_error e w1"
      using hide by (rule setupAndStart_hide_throws)
    from hideLoadingView_frame[of w] hide have "requests w1 = requests w" by simp
    then have "issued w (console_error e w1) = []"
      by (simp add: issued_def)
    with s show ?thesis by simp
  qed
  have start: "\<forall>v. showLoadingView v = (None, w) \<longrightarrow>
        startGame env v = (None, setupAndStart env w)"
    by (simp add: startGame_def)
  from twice have twice: "\<forall>w1 cats1 w2. hideLoadingView w = (None, w1)
        \<and> fetch_categories env w1 = (Inr cats1, w2) \<longrightarrow>
        setupAndStart env w = fillTable env [cats1] w2
      \<and> (\<forall>args. fillTable env args w2 = fillTable env [] w2)
      \<and> categories w2 = categories w
      \<and> jeopardy_table w2 = jeopardy_table w
      \<and> (\<exists>ids1. fst (getCategoryIds env w1) = Inr ids1
            \<and> map fst (issued w w2) = GetCategories 100 # clue_requests ids1)
      \<and> map fst (issued w2 (setupAndStart env w)) =
          GetCategories 100 #
            (case fst (getCategoryIds env w2) of Inl e \<Rightarrow> [] | Inr ids2 \<Rightarrow> clue_requests ids2)
      \<and> (\<forall>cats2 w3. fetch_categories env w2 = (Inr cats2, w3) \<longrightarrow>
            (\<exists>ids2. fst (getCategoryIds env w2) = Inr ids2
               \<and> map fst (issued w2 (setupAndStart env w)) =
                   GetCategories 100 # clue_requests ids2)
          \<and> categories (setupAndStart env w) = cats2
          \<and> jeopardy_table (setupAndStart env w) =
              map_option (\<lambda>table. snd (buildGrid cats2 table)) (jeopardy_table w))
      \<and> (\<forall>e w3. fetch_categories env w2 = (Inl e, w3) \<longrightarrow>
            categories (setupAndStart env w) = categories w
          \<and> jeopardy_table (setupAndStart env w) = jeopardy_table w)"
    by (intro allI impI)
  from once have once: "\<forall>w1 e w2. hideLoadingView w = (None, w1)
        \<and> fetch_categories env w1 = (Inl e, w2) \<longrightarrow>
        setupAndStart env w = console_error e w2
      \<and> map fst (issued w (setupAndStart env w)) =
          GetCategories 100 #
            (case fst (getCategoryIds env w1) of Inl e \<Rightarrow> [] | Inr ids \<Rightarrow> clue_requests ids)
      \<and> categories (setupAndStart env w) = categories w
      \<and> jeopardy_table (setupAndStart env w) = jeopardy_table w"
    by (intro allI impI)
  from none have none: "\<forall>e w1. hideLoadingView w = (Some e, w1) \<longrightarrow>
        setupAndStart env w = console_error e w1
      \<and> issued w (setupAndStart env w) = []"
    by (intro allI impI)
  show ?thesis
    by (intro conjI) (fact twice, fact once, fact none, fact start)
qed

theorem game_start_fetches_twice_witness:
  "fst (hideLoadingView demo_world) = None
   \<and> fst (fetch_categories two_round_env (snd (hideLoadingView demo_world))) =
       Inr [\<lparr>title = JStr ''1'', clues = []\<rparr>]
   \<and> map fst (issued demo_world
        (snd (fetch_categories two_round_env (snd (hideLoadingView demo_world))))) =
       [GetCategories 100, GetClues ''1'']
   \<and> fst (fetch_categories two_round_env
        (snd (fetch_categories two_round_env (snd (hideLoadingView demo_world))))) =
       Inr [\<lparr>title = JStr ''2'', clues = []\<rparr>]
   \<and> map fst (issued (snd (fetch_categories two_round_env (snd (hideLoadingView demo_world))))
        (setupAndStart two_round_env demo_world)) =
       [GetCategories 100, GetClues ''2'']
   \<and> categories (setupAndStart two_round_env demo_world) = [\<lparr>title = JStr ''2'', clues = []\<rparr>]
   \<and> jeopardy_table (setupAndStart two_round_env demo_world) =
       Some (snd (buildGrid [\<lparr>title = JStr ''2'', clues = []\<rparr>] (createElement ''table'')))
   \<and> theadRows (snd (buildGrid [\<lparr>title = JStr ''2'', clues = []\<rparr>] (createElement ''table''))) =
       [Elem (Element ''tr'' [] None 0 [Elem (Element ''th'' [] None 0 [Text ''2''])])]
   \<and> fst (fetch_categories failing_env (snd (hideLoadingView demo_world))) =
       Inl (Error ''Failed to retrieve category data'')
   \<and> map fst (issued demo_world (setupAndStart failing_env demo_world)) =
       [GetCategories 100, GetClues ''11'']
   \<and> categories (setupAndStart failing_env demo_world) = []
   \<and> fst (hideLoadingView played_world) = None
   \<and> fst (fetch_categories flaky_env (snd (hideLoadingView played_world))) =
       Inr [\<lparr>title = JStr ''1'', clues = []\<rparr>]
   \<and> fst (fetch_categories flaky_env
        (snd (fetch_categories flaky_env (snd (hideLoadingView played_world))))) =
       Inl (Error ''Failed to retrieve category data'')
   \<and> categories (setupAndStart flaky_env played_world) = [demo_category]
   \<and> jeopardy_table (setupAndStart flaky_env played_world) = Some played_table
   \<and> hideLoadingView (demo_world\<lparr>loading_spinner := None\<rparr>) =
       (Some TypeError, demo_world\<lparr>loading_spinner := None\<rparr>)
   \<and> issued (demo_world\<lparr>loading_spinner := None\<rparr>)
        (setupAndStart demo_env (demo_world\<lparr>loading_spinner := None\<rparr>)) = []
   \<and> fst (showLoadingView demo_world) = None
   \<and> startGame two_round_env demo_world =
       (None, setupAndStart two_round_env (snd (showLoadingView demo_world)))"
proof -
  define w1 where "w1 = snd (hideLoadingView demo_world)"
  define w2 where "w2 = snd (fetch_categories two_round_env w1)"
  define w3 where "w3 = snd (fetch_categories two_round_env w2)"
  define v2 where "v2 = snd (fetch_categories failing_env w1)"
  from demo_world_hide have hide: "hideLoadingView demo_world = (None, w1)"
    and r1: "requests w1 = []" and t1: "jeopardy_table w1 = Some (createElement ''table'')"
    by (simp_all add: w1_def)
  have first: "fetch_categories two_round_env w1 = (Inr [\<lparr>title = JStr ''1'', clues = []\<rparr>], w2)"
    unfolding w2_def by (simp add: two_round_fetch_categories r1)
  have r2: "requests w2 \<noteq> []"
    unfolding w2_def by (simp add: two_round_fetch_categories r1)
  have again: "fetch_categories two_round_env w2 = (Inr [\<lparr>title = JStr ''2'', clues = []\<rparr>], w3)"
    unfolding w3_def using r2 by (simp add: two_round_fetch_categories)
  have fails: "fetch_categories failing_env w1 =
      (Inl (Error ''Failed to retrieve category data''), v2)"
    unfolding v2_def by (simp add: failing_fetch_categories)
  have i1: "fst (getCategoryIds two_round_env w1) = Inr [JNum ''1'']"
    by (simp add: two_round_getCategoryIds r1)
  have i2: "fst (getCategoryIds two_round_env w2) = Inr [JNum ''2'']"
    using r2 by (simp add: two_round_getCategoryIds)
  have i3: "fst (getCategoryIds failing_env w1) = Inr [JNum ''11'']"
    by (simp add: failing_getCategoryIds)
  have dw: "jeopardy_table demo_world = Some (createElement ''table'')"
    "categories demo_world = []"
    by (simp_all add: demo_world_def)
  note t = game_start_fetches_twice[of demo_world two_round_env, THEN conjunct1,
      rule_format, OF conjI, OF hide first]
  note t5 = t[THEN conjunct2, THEN conjunct2, THEN conjunct2, THEN conjunct2, THEN conjunct1]
  note t7 = t[THEN conjunct2, THEN conjunct2, THEN conjunct2, THEN conjunct2, THEN conjunct2,
      THEN conjunct2, THEN conjunct1, rule_format, OF again]
  from t5 i1 have a: "map fst (issued demo_world w2) = [GetCategories 100, GetClues ''1'']"
    by auto
  from t7 i2 have b: "map fst (issued w2 (setupAndStart two_round_env demo_world)) =
      [GetCategories 100, GetClues ''2'']"
    by auto
  from t7 have c: "categories (setupAndStart two_round_env demo_world) =
      [\<lparr>title = JStr ''2'', clues = []\<rparr>]"
    by simp
  from t7 have d: "jeopardy_table (setupAndStart two_round_env demo_world) =
       Some (snd (buildGrid [\<lparr>title = JStr ''2'', clues = []\<rparr>] (createElement ''table'')))"
    by (simp add: dw)
  have h: "header_loop [\<lparr>title = JStr ''2'', clues = []\<rparr>] (createElement ''tr'') =
      (None, Element ''tr'' [] None 0 [Elem (Element ''th'' [] None 0 [Text ''2''])])"
    by (simp add: headerCell_def dom_string_def createElement_def)
  have e: "theadRows (snd (buildGrid [\<lparr>title = JStr ''2'', clues = []\<rparr>]
      (createElement ''table''))) =
       [Elem (Element ''tr'' [] None 0 [Elem (Element ''th'' [] None 0 [Text ''2''])])]"
    using buildGrid_rows[OF h, of "createElement ''table''"]
    by (simp add: theadRows_def createElement_def)
  note u = game_start_fetches_twice[of demo_world failing_env, THEN conjunct2, THEN conjunct1,
      rule_format, OF conjI, OF hide fails]
  from u[THEN conjunct2, THEN conjunct1] i3
  have f: "map fst (issued demo_world (setupAndStart failing_env demo_world)) =
       [GetCategories 100, GetClues ''11'']"
    by simp
  from u[THEN conjunct2, THEN conjunct2, THEN conjunct1]
  have g: "categories (setupAndStart failing_env demo_world) = []"
    by (simp add: dw)
  from hide have h0: "fst (hideLoadingView demo_world) = None" by simp
  from first have h1: "fst (fetch_categories two_round_env w1) =
      Inr [\<lparr>title = JStr ''1'', clues = []\<rparr>]" by simp
  from again have h2: "fst (fetch_categories two_round_env w2) =
      Inr [\<lparr>title = JStr ''2'', clues = []\<rparr>]" by simp
  from fails have h3: "fst (fetch_categories failing_env w1) =
      Inl (Error ''Failed to retrieve category data'')" by simp
  define p1 where "p1 = snd (hideLoadingView played_world)"
  define p2 where "p2 = snd (fetch_categories flaky_env p1)"
  define p3 where "p3 = snd (fetch_categories flaky_env p2)"
  have pw: "jeopardy_table played_world = Some played_table"
    "categories played_world = [demo_category]" "requests played_world = []"
    by (simp_all add: played_world_def demo_world_def)
  have phide: "hideLoadingView played_world = (None, p1)"
    unfolding p1_def by (rule demo_hide) (simp_all add: played_world_def demo_world_def)
  from hideLoadingView_frame[of played_world] have q1: "requests p1 = []"
    by (simp add: p1_def pw)
  have pfirst: "fetch_categories flaky_env p1 = (Inr [\<lparr>title = JStr ''1'', clues = []\<rparr>], p2)"
    unfolding p2_def by (simp add: flaky_fetch_categories q1)
  have q2: "requests p2 \<noteq> []"
    unfolding p2_def by (simp add: flaky_fetch_categories q1)
  have pagain: "fetch_categories flaky_env p2 =
      (Inl (Error ''Failed to retrieve category data''), p3)"
    unfolding p3_def using q2 by (simp add: flaky_fetch_categories)
  note x = game_start_fetches_twice[of played_world flaky_env, THEN conjunct1,
      rule_format, OF conjI, OF phide pfirst]
  note x8 = x[THEN conjunct2, THEN conjunct2, THEN conjunct2, THEN conjunct2, THEN conjunct2,
      THEN conjunct2, THEN conjunct2, rule_format, OF pagain]
  from x8 have k1: "categories (setupAndStart flaky_env played_world) = [demo_category]"
    and k2: "jeopardy_table (setupAndStart flaky_env played_world) = Some played_table"
    by (simp_all add: pw)
  from phide have k3: "fst (hideLoadingView played_world) = None" by simp
  from pfirst have k4: "fst (fetch_categories flaky_env p1) =
      Inr [\<lparr>title = JStr ''1'', clues = []\<rparr>]" by simp
  from pagain have k5: "fst (fetch_categories flaky_env p2) =
      Inl (Error ''Failed to retrieve category data'')" by simp
  have nohide: "hideLoadingView (demo_world\<lparr>loading_spinner := None\<rparr>) =
       (Some TypeError, demo_world\<lparr>loading_spinner := None\<rparr>)"
    by (rule hideLoadingView_no_spinner) simp
  from game_start_fetches_twice[of "demo_world\<lparr>loading_spinner := None\<rparr>" demo_env,
      THEN conjunct2, THEN conjunct2, THEN conjunct1, rule_format, OF nohide, THEN conjunct2]
  have k6: "issued (demo_world\<lparr>loading_spinner := None\<rparr>)
        (setupAndStart demo_env (demo_world\<lparr>loading_spinner := None\<rparr>)) = []" .
  have sh: "showLoadingView demo_world = (None, snd (showLoadingView demo_world))"
    using showLoadingView_ok[of demo_world "createElement ''table''" "[]"
        "\<lparr>disabled = False, buttonText = ''Fetch Data''\<rparr>"]
    by (simp add: demo_world_def)
  from arg_cong[OF sh, of fst] have k7: "fst (showLoadingView demo_world) = None"
    by simp
  from game_start_fetches_twice[of "snd (showLoadingView demo_world)" two_round_env,
      THEN conjunct2, THEN conjunct2, THEN conjunct2, rule_format, OF sh]
  have k8: "startGame two_round_env demo_world =
       (None, setupAndStart two_round_env (snd (showLoadingView demo_world)))" .
  show ?thesis
    unfolding w1_def[symmetric] w2_def[symmetric] p1_def[symmetric] p2_def[symmetric]
    by (intro conjI) (fact h0, fact h1, fact a, fact h2, fact b, fact c, fact d, fact e,
      fact h3, fact f, fact g, fact k3, fact k4, fact k5, fact k1, fact k2, fact nohide,
      fact k6, fact k7, fact k8)
qed

text \<open>
  Not every game start fetches twice: with a service that rejects the clue request,
  \<^verbatim>\<open>startGame\<close> returns after one request for the identifiers and one for a category;
  \<^verbatim>\<open>fillTable\<close> is never called, and \<^verbatim>\<open>categories\<close> and the wiped table stay as they
  are.
\<close>

theorem game_start_fetches_twice_counterexample:
  "fst (startGame failing_env demo_world) = None
   \<and> map fst (issued demo_world (snd (startGame failing_env demo_world))) =
       [GetCategories 100, GetClues ''11'']
   \<and> categories (snd (startGame failing_env demo_world)) = []
   \<and> jeopardy_table (snd (startGame failing_env demo_world)) = Some (createElement ''table'')"
  by (rule failing_startGame)

text \<open>
  C10. Every request that a run of \<^verbatim>\<open>startGame\<close> (or of \<^verbatim>\<open>setupAndStart\<close>) issues is
  issued after \<^verbatim>\<open>hideLoadingView\<close> has run: at the moment of each request the spinner's
  display is "none" and the fetch button is enabled with the label "Fetch Data". The
  loading view that \<^verbatim>\<open>showLoadingView\<close> sets up is in place at no request.
\<close>

theorem requests_issued_while_hidden:
  "requests (snd (startGame env w)) = requests w @ issued w (snd (startGame env w))
   \<and> (\<forall>q \<in> set (issued w (snd (startGame env w))).
        snd q = (Some ''none'', Some \<lparr>disabled = False, buttonText = ''Fetch Data''\<rparr>))
   \<and> requests (setupAndStart env w) = requests w @ issued w (setupAndStart env w)
   \<and> (\<forall>q \<in> set (issued w (setupAndStart env w)).
        snd q = (Some ''none'', Some \<lparr>disabled = False, buttonText = ''Fetch Data''\<rparr>))"
proof -
  from startGame_requests[of env w] obtain qs where
    a: "requests (snd (startGame env w)) =
     requests w @ map (\<lambda>q. (q, Some ''none'',
       Some \<lparr>disabled = False, buttonText = ''Fetch Data''\<rparr>)) qs" by blast
  from setupAndStart_requests[of env w] obtain qs' where
    b: "requests (setupAndStart env w) =
     requests w @ map (\<lambda>q. (q, Some ''none'',
       Some \<lparr>disabled = False, buttonText = ''Fetch Data''\<rparr>)) qs'" by blast
  have ia: "issued w (snd (startGame env w)) = map (\<lambda>q. (q, Some ''none'',
       Some \<lparr>disabled = False, buttonText = ''Fetch Data''\<rparr>)) qs"
    unfolding issued_def a by simp
  have ib: "issued w (setupAndStart env w) = map (\<lambda>q. (q, Some ''none'',
       Some \<lparr>disabled = False, buttonText = ''Fetch Data''\<rparr>)) qs'"
    unfolding issued_def b by simp
  show ?thesis
    unfolding ia ib using a b by simp
qed

theorem requests_issued_while_hidden_witness:
  "map fst (issued demo_world (snd (startGame demo_env demo_world))) =
     [GetCategories 100, GetClues ''11'', GetClues ''11'',
      GetCategories 100, GetClues ''11'', GetClues ''11'']
   \<and> map snd (issued demo_world (snd (startGame demo_env demo_world))) =
     replicate 6 (Some ''none'', Some \<lparr>disabled = False, buttonText = ''Fetch Data''\<rparr>)"
proof -
  from requests_issued_while_hidden[of demo_env demo_world]
  have "\<forall>q \<in> set (issued demo_world (snd (startGame demo_env demo_world))).
        snd q = (Some ''none'', Some \<lparr>disabled = False, buttonText = ''Fetch Data''\<rparr>)"
    by (elim conjE)
  then have "map snd (issued demo_world (snd (startGame demo_env demo_world))) =
      replicate (length (issued demo_world (snd (startGame demo_env demo_world))))
        (Some ''none'', Some \<lparr>disabled = False, buttonText = ''Fetch Data''\<rparr>)"
    by (rule map_constant)
  moreover have "length (issued demo_world (snd (startGame demo_env demo_world))) = 6"
    using arg_cong[OF demo_startGame_issued, of length] by simp
  ultimately show ?thesis using demo_startGame_issued by simp
qed

section \<open>Properties of the click listeners\<close>

lemma clueListener_throws: "clueListener this = Inl TypeError"
  by (simp add: clueListener_def handleClick_def)

lemma dispatchClick_throws: "r \<in> set (dispatchClick root path) \<Longrightarrow> r = Inl TypeError"
  by (auto simp: dispatchClick_def clueListener_throws)

lemma addClueClickHandler_elements:
  "elements_of (addClueClickHandler e) = map addClueClickHandler (elements_of e)"
  "node_elements (addClueClickHandler_node n) = map addClueClickHandler (node_elements n)"
proof (induction e and n rule: addClueClickHandler_addClueClickHandler_node.induct)
  case (1 tag cls c l kids)
  then have m: "map (\<lambda>k. node_elements (addClueClickHandler_node k)) kids =
      map (\<lambda>k. map addClueClickHandler (node_elements k)) kids"
    by (intro map_cong refl)
  have "elements_of (addClueClickHandler (Element tag cls c l kids)) =
      addClueClickHandler (Element tag cls c l kids) #
        concat (map (\<lambda>k. node_elements (addClueClickHandler_node k)) kids)"
    by (simp add: comp_def)
  also have "\<dots> = addClueClickHandler (Element tag cls c l kids) #
        concat (map (\<lambda>k. map addClueClickHandler (node_elements k)) kids)"
    by (simp only: m)
  also have "\<dots> = map addClueClickHandler (elements_of (Element tag cls c l kids))"
    by (simp add: map_concat comp_def)
  finally show ?case .
next
  case (2 s)
  show ?case by simp
next
  case (3 e)
  then show ?case by simp
qed

lemma addClueClickHandler_own:
  "clickListeners (addClueClickHandler e) =
     (if ''clue'' \<in> set (classList e) then Suc (clickListeners e) else clickListeners e)
   \<and> tagName (addClueClickHandler e) = tagName e
   \<and> classList (addClueClickHandler e) = classList e
   \<and> clue_prop (addClueClickHandler e) = clue_prop e"
  by (cases e) simp

lemma grid_cell_elements:
  "elements_of (set_textContent (createElement ''th'') t) =
     [set_textContent (createElement ''th'') t]"
  "elements_of bodyCell = [bodyCell, Element ''span'' [] None 0 [Text ''?'']]"
  by (simp_all add: th_cell_eq bodyCell_eq)

lemma plain_headerCell:
  "classList (set_textContent (createElement ''th'') t) = []
   \<and> clue_prop (set_textContent (createElement ''th'') t) = None
   \<and> clickListeners (set_textContent (createElement ''th'') t) = 0"
  by (simp add: th_cell_eq)

lemma plain_bodyCell:
  "classList bodyCell = [] \<and> clue_prop bodyCell = None \<and> clickListeners bodyCell = 0"
  by (simp add: bodyCell_eq)

lemma headerRow_elements:
  assumes "e \<in> set (elements_of (snd (header_loop cs (createElement ''tr''))))"
  shows "classList e = [] \<and> clue_prop e = None \<and> clickListeners e = 0"
proof -
  from header_loop_row[of cs "createElement ''tr''"] obtain texts
    where r: "snd (header_loop cs (createElement ''tr'')) =
      Element ''tr'' [] None 0
        (map (\<lambda>t. Elem (set_textContent (createElement ''th'') t)) texts)"
    by (auto simp: createElement_def)
  from assms have "e = Element ''tr'' [] None 0
        (map (\<lambda>t. Elem (set_textContent (createElement ''th'') t)) texts)
      \<or> (\<exists>t \<in> set texts. e = set_textContent (createElement ''th'') t)"
    unfolding r by (auto simp: grid_cell_elements)
  then show ?thesis
  proof
    assume "e = Element ''tr'' [] None 0
        (map (\<lambda>t. Elem (set_textContent (createElement ''th'') t)) texts)"
    then show ?thesis by simp
  next
    assume "\<exists>t \<in> set texts. e = set_textContent (createElement ''th'') t"
    then show ?thesis by (auto simp: plain_headerCell)
  qed
qed

lemma bodyRow_elements:
  assumes "e \<in> set (elements_of (bodyRow cs))"
  shows "classList e = [] \<and> clue_prop e = None \<and> clickListeners e = 0"
proof -
  from assms have "e = bodyRow cs \<or> e = bodyCell \<or> e = Element ''span'' [] None 0 [Text ''?'']"
    unfolding bodyRow_eq by (auto simp: grid_cell_elements split: if_splits)
  then show ?thesis
    using plain_bodyCell by (auto simp: bodyRow_eq)
qed

lemma new_tbody_elements:
  assumes "e \<in> set (elements_of (body_loop 0 cs (createElement ''tbody'')))"
  shows "classList e = [] \<and> clue_prop e = None \<and> clickListeners e = 0"
proof -
  from assms have "e = body_loop 0 cs (createElement ''tbody'')
      \<or> e \<in> set (elements_of (bodyRow cs))"
    unfolding new_tbody_eq by (auto split: if_splits)
  then show ?thesis
  proof
    assume "e = body_loop 0 cs (createElement ''tbody'')"
    then show ?thesis by (simp add: new_tbody_eq)
  next
    assume "e \<in> set (elements_of (bodyRow cs))"
    then show ?thesis by (rule bodyRow_elements)
  qed
qed

lemma new_board_elements:
  assumes "e \<in> set (concat (map node_elements
    (childNodes (snd (buildGrid cs (set_childNodes table []))))))"
  shows "classList e = [] \<and> clue_prop e = None \<and> clickListeners e = 0"
proof -
  obtain thrown row where h: "header_loop cs (createElement ''tr'') = (thrown, row)"
    by (cases "header_loop cs (createElement ''tr'')")
  then have r: "row = snd (header_loop cs (createElement ''tr''))" by simp
  from assms have "e = Element ''thead'' [] None 0 [Elem row]
      \<or> e \<in> set (elements_of row)
      \<or> e \<in> set (elements_of (body_loop 0 cs (createElement ''tbody'')))"
    unfolding buildGrid_wiped[OF h] new_tbody_eq by (auto split: if_splits)
  then show ?thesis
    using headerRow_elements[of e cs] new_tbody_elements unfolding r by auto
qed

lemma demo_board_eq:
  "demo_board = Element ''table'' [''clue''] None 1
     [Elem (Element ''thead'' [] None 0
        [Elem (Element ''tr'' [] None 0 [Elem (Element ''th'' [] None 0 [Text ''Math''])])]),
      Elem (Element ''tbody'' [] None 0
        (replicate NUM_CLUES_PER_CAT (Elem (bodyRow [demo_category]))))]"
proof -
  have h: "header_loop [demo_category] (createElement ''tr'') =
      (None, Element ''tr'' [] None 0 [Elem (Element ''th'' [] None 0 [Text ''Math''])])"
    by (simp add: headerCell_def dom_string_def demo_category_def createElement_def)
  have "snd (buildGrid [demo_category] (Element ''table'' [''clue''] None 0 [])) =
      Element ''table'' [''clue''] None 0
       [Elem (Element ''thead'' [] None 0
          [Elem (Element ''tr'' [] None 0 [Elem (Element ''th'' [] None 0 [Text ''Math''])])]),
        Elem (Element ''tbody'' [] None 0
          (replicate NUM_CLUES_PER_CAT (Elem (bodyRow [demo_category]))))]"
    using buildGrid_wiped[OF h, of "Element ''table'' [''clue''] None 0 []"]
    by simp
  then show ?thesis
    by (simp add: demo_board_def bodyRow_eq bodyCell_eq comp_def)
qed

lemma demo_board_click: "dispatchClick demo_board [1, 0, 0] = [Inl TypeError]"
  by (simp add: demo_board_eq dispatchClick_def clueListener_throws
      bodyRow_eq bodyCell_eq NUM_CLUES_PER_CAT_def eval_nat_numeral)

text \<open>
  C2. \<^verbatim>\<open>handleClick\<close> returns only for an event object whose target carries a clue.
  The registered listener calls it with the element itself, and that call throws a
  \<^verbatim>\<open>TypeError\<close> before the toggle, for every element. \<^verbatim>\<open>addClueClickHandler\<close> gives a
  listener to the elements of class \<^verbatim>\<open>clue\<close> and to no other. Every element that
  \<^verbatim>\<open>fillTable\<close> puts below the wiped table, also when it stops at a title, has no class,
  no clue and no listener, and gets none from \<^verbatim>\<open>addClueClickHandler\<close>. So a click anywhere on a board calls no listener at
  all, or listeners on the way up that each throw: no call reaches the toggle, and no
  clue's \<^verbatim>\<open>showing\<close> is changed.
\<close>

theorem board_clicks_never_toggle:
  "(\<forall>evt r. handleClick evt = Inr r \<longrightarrow>
      (\<exists>el c. evt = EventObj (Some el) \<and> clue_prop el = Some c))
   \<and> (\<forall>this. clueListener this = Inl TypeError)
   \<and> (\<forall>root. elements_of (addClueClickHandler root) =
        map addClueClickHandler (elements_of root))
   \<and> (\<forall>e. clickListeners (addClueClickHandler e) =
        (if ''clue'' \<in> set (classList e) then Suc (clickListeners e) else clickListeners e))
   \<and> (\<forall>cs table e.
        e \<in> set (concat (map node_elements
              (childNodes (snd (buildGrid cs (set_childNodes table [])))))) \<longrightarrow>
        ''clue'' \<notin> set (classList e) \<and> clue_prop e = None \<and> clickListeners e = 0
        \<and> clickListeners (addClueClickHandler e) = 0)
   \<and> (\<forall>root path. \<forall>r \<in> set (dispatchClick root path). r = Inl TypeError)"
proof -
  have 1: "\<forall>evt r. handleClick evt = Inr r \<longrightarrow>
      (\<exists>el c. evt = EventObj (Some el) \<and> clue_prop el = Some c)"
    using handleClick_Inr by blast
  have 2: "\<forall>this. clueListener this = Inl TypeError"
    by (simp add: clueListener_throws)
  have 3: "\<forall>root. elements_of (addClueClickHandler root) =
        map addClueClickHandler (elements_of root)"
    by (simp add: addClueClickHandler_elements)
  have 4: "\<forall>e. clickListeners (addClueClickHandler e) =
        (if ''clue'' \<in> set (classList e) then Suc (clickListeners e) else clickListeners e)"
    using addClueClickHandler_own by blast
  have 5: "''clue'' \<notin> set (classList e) \<and> clue_prop e = None \<and> clickListeners e = 0
        \<and> clickListeners (addClueClickHandler e) = 0"
    if "e \<in> set (concat (map node_elements
              (childNodes (snd (buildGrid cs (set_childNodes table []))))))" for cs table e
  proof -
    from new_board_elements[OF that]
    have p: "classList e = []" "clue_prop e = None" "clickListeners e = 0" by simp_all
    with addClueClickHandler_own[of e] show ?thesis by simp
  qed
  have 6: "\<forall>root path. \<forall>r \<in> set (dispatchClick root path). r = Inl TypeError"
    using dispatchClick_throws by blast
  from 1 2 3 4 5 6 show ?thesis by (intro conjI allI impI) blast+
qed

theorem board_clicks_never_toggle_witness:
  "dispatchClick demo_board [1, 0, 0] = [Inl TypeError]
   \<and> clueListener demo_board = Inl TypeError
   \<and> clickListeners demo_board = 1
   \<and> clickListeners (addClueClickHandler demo_cell) = 1
   \<and> handleClick (ElementObj demo_cell) = Inl TypeError"
proof -
  note t = board_clicks_never_toggle
  from t have a: "clueListener demo_board = Inl TypeError" by blast
  from t have "clueListener demo_cell = Inl TypeError" by blast
  then have b: "handleClick (ElementObj demo_cell) = Inl TypeError"
    by (simp add: clueListener_def)
  from t have "clickListeners (addClueClickHandler demo_cell) =
        (if ''clue'' \<in> set (classList demo_cell) then Suc (clickListeners demo_cell)
         else clickListeners demo_cell)" by blast
  then have c: "clickListeners (addClueClickHandler demo_cell) = 1"
    by (simp add: demo_cell_def)
  have d: "clickListeners demo_board = 1"
    by (simp add: demo_board_eq)
  from a b c d demo_board_click show ?thesis by simp
qed

end
